theory Spec2Isabelle
  imports Main "HOL-Library.Word"
begin

unbundle bit_operations_syntax

section \<open>Platform constants\<close>

text \<open>
  The allocator is modelled for the 64-bit configuration: \<open>INTERNAL_SIZE_T\<close>, \<open>size_t\<close>,
  \<open>unsigned long\<close> and \<open>uintptr_t\<close> are 64-bit words, pointers are 64-bit addresses.
\<close>

type_synonym addr = "64 word"

text \<open>
  Modelled from the spec: \<open>SIZE_SZ\<close> and \<open>MALLOC_ALIGNMENT\<close> are defined in
  \<open>malloc-internal.h\<close> and \<open>malloc-alignment.h\<close>, which are not part of the sources at hand.
  The spec fixes the word as the header unit and the alignment quantum as 2 words; on the
  64-bit platform the word is 8 bytes.
\<close>

definition SIZE_SZ :: "64 word" where
  "SIZE_SZ = 8"

definition MALLOC_ALIGNMENT :: "64 word" where
  "MALLOC_ALIGNMENT = 2 * SIZE_SZ"

definition MALLOC_ALIGN_MASK :: "64 word" where
  "MALLOC_ALIGN_MASK = MALLOC_ALIGNMENT - 1"

text \<open>\<open>offsetof (struct malloc_chunk, fd_nextsize)\<close>: four word-sized fields precede it.\<close>

definition MIN_CHUNK_SIZE :: "64 word" where
  "MIN_CHUNK_SIZE = 4 * SIZE_SZ"

definition MINSIZE :: "64 word" where
  "MINSIZE = (MIN_CHUNK_SIZE + MALLOC_ALIGN_MASK) AND NOT MALLOC_ALIGN_MASK"

definition PTRDIFF_MAX :: "64 word" where
  "PTRDIFF_MAX = 0x7FFFFFFFFFFFFFFF"

section \<open>Size-class indexing\<close>

definition NSMALLBINS :: "64 word" where
  "NSMALLBINS = 64"

definition SMALLBIN_WIDTH :: "64 word" where
  "SMALLBIN_WIDTH = MALLOC_ALIGNMENT"

definition SMALLBIN_CORRECTION :: "64 word" where
  "SMALLBIN_CORRECTION = (if MALLOC_ALIGNMENT > 2 * SIZE_SZ then 1 else 0)"

definition MIN_LARGE_SIZE :: "64 word" where
  "MIN_LARGE_SIZE = (NSMALLBINS - SMALLBIN_CORRECTION) * SMALLBIN_WIDTH"

definition in_smallbin_range :: "64 word \<Rightarrow> bool" where
  "in_smallbin_range sz \<longleftrightarrow> sz < MIN_LARGE_SIZE"

text \<open>\<open>smallbin_index\<close> truncates the size to \<open>unsigned\<close> (32 bits) before shifting.\<close>

definition smallbin_index :: "64 word \<Rightarrow> 32 word" where
  "smallbin_index sz =
     (if SMALLBIN_WIDTH = 16 then drop_bit 4 (ucast sz :: 32 word)
      else drop_bit 3 (ucast sz :: 32 word))
     + ucast SMALLBIN_CORRECTION"

definition largebin_index_64 :: "64 word \<Rightarrow> 64 word" where
  "largebin_index_64 sz =
     (if drop_bit 6 sz \<le> 48 then 48 + drop_bit 6 sz
      else if drop_bit 9 sz \<le> 20 then 91 + drop_bit 9 sz
      else if drop_bit 12 sz \<le> 10 then 110 + drop_bit 12 sz
      else if drop_bit 15 sz \<le> 4 then 119 + drop_bit 15 sz
      else if drop_bit 18 sz \<le> 2 then 124 + drop_bit 18 sz
      else 126)"

definition largebin_index_32 :: "64 word \<Rightarrow> 64 word" where
  "largebin_index_32 sz =
     (if drop_bit 6 sz \<le> 38 then 56 + drop_bit 6 sz
      else if drop_bit 9 sz \<le> 20 then 91 + drop_bit 9 sz
      else if drop_bit 12 sz \<le> 10 then 110 + drop_bit 12 sz
      else if drop_bit 15 sz \<le> 4 then 119 + drop_bit 15 sz
      else if drop_bit 18 sz \<le> 2 then 124 + drop_bit 18 sz
      else 126)"

definition largebin_index_32_big :: "64 word \<Rightarrow> 64 word" where
  "largebin_index_32_big sz =
     (if drop_bit 6 sz \<le> 45 then 49 + drop_bit 6 sz
      else if drop_bit 9 sz \<le> 20 then 91 + drop_bit 9 sz
      else if drop_bit 12 sz \<le> 10 then 110 + drop_bit 12 sz
      else if drop_bit 15 sz \<le> 4 then 119 + drop_bit 15 sz
      else if drop_bit 18 sz \<le> 2 then 124 + drop_bit 18 sz
      else 126)"

definition largebin_index :: "64 word \<Rightarrow> 64 word" where
  "largebin_index sz =
     (if SIZE_SZ = 8 then largebin_index_64 sz
      else if MALLOC_ALIGNMENT = 16 then largebin_index_32_big sz
      else largebin_index_32 sz)"

text \<open>
  The large-bin index as the specification words it, on natural numbers: a cascade of
  granularities 64, 512, 4096, 32768 and 262144, and bin 126 for the remainder.
\<close>

definition spec_largebin_index :: "nat \<Rightarrow> nat" where
  "spec_largebin_index sz =
     (if sz div 64 \<le> 48 then 48 + sz div 64
      else if sz div 512 \<le> 20 then 91 + sz div 512
      else if sz div 4096 \<le> 10 then 110 + sz div 4096
      else if sz div 32768 \<le> 4 then 119 + sz div 32768
      else if sz div 262144 \<le> 2 then 124 + sz div 262144
      else 126)"

section \<open>Memory\<close>

text \<open>
  Memory is byte-addressed. Word-sized fields are read and written little-endian, eight
  bytes at a time, so that overlapping and misaligned accesses behave as on the machine.
\<close>

type_synonym heap = "addr \<Rightarrow> 8 word"

definition byte_at :: "64 word \<Rightarrow> nat \<Rightarrow> 8 word" where
  "byte_at v i = ucast (drop_bit (8 * i) v)"

definition load64 :: "heap \<Rightarrow> addr \<Rightarrow> 64 word" where
  "load64 m a =
     ucast (m a) OR push_bit 8 (ucast (m (a + 1))) OR push_bit 16 (ucast (m (a + 2)))
     OR push_bit 24 (ucast (m (a + 3))) OR push_bit 32 (ucast (m (a + 4)))
     OR push_bit 40 (ucast (m (a + 5))) OR push_bit 48 (ucast (m (a + 6)))
     OR push_bit 56 (ucast (m (a + 7)))"

definition store64 :: "heap \<Rightarrow> addr \<Rightarrow> 64 word \<Rightarrow> heap" where
  "store64 m a v = (\<lambda>x. if x - a < 8 then byte_at v (unat (x - a)) else m x)"

text \<open>\<open>memset (p, c, n)\<close> and \<open>memcpy (dst, src, n)\<close> on the byte memory.\<close>

definition memset :: "heap \<Rightarrow> addr \<Rightarrow> 8 word \<Rightarrow> 64 word \<Rightarrow> heap" where
  "memset m p c n = (\<lambda>x. if x - p < n then c else m x)"

definition memcpy :: "heap \<Rightarrow> addr \<Rightarrow> addr \<Rightarrow> 64 word \<Rightarrow> heap" where
  "memcpy m dst src n = (\<lambda>x. if x - dst < n then m (src + (x - dst)) else m x)"

section \<open>Chunk layout and boundary-tag primitives\<close>

text \<open>
  \<open>struct malloc_chunk\<close>: \<open>mchunk_prev_size\<close> at offset 0, \<open>mchunk_size\<close> at \<open>SIZE_SZ\<close>,
  then the pointers \<open>fd\<close>, \<open>bk\<close>, \<open>fd_nextsize\<close>, \<open>bk_nextsize\<close>.
\<close>

definition chunk2mem :: "addr \<Rightarrow> addr" where
  "chunk2mem p = p + 2 * SIZE_SZ"

definition mem2chunk :: "addr \<Rightarrow> addr" where
  "mem2chunk mem = mem - 2 * SIZE_SZ"

definition aligned_OK :: "64 word \<Rightarrow> bool" where
  "aligned_OK m \<longleftrightarrow> m AND MALLOC_ALIGN_MASK = 0"

definition misaligned_chunk :: "addr \<Rightarrow> 64 word" where
  "misaligned_chunk p =
     (if MALLOC_ALIGNMENT = 2 * SIZE_SZ then p else chunk2mem p) AND MALLOC_ALIGN_MASK"

definition request2size :: "64 word \<Rightarrow> 64 word" where
  "request2size req =
     (if req + SIZE_SZ + MALLOC_ALIGN_MASK < MINSIZE then MINSIZE
      else (req + SIZE_SZ + MALLOC_ALIGN_MASK) AND NOT MALLOC_ALIGN_MASK)"

text \<open>\<open>checked_request2size\<close>: \<open>None\<close> is the \<open>false\<close> return, \<open>Some sz\<close> is \<open>true\<close> with \<open>*sz\<close>.\<close>

definition checked_request2size :: "64 word \<Rightarrow> 64 word option" where
  "checked_request2size req =
     (if req > PTRDIFF_MAX then None else Some (request2size req))"

definition PREV_INUSE :: "64 word" where
  "PREV_INUSE = 1"

definition IS_MMAPPED :: "64 word" where
  "IS_MMAPPED = 2"

definition NON_MAIN_ARENA :: "64 word" where
  "NON_MAIN_ARENA = 4"

definition SIZE_BITS :: "64 word" where
  "SIZE_BITS = (PREV_INUSE OR IS_MMAPPED OR NON_MAIN_ARENA)"

definition prev_size :: "heap \<Rightarrow> addr \<Rightarrow> 64 word" where
  "prev_size m p = load64 m p"

definition set_prev_size :: "heap \<Rightarrow> addr \<Rightarrow> 64 word \<Rightarrow> heap" where
  "set_prev_size m p sz = store64 m p sz"

definition chunksize_nomask :: "heap \<Rightarrow> addr \<Rightarrow> 64 word" where
  "chunksize_nomask m p = load64 m (p + SIZE_SZ)"

definition chunksize :: "heap \<Rightarrow> addr \<Rightarrow> 64 word" where
  "chunksize m p = chunksize_nomask m p AND NOT SIZE_BITS"

definition prev_inuse :: "heap \<Rightarrow> addr \<Rightarrow> bool" where
  "prev_inuse m p \<longleftrightarrow> chunksize_nomask m p AND PREV_INUSE \<noteq> 0"

definition chunk_is_mmapped :: "heap \<Rightarrow> addr \<Rightarrow> bool" where
  "chunk_is_mmapped m p \<longleftrightarrow> chunksize_nomask m p AND IS_MMAPPED \<noteq> 0"

definition chunk_main_arena :: "heap \<Rightarrow> addr \<Rightarrow> bool" where
  "chunk_main_arena m p \<longleftrightarrow> chunksize_nomask m p AND NON_MAIN_ARENA = 0"

definition set_head :: "heap \<Rightarrow> addr \<Rightarrow> 64 word \<Rightarrow> heap" where
  "set_head m p s = store64 m (p + SIZE_SZ) s"

definition set_non_main_arena :: "heap \<Rightarrow> addr \<Rightarrow> heap" where
  "set_non_main_arena m p = set_head m p (chunksize_nomask m p OR NON_MAIN_ARENA)"

definition chunk_at_offset :: "addr \<Rightarrow> 64 word \<Rightarrow> addr" where
  "chunk_at_offset p s = p + s"

definition next_chunk :: "heap \<Rightarrow> addr \<Rightarrow> addr" where
  "next_chunk m p = p + chunksize m p"

definition inuse :: "heap \<Rightarrow> addr \<Rightarrow> bool" where
  "inuse m p \<longleftrightarrow> chunksize_nomask m (p + chunksize m p) AND PREV_INUSE \<noteq> 0"

definition set_inuse_bit_at_offset :: "heap \<Rightarrow> addr \<Rightarrow> 64 word \<Rightarrow> heap" where
  "set_inuse_bit_at_offset m p s = set_head m (p + s) (chunksize_nomask m (p + s) OR PREV_INUSE)"

definition set_foot :: "heap \<Rightarrow> addr \<Rightarrow> 64 word \<Rightarrow> heap" where
  "set_foot m p s = set_prev_size m (p + s) s"

definition fd :: "heap \<Rightarrow> addr \<Rightarrow> addr" where
  "fd m p = load64 m (p + 2 * SIZE_SZ)"

definition bk :: "heap \<Rightarrow> addr \<Rightarrow> addr" where
  "bk m p = load64 m (p + 3 * SIZE_SZ)"

definition fd_nextsize :: "heap \<Rightarrow> addr \<Rightarrow> addr" where
  "fd_nextsize m p = load64 m (p + 4 * SIZE_SZ)"

definition bk_nextsize :: "heap \<Rightarrow> addr \<Rightarrow> addr" where
  "bk_nextsize m p = load64 m (p + 5 * SIZE_SZ)"

definition set_fd :: "heap \<Rightarrow> addr \<Rightarrow> addr \<Rightarrow> heap" where
  "set_fd m p v = store64 m (p + 2 * SIZE_SZ) v"

definition set_bk :: "heap \<Rightarrow> addr \<Rightarrow> addr \<Rightarrow> heap" where
  "set_bk m p v = store64 m (p + 3 * SIZE_SZ) v"

definition set_fd_nextsize :: "heap \<Rightarrow> addr \<Rightarrow> addr \<Rightarrow> heap" where
  "set_fd_nextsize m p v = store64 m (p + 4 * SIZE_SZ) v"

definition set_bk_nextsize :: "heap \<Rightarrow> addr \<Rightarrow> addr \<Rightarrow> heap" where
  "set_bk_nextsize m p v = store64 m (p + 5 * SIZE_SZ) v"

text \<open>\<open>fastbin_index\<close> truncates the size to \<open>unsigned int\<close>; the subtraction wraps.\<close>

definition fastbin_index :: "64 word \<Rightarrow> 32 word" where
  "fastbin_index sz = drop_bit (if SIZE_SZ = 8 then 4 else 3) (ucast sz :: 32 word) - 2"

definition csize2tidx :: "64 word \<Rightarrow> 64 word" where
  "csize2tidx x = (x - MINSIZE + MALLOC_ALIGNMENT - 1) div MALLOC_ALIGNMENT"

definition TCACHE_MAX_BINS :: "64 word" where
  "TCACHE_MAX_BINS = 64"

definition TCACHE_FILL_COUNT :: "64 word" where
  "TCACHE_FILL_COUNT = 7"

definition MAX_TCACHE_COUNT :: "64 word" where
  "MAX_TCACHE_COUNT = 0xFFFF"

text \<open>\<open>DEFAULT_MMAP_THRESHOLD_MAX\<close> for 64-bit \<open>long\<close>: \<open>4 * 1024 * 1024 * sizeof (long)\<close>.\<close>

definition DEFAULT_MMAP_THRESHOLD_MAX :: "64 word" where
  "DEFAULT_MMAP_THRESHOLD_MAX = 4 * 1024 * 1024 * 8"

definition MAX_ITERS :: nat where
  "MAX_ITERS = 10000"

text \<open>
  Modelled from the spec: \<open>ALIGN_UP\<close> comes from \<open>libc-pointer-arith.h\<close> and \<open>powerof2\<close>
  from \<open>sys/param.h\<close>, neither of which is among the sources. \<open>ALIGN_UP\<close> is the
  page-aligned value of its argument (rounded up to the next multiple of a power-of-two
  size); \<open>powerof2\<close> accepts zero and the powers of two.
\<close>

definition ALIGN_UP :: "64 word \<Rightarrow> 64 word \<Rightarrow> 64 word" where
  "ALIGN_UP base sz = (base + sz - 1) AND (- sz)"

definition powerof2 :: "64 word \<Rightarrow> bool" where
  "powerof2 x \<longleftrightarrow> (x - 1) AND x = 0"

section \<open>Allocator state\<close>

text \<open>
  \<open>tcache_perthread_struct\<close>: the per-class counters (\<open>uint16_t\<close>) and list heads. Both
  arrays have \<open>TCACHE_MAX_BINS\<close> elements in the source; every access below is guarded by
  \<open>tc_idx < mp_.tcache_bins\<close>.
\<close>

record tcache_perthread_struct =
  counts :: "nat \<Rightarrow> 16 word"
  entries :: "nat \<Rightarrow> addr"

text \<open>\<open>struct malloc_par\<close>, the fields read or written by the code modelled here.\<close>

record malloc_par =
  trim_threshold :: "64 word"
  mmap_threshold :: "64 word"
  n_mmaps :: "32 word"
  no_dyn_threshold :: "32 word"
  mmapped_mem :: "64 word"
  max_mmapped_mem :: "64 word"
  tcache_bins :: "64 word"
  tcache_count :: "64 word"
  tcache_unsorted_limit :: "64 word"

text \<open>
  \<open>struct malloc_state\<close> (an arena). The scalar fields are kept in a record; the bin table
  \<open>bins\<close> is kept in memory, at its offset from the arena's address, because the list code
  addresses every bin header as a chunk (\<open>bin_at\<close>) and links chunks to it.
\<close>

record malloc_state =
  have_fastchunks :: bool
  fastbinsY :: "nat \<Rightarrow> addr"
  av_top :: addr
  last_remainder :: addr
  binmap :: "nat \<Rightarrow> 32 word"
  system_mem :: "64 word"

text \<open>The primitives of the operating system that the allocator calls, in call order.\<close>

datatype os_call = Munmap addr "64 word" | Mremap addr "64 word" "64 word"

text \<open>
  The whole allocator state as seen by one thread: memory, the parameter record \<open>mp_\<close>,
  the arenas by address, the thread's \<open>tcache\<close> pointer with the structure it points to,
  and the remaining globals. Locks are not modelled: the code is followed sequentially.
\<close>

record gstate =
  mem :: heap
  mp :: malloc_par
  arena :: "addr \<Rightarrow> malloc_state"
  main_arena :: addr
  tcache :: addr
  tcache_struct :: tcache_perthread_struct
  tcache_shutting_down :: bool
  global_max_fast :: "64 word"
  perturb_byte :: "32 word"
  errno :: int
  dumped_main_arena_start :: addr
  dumped_main_arena_end :: addr
  dl_pagesize :: "64 word"
  using_malloc_checking :: "32 word"
  single_thread :: bool
  os_trace :: "os_call list"

definition ENOMEM :: int where
  "ENOMEM = 12"

text \<open>
  \<open>malloc_printerr\<close> and a failed \<open>assert\<close> end the process; the outcome keeps the message
  and the state reached at that point.
\<close>

datatype 'a outcome = Abort string gstate | Return 'a gstate

text \<open>
  The parts of the allocator that are outside the sources at hand (the hook variables
  and \<open>malloc_check_get_size\<close> of \<open>hooks.c\<close>, arena selection of \<open>arena.c\<close>, the
  \<open>mremap\<close> system call), and the parts of \<open>malloc.c\<close> that no property below depends on,
  are parameters: the search of \<open>_int_malloc\<close> after the unsorted drain, \<open>sysmalloc\<close>,
  \<open>malloc_consolidate\<close>, the coalescing branch of \<open>_int_free\<close> and \<open>_int_realloc\<close>.
  A parameter that may loop returns \<open>None\<close> then.
\<close>

record env =
  malloc_hook :: "(64 word \<Rightarrow> gstate \<Rightarrow> addr outcome option) option"
  free_hook :: "(addr \<Rightarrow> gstate \<Rightarrow> unit outcome option) option"
  realloc_hook :: "(addr \<Rightarrow> 64 word \<Rightarrow> gstate \<Rightarrow> addr outcome option) option"
  arena_get :: "64 word \<Rightarrow> gstate \<Rightarrow> addr \<times> gstate"
  arena_get_retry :: "addr \<Rightarrow> 64 word \<Rightarrow> gstate \<Rightarrow> addr \<times> gstate"
  heap_for_ptr_arena :: "gstate \<Rightarrow> addr \<Rightarrow> addr"
  sysmalloc :: "64 word \<Rightarrow> addr \<Rightarrow> gstate \<Rightarrow> addr outcome option"
  malloc_consolidate :: "addr \<Rightarrow> gstate \<Rightarrow> unit outcome option"
  int_free_consolidate :: "addr \<Rightarrow> addr \<Rightarrow> 64 word \<Rightarrow> bool \<Rightarrow> gstate \<Rightarrow> unit outcome option"
  int_realloc :: "addr \<Rightarrow> addr \<Rightarrow> 64 word \<Rightarrow> 64 word \<Rightarrow> gstate \<Rightarrow> addr outcome option"
  malloc_check_get_size :: "gstate \<Rightarrow> addr \<Rightarrow> 64 word"
  HAVE_MREMAP :: bool
  os_mremap :: "gstate \<Rightarrow> addr \<Rightarrow> 64 word \<Rightarrow> 64 word \<Rightarrow> addr \<times> heap"

definition upd_arena :: "addr \<Rightarrow> (malloc_state \<Rightarrow> malloc_state) \<Rightarrow> gstate \<Rightarrow> gstate" where
  "upd_arena av f s = s\<lparr>arena := (arena s)(av := f (arena s av))\<rparr>"

definition get_max_fast :: "gstate \<Rightarrow> 64 word" where
  "get_max_fast s = global_max_fast s"

definition DUMPED_MAIN_ARENA_CHUNK :: "gstate \<Rightarrow> addr \<Rightarrow> bool" where
  "DUMPED_MAIN_ARENA_CHUNK s p \<longleftrightarrow> p \<ge> dumped_main_arena_start s \<and> p < dumped_main_arena_end s"

text \<open>
  Modelled from the spec: \<open>arena_for_chunk\<close> is defined in \<open>arena.c\<close>, which is not among
  the sources. A chunk with the A flag clear belongs to the primary arena; otherwise the
  arena is read from the header of the heap that contains the chunk.
\<close>

definition arena_for_chunk :: "env \<Rightarrow> gstate \<Rightarrow> addr \<Rightarrow> addr" where
  "arena_for_chunk E s p =
     (if chunk_main_arena (mem s) p then main_arena s else heap_for_ptr_arena E s p)"

subsection \<open>Perturbation\<close>

definition alloc_perturb :: "gstate \<Rightarrow> addr \<Rightarrow> 64 word \<Rightarrow> gstate" where
  "alloc_perturb s p n =
     (if perturb_byte s \<noteq> 0
      then s\<lparr>mem := memset (mem s) p (ucast (perturb_byte s XOR 0xff)) n\<rparr>
      else s)"

definition free_perturb :: "gstate \<Rightarrow> addr \<Rightarrow> 64 word \<Rightarrow> gstate" where
  "free_perturb s p n =
     (if perturb_byte s \<noteq> 0
      then s\<lparr>mem := memset (mem s) p (ucast (perturb_byte s)) n\<rparr>
      else s)"

subsection \<open>Bins\<close>

text \<open>
  \<open>offsetof (struct malloc_state, bins)\<close> on the 64-bit platform: three \<open>int\<close> fields
  padded to 16 bytes, ten fast-bin heads, \<open>top\<close> and \<open>last_remainder\<close>.
\<close>

definition bins_offset :: "64 word" where
  "bins_offset = 112"

definition bin_at :: "addr \<Rightarrow> 32 word \<Rightarrow> addr" where
  "bin_at av i = av + bins_offset + ucast ((i - 1) * 2) * 8 - 2 * SIZE_SZ"

definition unsorted_chunks :: "addr \<Rightarrow> addr" where
  "unsorted_chunks av = bin_at av 1"

definition BINMAPSHIFT :: nat where
  "BINMAPSHIFT = 5"

definition BINMAPSIZE :: "32 word" where
  "BINMAPSIZE = 4"

definition idx2block :: "32 word \<Rightarrow> 32 word" where
  "idx2block i = drop_bit BINMAPSHIFT i"

definition idx2bit :: "32 word \<Rightarrow> 32 word" where
  "idx2bit i = push_bit (unat (i AND 31)) 1"

definition mark_bin :: "addr \<Rightarrow> 32 word \<Rightarrow> gstate \<Rightarrow> gstate" where
  "mark_bin av i s =
     upd_arena av
       (\<lambda>a. a\<lparr>binmap := (binmap a)
                 (unat (idx2block i) := binmap a (unat (idx2block i)) OR idx2bit i)\<rparr>) s"

subsection \<open>Per-thread cache\<close>

text \<open>\<open>tcache_entry\<close> overlays the payload: \<open>next\<close> at offset 0, \<open>key\<close> at offset 8.\<close>

definition tcache_put :: "gstate \<Rightarrow> addr \<Rightarrow> 64 word \<Rightarrow> gstate" where
  "tcache_put s chunk tc_idx =
     (let e = chunk2mem chunk;
          i = unat tc_idx;
          tc = tcache_struct s;
          m1 = store64 (mem s) (e + 8) (tcache s);
          m2 = store64 m1 e (entries tc i)
      in s\<lparr>mem := m2,
            tcache_struct := tc\<lparr>entries := (entries tc)(i := e),
                                 counts := (counts tc)(i := counts tc i + 1)\<rparr>\<rparr>)"

definition tcache_get :: "gstate \<Rightarrow> 64 word \<Rightarrow> addr outcome" where
  "tcache_get s tc_idx =
     (let i = unat tc_idx;
          tc = tcache_struct s;
          e = entries tc i;
          tc' = tc\<lparr>entries := (entries tc)(i := load64 (mem s) e),
                    counts := (counts tc)(i := counts tc i - 1)\<rparr>
      in Return e (s\<lparr>tcache_struct := tc', mem := store64 (mem s) (e + 8) 0\<rparr>))"

text \<open>
  The double-free scan of \<open>_int_free\<close>: walk the bucket from \<open>tmp\<close> along \<open>next\<close> until
  \<open>NULL\<close>; \<open>True\<close> when \<open>e\<close> is met. On a cyclic list that does not hold \<open>e\<close> the loop does
  not end.
\<close>

partial_function (option) tcache_scan :: "heap \<Rightarrow> addr \<Rightarrow> addr \<Rightarrow> bool option" where
  "tcache_scan m tmp e =
     (if tmp = 0 then Some False
      else if tmp = e then Some True
      else tcache_scan m (load64 m tmp) e)"

section \<open>Release\<close>

definition munmap_chunk :: "gstate \<Rightarrow> addr \<Rightarrow> unit outcome" where
  "munmap_chunk s p =
     (let pagesize = dl_pagesize s;
          size = chunksize (mem s) p
      in if \<not> chunk_is_mmapped (mem s) p then Abort ''assert: chunk_is_mmapped (p)'' s
         else if DUMPED_MAIN_ARENA_CHUNK s p then Return () s
         else
           let memp = chunk2mem p;
               block = p - prev_size (mem s) p;
               total_size = prev_size (mem s) p + size
           in if ((block OR total_size) AND (pagesize - 1)) \<noteq> 0
                 \<or> \<not> powerof2 (memp AND (pagesize - 1))
              then Abort ''munmap_chunk(): invalid pointer'' s
              else Return ()
                     (s\<lparr>mp := (mp s)\<lparr>n_mmaps := n_mmaps (mp s) - 1,
                                      mmapped_mem := mmapped_mem (mp s) - total_size\<rparr>,
                        os_trace := os_trace s @ [Munmap block total_size]\<rparr>))"

text \<open>
  The tcache block of \<open>_int_free\<close>. The result is \<open>None\<close> when the double-free scan does not
  end, \<open>Some (Some r)\<close> when the block ends the call (abort, or chunk pushed), and
  \<open>Some None\<close> when control falls through to the rest of \<open>_int_free\<close>.
\<close>

definition int_free_tcache :: "gstate \<Rightarrow> addr \<Rightarrow> 64 word \<Rightarrow> unit outcome option option" where
  "int_free_tcache s p sz =
     (let tc_idx = csize2tidx sz
      in if tcache s \<noteq> 0 \<and> tc_idx < tcache_bins (mp s) then
           let e = chunk2mem p
           in case (if load64 (mem s) (e + 8) = tcache s
                    then tcache_scan (mem s) (entries (tcache_struct s) (unat tc_idx)) e
                    else Some False) of
                None \<Rightarrow> None
              | Some True \<Rightarrow> Some (Some (Abort ''free(): double free detected in tcache 2'' s))
              | Some False \<Rightarrow>
                  if ucast (counts (tcache_struct s) (unat tc_idx)) < tcache_count (mp s)
                  then Some (Some (Return () (tcache_put s p tc_idx)))
                  else Some None
         else Some None)"

text \<open>
  The fast-bin branch of \<open>_int_free\<close> (\<open>TRIM_FASTBINS\<close> is 0). Without the lock the
  next-size test is repeated under the lock; sequentially it reads the same values. The
  compare-and-swap loop of the multi-threaded case succeeds at once when nothing
  interferes, and then does what the single-threaded branch does.
\<close>

definition fast_next_size_bad :: "gstate \<Rightarrow> addr \<Rightarrow> addr \<Rightarrow> 64 word \<Rightarrow> bool" where
  "fast_next_size_bad s av p sz \<longleftrightarrow>
     chunksize_nomask (mem s) (chunk_at_offset p sz) \<le> 2 * SIZE_SZ
     \<or> chunksize (mem s) (chunk_at_offset p sz) \<ge> system_mem (arena s av)"

definition int_free_fast :: "addr \<Rightarrow> addr \<Rightarrow> bool \<Rightarrow> 64 word \<Rightarrow> gstate \<Rightarrow> unit outcome" where
  "int_free_fast av p have_lock sz s =
     (if fast_next_size_bad s av p sz
         \<and> (if \<not> have_lock then fast_next_size_bad s av p sz else True)
      then Abort ''free(): invalid next size (fast)'' s
      else
        let s1 = free_perturb s (chunk2mem p) (sz - 2 * SIZE_SZ);
            s2 = upd_arena av (\<lambda>a. a\<lparr>have_fastchunks := True\<rparr>) s1;
            idx = fastbin_index sz;
            old = fastbinsY (arena s2 av) (unat idx)
        in if old = p then Abort ''double free or corruption (fasttop)'' s2
           else
             let s3 = upd_arena av (\<lambda>a. a\<lparr>fastbinsY := (fastbinsY a)(unat idx := p)\<rparr>)
                        (s2\<lparr>mem := set_fd (mem s2) p old\<rparr>)
             in if have_lock \<and> old \<noteq> 0 \<and> fastbin_index (chunksize (mem s3) old) \<noteq> idx
                then Abort ''invalid fastbin entry (free)'' s3
                else Return () s3)"

definition int_free :: "env \<Rightarrow> addr \<Rightarrow> addr \<Rightarrow> bool \<Rightarrow> gstate \<Rightarrow> unit outcome option" where
  "int_free E av p have_lock s =
     (let size = chunksize (mem s) p
      in if p > - size \<or> misaligned_chunk p \<noteq> 0
         then Some (Abort ''free(): invalid pointer'' s)
         else if size < MINSIZE \<or> \<not> aligned_OK size
         then Some (Abort ''free(): invalid size'' s)
         else
           case int_free_tcache s p size of
             None \<Rightarrow> None
           | Some (Some r) \<Rightarrow> Some r
           | Some None \<Rightarrow>
               if size \<le> get_max_fast s then Some (int_free_fast av p have_lock size s)
               else if \<not> chunk_is_mmapped (mem s) p
               then int_free_consolidate E av p size have_lock s
               else Some (munmap_chunk s p))"

section \<open>Allocation\<close>

text \<open>Sequencing of calls: an abort or a loop that does not end stops the caller too.\<close>

definition obind :: "'a outcome option \<Rightarrow> ('a \<Rightarrow> gstate \<Rightarrow> 'b outcome option) \<Rightarrow> 'b outcome option" where
  "obind r f = (case r of None \<Rightarrow> None | Some (Abort msg t) \<Rightarrow> Some (Abort msg t) | Some (Return x t) \<Rightarrow> f x t)"

subsection \<open>Fast bins and small bins\<close>

text \<open>
  The stash loops move further chunks of the requested size into the tcache while the
  bucket is below \<open>mp_.tcache_count\<close>. \<open>REMOVE_FB\<close> succeeds at once when nothing
  interferes, and then does what the single-threaded assignment does.
\<close>

partial_function (option) fast_stash :: "addr \<Rightarrow> 32 word \<Rightarrow> 64 word \<Rightarrow> gstate \<Rightarrow> gstate option" where
  "fast_stash av idx tc_idx s =
     (if ucast (counts (tcache_struct s) (unat tc_idx)) < tcache_count (mp s)
         \<and> fastbinsY (arena s av) (unat idx) \<noteq> 0
      then fast_stash av idx tc_idx
             (tcache_put
                (upd_arena av
                   (\<lambda>a. a\<lparr>fastbinsY := (fastbinsY a)
                             (unat idx := fd (mem s) (fastbinsY (arena s av) (unat idx)))\<rparr>) s)
                (fastbinsY (arena s av) (unat idx)) tc_idx)
      else Some s)"

definition small_unlink_stash :: "addr \<Rightarrow> addr \<Rightarrow> 64 word \<Rightarrow> addr \<Rightarrow> gstate \<Rightarrow> gstate" where
  "small_unlink_stash av bin nb tc_victim s =
     (let bck = bk (mem s) tc_victim;
          m1 = set_inuse_bit_at_offset (mem s) tc_victim nb;
          m2 = (if av \<noteq> main_arena s then set_non_main_arena m1 tc_victim else m1);
          m3 = set_bk m2 bin bck;
          m4 = set_fd m3 bck bin
      in s\<lparr>mem := m4\<rparr>)"

partial_function (option) small_stash :: "addr \<Rightarrow> addr \<Rightarrow> 64 word \<Rightarrow> 64 word \<Rightarrow> gstate \<Rightarrow> gstate option" where
  "small_stash av bin nb tc_idx s =
     (if ucast (counts (tcache_struct s) (unat tc_idx)) < tcache_count (mp s)
         \<and> bk (mem s) bin \<noteq> bin
      then (if bk (mem s) bin \<noteq> 0
            then small_stash av bin nb tc_idx
                   (tcache_put (small_unlink_stash av bin nb (bk (mem s) bin) s) (bk (mem s) bin) tc_idx)
            else small_stash av bin nb tc_idx s)
      else Some s)"

text \<open>
  The fast-bin and small-bin attempts of \<open>_int_malloc\<close>: \<open>Some (Some r)\<close> ends the call with
  \<open>r\<close>, \<open>Some None\<close> falls through, \<open>None\<close> is a stash loop that does not end.
\<close>

definition int_malloc_fast :: "addr \<Rightarrow> 64 word \<Rightarrow> 64 word \<Rightarrow> gstate \<Rightarrow> addr outcome option option" where
  "int_malloc_fast av nb bytes s =
     (if nb \<le> get_max_fast s then
        let idx = fastbin_index nb;
            victim = fastbinsY (arena s av) (unat idx)
        in if victim \<noteq> 0 then
             let s1 = upd_arena av
                        (\<lambda>a. a\<lparr>fastbinsY := (fastbinsY a)(unat idx := fd (mem s) victim)\<rparr>) s;
                 victim_idx = fastbin_index (chunksize (mem s1) victim)
             in if victim_idx \<noteq> idx
                then Some (Some (Abort ''malloc(): memory corruption (fast)'' s1))
                else
                  let tc_idx = csize2tidx nb
                  in case (if tcache s1 \<noteq> 0 \<and> tc_idx < tcache_bins (mp s1)
                           then fast_stash av idx tc_idx s1 else Some s1) of
                       None \<Rightarrow> None
                     | Some s2 \<Rightarrow>
                         Some (Some (Return (chunk2mem victim)
                                       (alloc_perturb s2 (chunk2mem victim) bytes)))
           else Some None
      else Some None)"

definition int_malloc_small :: "addr \<Rightarrow> 64 word \<Rightarrow> 64 word \<Rightarrow> gstate \<Rightarrow> addr outcome option option" where
  "int_malloc_small av nb bytes s =
     (let idx = smallbin_index nb;
          bin = bin_at av idx;
          victim = bk (mem s) bin
      in if victim \<noteq> bin then
           let bck = bk (mem s) victim
           in if fd (mem s) bck \<noteq> victim
              then Some (Some (Abort ''malloc(): smallbin double linked list corrupted'' s))
              else
                let m1 = set_inuse_bit_at_offset (mem s) victim nb;
                    m2 = set_bk m1 bin bck;
                    m3 = set_fd m2 bck bin;
                    m4 = (if av \<noteq> main_arena s then set_non_main_arena m3 victim else m3);
                    s1 = s\<lparr>mem := m4\<rparr>;
                    tc_idx = csize2tidx nb
                in case (if tcache s1 \<noteq> 0 \<and> tc_idx < tcache_bins (mp s1)
                         then small_stash av bin nb tc_idx s1 else Some s1) of
                     None \<Rightarrow> None
                   | Some s2 \<Rightarrow>
                       Some (Some (Return (chunk2mem victim)
                                     (alloc_perturb s2 (chunk2mem victim) bytes)))
         else Some None)"

subsection \<open>Draining the unsorted bin\<close>

text \<open>The integrity checks on the tail chunk: \<open>Some msg\<close> is the abort with that tag.\<close>

definition unsorted_checks :: "gstate \<Rightarrow> addr \<Rightarrow> addr \<Rightarrow> string option" where
  "unsorted_checks s av victim =
     (let m = mem s;
          bck = bk m victim;
          size = chunksize m victim;
          next = chunk_at_offset victim size
      in if size \<le> 2 * SIZE_SZ \<or> size > system_mem (arena s av)
         then Some ''malloc(): invalid size (unsorted)''
         else if chunksize_nomask m next < 2 * SIZE_SZ
                 \<or> chunksize_nomask m next > system_mem (arena s av)
         then Some ''malloc(): invalid next size (unsorted)''
         else if (prev_size m next AND NOT SIZE_BITS) \<noteq> size
         then Some ''malloc(): mismatching next->prev_size (unsorted)''
         else if fd m bck \<noteq> victim \<or> fd m victim \<noteq> unsorted_chunks av
         then Some ''malloc(): unsorted double linked list corrupted''
         else if prev_inuse m next
         then Some ''malloc(): invalid next->prev_inuse (unsorted)''
         else None)"

text \<open>
  The split of the last remainder. In a chained assignment \<open>a = b = c\<close> the store to \<open>b\<close>
  comes first.
\<close>

definition split_last_remainder :: "addr \<Rightarrow> 64 word \<Rightarrow> 64 word \<Rightarrow> addr \<Rightarrow> 64 word \<Rightarrow> gstate \<Rightarrow> addr outcome" where
  "split_last_remainder av nb bytes victim sz s =
     (let remainder_size = sz - nb;
          remainder = chunk_at_offset victim nb;
          m1 = set_fd (mem s) (unsorted_chunks av) remainder;
          m2 = set_bk m1 (unsorted_chunks av) remainder;
          s1 = upd_arena av (\<lambda>a. a\<lparr>last_remainder := remainder\<rparr>) (s\<lparr>mem := m2\<rparr>);
          m3 = set_fd (mem s1) remainder (unsorted_chunks av);
          m4 = set_bk m3 remainder (unsorted_chunks av);
          m5 = (if \<not> in_smallbin_range remainder_size
                then set_bk_nextsize (set_fd_nextsize m4 remainder 0) remainder 0
                else m4);
          m6 = set_head m5 victim
                 (nb OR PREV_INUSE OR (if av \<noteq> main_arena s1 then NON_MAIN_ARENA else 0));
          m7 = set_head m6 remainder (remainder_size OR PREV_INUSE);
          m8 = set_foot m7 remainder remainder_size;
          p = chunk2mem victim
      in Return p (alloc_perturb (s1\<lparr>mem := m8\<rparr>) p bytes))"

text \<open>
  The walk along \<open>fd_nextsize\<close> to the first chunk that is not larger, with the assertion
  of the source (\<open>Inl\<close> when it fails). On a corrupted ring the loop may not end.
\<close>

partial_function (option) largebin_walk :: "heap \<Rightarrow> 64 word \<Rightarrow> addr \<Rightarrow> (string + addr) option" where
  "largebin_walk m sz fwd =
     (if sz < chunksize_nomask m fwd
      then (if \<not> chunk_main_arena m (fd_nextsize m fwd)
            then Some (Inl ''assert: chunk_main_arena (fwd)'')
            else largebin_walk m sz (fd_nextsize m fwd))
      else Some (Inr fwd))"

text \<open>
  Choosing the place of a chunk in its small or large bin: the result is the bin index and
  the neighbours \<open>bck\<close> and \<open>fwd\<close> between which the chunk is linked, or an abort. In
  \<open>fwd->fd->bk_nextsize = victim->bk_nextsize->fd_nextsize = victim\<close> both targets are
  read before either store.
\<close>

definition place_chunk :: "addr \<Rightarrow> addr \<Rightarrow> 64 word \<Rightarrow> gstate \<Rightarrow> (string \<times> gstate + 32 word \<times> addr \<times> addr \<times> gstate) option" where
  "place_chunk av victim sz s =
     (if in_smallbin_range sz then
        let victim_index = smallbin_index sz;
            bck = bin_at av victim_index
        in Some (Inr (victim_index, bck, fd (mem s) bck, s))
      else
        let victim_index = (ucast (largebin_index sz) :: 32 word);
            bck = bin_at av victim_index;
            fwd = fd (mem s) bck
        in if fwd \<noteq> bck then
             let size' = sz OR PREV_INUSE
             in if \<not> chunk_main_arena (mem s) (bk (mem s) bck)
                then Some (Inl (''assert: chunk_main_arena (bck->bk)'', s))
                else if size' < chunksize_nomask (mem s) (bk (mem s) bck) then
                  let fwd1 = bck;
                      bck1 = bk (mem s) bck;
                      m1 = set_fd_nextsize (mem s) victim (fd (mem s) fwd1);
                      m2 = set_bk_nextsize m1 victim (bk_nextsize m1 (fd m1 fwd1));
                      m3 = set_fd_nextsize m2 (bk_nextsize m2 victim) victim;
                      m4 = set_bk_nextsize m3 (fd m2 fwd1) victim
                  in Some (Inr (victim_index, bck1, fwd1, s\<lparr>mem := m4\<rparr>))
                else if \<not> chunk_main_arena (mem s) fwd
                then Some (Inl (''assert: chunk_main_arena (fwd)'', s))
                else
                  (case largebin_walk (mem s) size' fwd of
                     None \<Rightarrow> None
                   | Some (Inl msg) \<Rightarrow> Some (Inl (msg, s))
                   | Some (Inr fwd1) \<Rightarrow>
                       if size' = chunksize_nomask (mem s) fwd1 then
                         let fwd2 = fd (mem s) fwd1;
                             bck1 = bk (mem s) fwd2
                         in if fd (mem s) bck1 \<noteq> fwd2
                            then Some (Inl (''malloc(): largebin double linked list corrupted (bk)'', s))
                            else Some (Inr (victim_index, bck1, fwd2, s))
                       else
                         let m1 = set_fd_nextsize (mem s) victim fwd1;
                             m2 = set_bk_nextsize m1 victim (bk_nextsize m1 fwd1)
                         in if fd_nextsize m2 (bk_nextsize m2 fwd1) \<noteq> fwd1
                            then Some (Inl (''malloc(): largebin double linked list corrupted (nextsize)'',
                                            s\<lparr>mem := m2\<rparr>))
                            else
                              let m3 = set_bk_nextsize m2 fwd1 victim;
                                  m4 = set_fd_nextsize m3 (bk_nextsize m3 victim) victim;
                                  bck1 = bk m4 fwd1
                              in if fd m4 bck1 \<noteq> fwd1
                                 then Some (Inl (''malloc(): largebin double linked list corrupted (bk)'',
                                                 s\<lparr>mem := m4\<rparr>))
                                 else Some (Inr (victim_index, bck1, fwd1, s\<lparr>mem := m4\<rparr>)))
           else
             let m1 = set_bk_nextsize (mem s) victim victim;
                 m2 = set_fd_nextsize m1 victim victim
             in Some (Inr (victim_index, bck, fwd, s\<lparr>mem := m2\<rparr>)))"

text \<open>
  Three blocks of the loop body: the removal of the tail chunk from the unsorted list, the
  marking of an exact fit as in use, and the linking of a chunk into its bin (the bin is
  marked in the binmap, then the chunk is linked between \<open>bck\<close> and \<open>fwd\<close>).
\<close>

definition unsorted_remove :: "addr \<Rightarrow> addr \<Rightarrow> gstate \<Rightarrow> gstate" where
  "unsorted_remove av victim s =
     (let bck = bk (mem s) victim;
          m1 = set_bk (mem s) (unsorted_chunks av) bck;
          m2 = set_fd m1 bck (unsorted_chunks av)
      in s\<lparr>mem := m2\<rparr>)"

definition take_exact :: "addr \<Rightarrow> addr \<Rightarrow> 64 word \<Rightarrow> gstate \<Rightarrow> gstate" where
  "take_exact av victim sz s =
     (let m3 = set_inuse_bit_at_offset (mem s) victim sz;
          m4 = (if av \<noteq> main_arena s then set_non_main_arena m3 victim else m3)
      in s\<lparr>mem := m4\<rparr>)"

definition bin_link :: "addr \<Rightarrow> addr \<Rightarrow> 64 word \<Rightarrow> gstate \<Rightarrow> (string \<times> gstate + gstate) option" where
  "bin_link av victim sz s =
     (case place_chunk av victim sz s of
        None \<Rightarrow> None
      | Some (Inl (msg, t)) \<Rightarrow> Some (Inl (msg, t))
      | Some (Inr (victim_index, bck1, fwd1, s2)) \<Rightarrow>
          let s3 = mark_bin av victim_index s2;
              m5 = set_bk (mem s3) victim bck1;
              m6 = set_fd m5 victim fwd1;
              m7 = set_bk m6 fwd1 victim;
              m8 = set_fd m7 bck1 victim
          in Some (Inr (s3\<lparr>mem := m8\<rparr>)))"

text \<open>The local variables of \<open>_int_malloc\<close> that the drain loop carries.\<close>

record drain_locals =
  iters :: nat
  return_cached :: bool
  tcache_unsorted_count :: "64 word"

text \<open>
  One iteration of the \<open>while\<close> loop over the unsorted bin, entered with the tail chunk
  \<open>victim\<close>: it returns from \<open>_int_malloc\<close> (or aborts), goes back to the loop test
  (\<open>continue\<close>, or the end of the body), or leaves the loop at the iteration limit.
\<close>

datatype drain_step =
    Step_return "addr outcome"
  | Step_continue gstate drain_locals
  | Step_break gstate drain_locals

definition drain_body :: "addr \<Rightarrow> 64 word \<Rightarrow> 64 word \<Rightarrow> 64 word \<Rightarrow> 64 word \<Rightarrow> addr \<Rightarrow> gstate \<Rightarrow> drain_locals \<Rightarrow> drain_step option" where
  "drain_body av nb bytes tcache_nb tc_idx victim s l =
     (let bck = bk (mem s) victim;
          size = chunksize (mem s) victim
      in case unsorted_checks s av victim of
           Some msg \<Rightarrow> Some (Step_return (Abort msg s))
         | None \<Rightarrow>
             if in_smallbin_range nb \<and> bck = unsorted_chunks av
                \<and> victim = last_remainder (arena s av) \<and> size > nb + MINSIZE
             then Some (Step_return (split_last_remainder av nb bytes victim size s))
             else if fd (mem s) bck \<noteq> victim
             then Some (Step_return (Abort ''malloc(): corrupted unsorted chunks 3'' s))
             else
               let s1 = unsorted_remove av victim s
               in if size = nb then
                    let s2 = take_exact av victim size s1
                    in if tcache_nb \<noteq> 0
                          \<and> ucast (counts (tcache_struct s2) (unat tc_idx)) < tcache_count (mp s2)
                       then Some (Step_continue (tcache_put s2 victim tc_idx)
                                    (l\<lparr>return_cached := True\<rparr>))
                       else Some (Step_return
                                    (Return (chunk2mem victim)
                                       (alloc_perturb s2 (chunk2mem victim) bytes)))
                  else
                    (case bin_link av victim size s1 of
                       None \<Rightarrow> None
                     | Some (Inl (msg, t)) \<Rightarrow> Some (Step_return (Abort msg t))
                     | Some (Inr s4) \<Rightarrow>
                         let l1 = l\<lparr>tcache_unsorted_count := tcache_unsorted_count l + 1\<rparr>
                         in if return_cached l1 \<and> tcache_unsorted_limit (mp s4) > 0
                               \<and> tcache_unsorted_count l1 > tcache_unsorted_limit (mp s4)
                            then Some (Step_return (tcache_get s4 tc_idx))
                            else
                              let l2 = l1\<lparr>iters := iters l1 + 1\<rparr>
                              in if iters l2 \<ge> MAX_ITERS then Some (Step_break s4 l2)
                                 else Some (Step_continue s4 l2)))"

text \<open>
  After the loop: a chunk cached on the way is returned now; otherwise \<open>_int_malloc\<close>
  goes on to search the bins (\<open>Inr\<close>).
\<close>

definition drain_exit :: "64 word \<Rightarrow> gstate \<Rightarrow> drain_locals \<Rightarrow> addr outcome + gstate \<times> drain_locals" where
  "drain_exit tc_idx s l = (if return_cached l then Inl (tcache_get s tc_idx) else Inr (s, l))"

partial_function (option) unsorted_drain :: "addr \<Rightarrow> 64 word \<Rightarrow> 64 word \<Rightarrow> 64 word \<Rightarrow> 64 word \<Rightarrow> gstate \<Rightarrow> drain_locals \<Rightarrow> (addr outcome + gstate \<times> drain_locals) option" where
  "unsorted_drain av nb bytes tcache_nb tc_idx s l =
     (if bk (mem s) (unsorted_chunks av) \<noteq> unsorted_chunks av
      then (case drain_body av nb bytes tcache_nb tc_idx (bk (mem s) (unsorted_chunks av)) s l of
              None \<Rightarrow> None
            | Some (Step_return r) \<Rightarrow> Some (Inl r)
            | Some (Step_continue s' l') \<Rightarrow> unsorted_drain av nb bytes tcache_nb tc_idx s' l'
            | Some (Step_break s' l') \<Rightarrow> Some (drain_exit tc_idx s' l'))
      else Some (drain_exit tc_idx s l))"

subsection \<open>Taking a chunk out of a bin\<close>

definition unlink_chunk :: "addr \<Rightarrow> addr \<Rightarrow> gstate \<Rightarrow> unit outcome" where
  "unlink_chunk av p s =
     (let m = mem s
      in if chunksize m p \<noteq> prev_size m (next_chunk m p)
         then Abort ''corrupted size vs. prev_size'' s
         else
           let fd0 = fd m p;
               bk0 = bk m p
           in if bk m fd0 \<noteq> p \<or> fd m bk0 \<noteq> p
              then Abort ''corrupted double-linked list'' s
              else
                let m1 = set_bk m fd0 bk0;
                    m2 = set_fd m1 bk0 fd0
                in if \<not> in_smallbin_range (chunksize_nomask m2 p) \<and> fd_nextsize m2 p \<noteq> 0 then
                     if bk_nextsize m2 (fd_nextsize m2 p) \<noteq> p
                        \<or> fd_nextsize m2 (bk_nextsize m2 p) \<noteq> p
                     then Abort ''corrupted double-linked list (not small)'' (s\<lparr>mem := m2\<rparr>)
                     else if fd_nextsize m2 fd0 = 0 then
                       (if fd_nextsize m2 p = p then
                          let m3 = set_bk_nextsize m2 fd0 fd0;
                              m4 = set_fd_nextsize m3 fd0 fd0
                          in Return () (s\<lparr>mem := m4\<rparr>)
                        else
                          let m3 = set_fd_nextsize m2 fd0 (fd_nextsize m2 p);
                              m4 = set_bk_nextsize m3 fd0 (bk_nextsize m3 p);
                              m5 = set_bk_nextsize m4 (fd_nextsize m4 p) fd0;
                              m6 = set_fd_nextsize m5 (bk_nextsize m5 p) fd0
                          in Return () (s\<lparr>mem := m6\<rparr>))
                     else
                       let m3 = set_bk_nextsize m2 (fd_nextsize m2 p) (bk_nextsize m2 p);
                           m4 = set_fd_nextsize m3 (bk_nextsize m3 p) (fd_nextsize m3 p)
                       in Return () (s\<lparr>mem := m4\<rparr>)
                   else Return () (s\<lparr>mem := m2\<rparr>))"

text \<open>
  The chunk \<open>victim\<close> found in a bin is unlinked, then used up or split, and returned. The
  code stands twice in \<open>_int_malloc\<close>, after the search of the large bin and in the scan of
  the bins; the two copies differ in the tag of the abort, and only the second one
  advertises the remainder as the last remainder (\<open>set_lr\<close>).
\<close>

definition take_from_bin :: "addr \<Rightarrow> 64 word \<Rightarrow> 64 word \<Rightarrow> addr \<Rightarrow> 64 word \<Rightarrow> bool \<Rightarrow> string \<Rightarrow> gstate \<Rightarrow> addr outcome" where
  "take_from_bin av nb bytes victim sz set_lr msg s =
     (let remainder_size = sz - nb
      in case unlink_chunk av victim s of
           Abort m t \<Rightarrow> Abort m t
         | Return u s1 \<Rightarrow>
             if remainder_size < MINSIZE then
               let m1 = set_inuse_bit_at_offset (mem s1) victim sz;
                   m2 = (if av \<noteq> main_arena s1 then set_non_main_arena m1 victim else m1);
                   s2 = s1\<lparr>mem := m2\<rparr>
               in Return (chunk2mem victim) (alloc_perturb s2 (chunk2mem victim) bytes)
             else
               let remainder = chunk_at_offset victim nb;
                   bck = unsorted_chunks av;
                   fwd = fd (mem s1) bck
               in if bk (mem s1) fwd \<noteq> bck then Abort msg s1
                  else
                    let m1 = set_bk (mem s1) remainder bck;
                        m2 = set_fd m1 remainder fwd;
                        m3 = set_fd m2 bck remainder;
                        m4 = set_bk m3 fwd remainder;
                        s2 = (if set_lr \<and> in_smallbin_range nb
                              then upd_arena av (\<lambda>a. a\<lparr>last_remainder := remainder\<rparr>)
                                     (s1\<lparr>mem := m4\<rparr>)
                              else s1\<lparr>mem := m4\<rparr>);
                        m5 = (if \<not> in_smallbin_range remainder_size
                              then set_bk_nextsize (set_fd_nextsize (mem s2) remainder 0) remainder 0
                              else mem s2);
                        m6 = set_head m5 victim
                               (nb OR PREV_INUSE OR (if av \<noteq> main_arena s2 then NON_MAIN_ARENA else 0));
                        m7 = set_head m6 remainder (remainder_size OR PREV_INUSE);
                        m8 = set_foot m7 remainder remainder_size;
                        s3 = s2\<lparr>mem := m8\<rparr>
                    in Return (chunk2mem victim) (alloc_perturb s3 (chunk2mem victim) bytes))"

subsection \<open>The search of the large bin\<close>

text \<open>The walk along \<open>bk_nextsize\<close> to the smallest chunk that is not smaller than \<open>nb\<close>.\<close>

partial_function (option) large_walk :: "heap \<Rightarrow> 64 word \<Rightarrow> addr \<Rightarrow> addr option" where
  "large_walk m nb victim =
     (if chunksize m victim < nb then large_walk m nb (bk_nextsize m victim)
      else Some victim)"

text \<open>\<open>Some None\<close>: the bin is skipped, and \<open>_int_malloc\<close> goes on to the scan of the bins.\<close>

definition int_malloc_large :: "addr \<Rightarrow> 64 word \<Rightarrow> 64 word \<Rightarrow> 32 word \<Rightarrow> gstate \<Rightarrow> addr outcome option option" where
  "int_malloc_large av nb bytes idx s =
     (let bin = bin_at av idx;
          victim = fd (mem s) bin
      in if victim \<noteq> bin \<and> chunksize_nomask (mem s) victim \<ge> nb then
           (case large_walk (mem s) nb (bk_nextsize (mem s) victim) of
              None \<Rightarrow> None
            | Some v \<Rightarrow>
                let size = chunksize (mem s) v;
                    v' = (if v \<noteq> bk (mem s) bin
                             \<and> chunksize_nomask (mem s) v = chunksize_nomask (mem s) (fd (mem s) v)
                          then fd (mem s) v else v)
                in Some (Some (take_from_bin av nb bytes v' size False
                                 ''malloc(): corrupted unsorted chunks'' s)))
         else Some None)"

subsection \<open>The scan of the bins\<close>

definition next_bin :: "addr \<Rightarrow> addr" where
  "next_bin b = b + push_bit 1 8"

text \<open>
  The \<open>do\<close> loop over the blocks of the binmap: \<open>Some None\<close> when the blocks are used up
  (\<open>goto use_top\<close>), \<open>Some (Some block)\<close> at the first block whose map is not zero.
\<close>

partial_function (option) next_block :: "malloc_state \<Rightarrow> 32 word \<Rightarrow> 32 word option option" where
  "next_block a block =
     (if block + 1 \<ge> BINMAPSIZE then Some None
      else if binmap a (unat (block + 1)) = 0 then next_block a (block + 1)
      else Some (Some (block + 1)))"

text \<open>
  The \<open>while\<close> loop that advances to a bin whose bit is set in the map (the locals
  \<open>map\<close> and \<open>bit\<close> are \<open>bmap\<close> and \<open>bitv\<close> here).
\<close>

partial_function (option) advance_bin :: "32 word \<Rightarrow> 32 word \<Rightarrow> addr \<Rightarrow> (string + 32 word \<times> addr) option" where
  "advance_bin bmap bitv bin =
     (if bitv AND bmap = 0 then
        (if push_bit 1 bitv = 0 then Some (Inl ''assert: bit != 0'')
         else advance_bin bmap (push_bit 1 bitv) (next_bin bin))
      else Some (Inr (bitv, bin)))"

text \<open>
  The \<open>for\<close> loop of the scan (\<open>bmap\<close> and \<open>bitv\<close> are the locals \<open>map\<close> and \<open>bit\<close>). \<open>Inl\<close> is the return from \<open>_int_malloc\<close> (or an abort),
  \<open>Inr\<close> is \<open>goto use_top\<close>.
\<close>

partial_function (option) bin_scan :: "addr \<Rightarrow> 64 word \<Rightarrow> 64 word \<Rightarrow> 32 word \<Rightarrow> 32 word \<Rightarrow> 32 word \<Rightarrow> addr \<Rightarrow> gstate \<Rightarrow> (addr outcome + gstate) option" where
  "bin_scan av nb bytes block bmap bitv bin s =
     (case (if bitv > bmap \<or> bitv = 0 then
              (case next_block (arena s av) block of
                 None \<Rightarrow> None
               | Some None \<Rightarrow> Some None
               | Some (Some b) \<Rightarrow>
                   Some (Some (b, binmap (arena s av) (unat b), 1,
                               bin_at av (push_bit BINMAPSHIFT b))))
            else Some (Some (block, bmap, bitv, bin))) of
        None \<Rightarrow> None
      | Some None \<Rightarrow> Some (Inr s)
      | Some (Some (block1, bmap1, bit1, bin1)) \<Rightarrow>
          (case advance_bin bmap1 bit1 bin1 of
             None \<Rightarrow> None
           | Some (Inl msg) \<Rightarrow> Some (Inl (Abort msg s))
           | Some (Inr (bit2, bin2)) \<Rightarrow>
               if bk (mem s) bin2 = bin2 then
                 bin_scan av nb bytes block1 (bmap1 AND NOT bit2) (push_bit 1 bit2) (next_bin bin2)
                   (upd_arena av
                      (\<lambda>a. a\<lparr>binmap := (binmap a)(unat block1 := bmap1 AND NOT bit2)\<rparr>) s)
               else if chunksize (mem s) (bk (mem s) bin2) < nb
               then Some (Inl (Abort ''assert: size >= nb'' s))
               else Some (Inl (take_from_bin av nb bytes (bk (mem s) bin2)
                                 (chunksize (mem s) (bk (mem s) bin2)) True
                                 ''malloc(): corrupted unsorted chunks 2'' s))))"

subsection \<open>The top chunk\<close>

text \<open>
  \<open>Inl\<close> is the return from \<open>_int_malloc\<close> (or an abort); \<open>Inr\<close> is the state after
  \<open>malloc_consolidate\<close>, from which the outer loop is run again.
\<close>

definition use_top :: "env \<Rightarrow> addr \<Rightarrow> 64 word \<Rightarrow> 64 word \<Rightarrow> gstate \<Rightarrow> (addr outcome + gstate) option" where
  "use_top E av nb bytes s =
     (let victim = av_top (arena s av);
          size = chunksize (mem s) victim
      in if size > system_mem (arena s av)
         then Some (Inl (Abort ''malloc(): corrupted top size'' s))
         else if size \<ge> nb + MINSIZE then
           let remainder_size = size - nb;
               remainder = chunk_at_offset victim nb;
               s1 = upd_arena av (\<lambda>a. a\<lparr>av_top := remainder\<rparr>) s;
               m1 = set_head (mem s1) victim
                      (nb OR PREV_INUSE OR (if av \<noteq> main_arena s1 then NON_MAIN_ARENA else 0));
               m2 = set_head m1 remainder (remainder_size OR PREV_INUSE);
               s2 = s1\<lparr>mem := m2\<rparr>
           in Some (Inl (Return (chunk2mem victim) (alloc_perturb s2 (chunk2mem victim) bytes)))
         else if have_fastchunks (arena s av) then
           (case malloc_consolidate E av s of
              None \<Rightarrow> None
            | Some (Abort msg t) \<Rightarrow> Some (Inl (Abort msg t))
            | Some (Return u t) \<Rightarrow> Some (Inr t))
         else
           (case sysmalloc E nb av s of
              None \<Rightarrow> None
            | Some (Abort msg t) \<Rightarrow> Some (Inl (Abort msg t))
            | Some (Return p t) \<Rightarrow>
                Some (Inl (Return p (if p \<noteq> 0 then alloc_perturb t p bytes else t)))))"

subsection \<open>The outer loop\<close>

text \<open>
  The outer \<open>for\<close> loop of \<open>_int_malloc\<close>: the drain of the unsorted bin, the search of the
  large bin, the scan of the bins, and the top chunk. \<open>iters\<close> is local to the loop body;
  \<open>return_cached\<close> and \<open>tcache_unsorted_count\<close> are not.
\<close>

partial_function (option) int_malloc_loop :: "env \<Rightarrow> addr \<Rightarrow> 64 word \<Rightarrow> 64 word \<Rightarrow> 64 word \<Rightarrow> 64 word \<Rightarrow> 32 word \<Rightarrow> gstate \<Rightarrow> drain_locals \<Rightarrow> addr outcome option" where
  "int_malloc_loop E av nb bytes tcache_nb tc_idx idx s l =
     (case unsorted_drain av nb bytes tcache_nb tc_idx s (l\<lparr>iters := 0\<rparr>) of
        None \<Rightarrow> None
      | Some (Inl r) \<Rightarrow> Some r
      | Some (Inr (s2, l2)) \<Rightarrow>
          (case (if \<not> in_smallbin_range nb then int_malloc_large av nb bytes idx s2
                 else Some None) of
             None \<Rightarrow> None
           | Some (Some r) \<Rightarrow> Some r
           | Some None \<Rightarrow>
               (case bin_scan av nb bytes (idx2block (idx + 1))
                       (binmap (arena s2 av) (unat (idx2block (idx + 1))))
                       (idx2bit (idx + 1)) (bin_at av (idx + 1)) s2 of
                  None \<Rightarrow> None
                | Some (Inl r) \<Rightarrow> Some r
                | Some (Inr s3) \<Rightarrow>
                    (case use_top E av nb bytes s3 of
                       None \<Rightarrow> None
                     | Some (Inl r) \<Rightarrow> Some r
                     | Some (Inr s4) \<Rightarrow>
                         int_malloc_loop E av nb bytes tcache_nb tc_idx
                           (if in_smallbin_range nb then smallbin_index nb
                            else ucast (largebin_index nb)) s4 l2))))"

subsection \<open>The allocation engine and its wrapper\<close>

definition int_malloc :: "env \<Rightarrow> addr \<Rightarrow> 64 word \<Rightarrow> gstate \<Rightarrow> addr outcome option" where
  "int_malloc E av bytes s =
     (case checked_request2size bytes of
        None \<Rightarrow> Some (Return 0 (s\<lparr>errno := ENOMEM\<rparr>))
      | Some nb \<Rightarrow>
          if av = 0 then
            obind (sysmalloc E nb av s)
              (\<lambda>p t. Some (Return p (if p \<noteq> 0 then alloc_perturb t p bytes else t)))
          else
            (case int_malloc_fast av nb bytes s of
               None \<Rightarrow> None
             | Some (Some r) \<Rightarrow> Some r
             | Some None \<Rightarrow>
                 (case (if in_smallbin_range nb then
                          (case int_malloc_small av nb bytes s of
                             None \<Rightarrow> None
                           | Some (Some r) \<Rightarrow> Some (Inl r)
                           | Some None \<Rightarrow> Some (Inr (smallbin_index nb, s)))
                        else if have_fastchunks (arena s av) then
                          (case malloc_consolidate E av s of
                             None \<Rightarrow> None
                           | Some (Abort msg t) \<Rightarrow> Some (Inl (Abort msg t))
                           | Some (Return u t) \<Rightarrow> Some (Inr (ucast (largebin_index nb), t)))
                        else Some (Inr (ucast (largebin_index nb), s))) of
                    None \<Rightarrow> None
                  | Some (Inl r) \<Rightarrow> Some r
                  | Some (Inr (idx, s1)) \<Rightarrow>
                      let tc_idx = csize2tidx nb;
                          tcache_nb = (if tcache s1 \<noteq> 0 \<and> tc_idx < tcache_bins (mp s1)
                                       then nb else 0)
                      in int_malloc_loop E av nb bytes tcache_nb tc_idx idx s1
                           \<lparr>iters = 0, return_cached = False, tcache_unsorted_count = 0\<rparr>)))"

text \<open>
  \<open>sizeof (tcache_perthread_struct)\<close>: 64 counters of two bytes and 64 pointers.
\<close>

definition sizeof_tcache_perthread_struct :: "64 word" where
  "sizeof_tcache_perthread_struct = TCACHE_MAX_BINS * 2 + TCACHE_MAX_BINS * 8"

definition tcache_init :: "env \<Rightarrow> gstate \<Rightarrow> unit outcome option" where
  "tcache_init E s =
     (if tcache_shutting_down s then Some (Return () s)
      else
        let bytes = sizeof_tcache_perthread_struct;
            (ar_ptr, s1) = arena_get E bytes s
        in obind (int_malloc E ar_ptr bytes s1)
             (\<lambda>victim s2.
                obind (if victim = 0 \<and> ar_ptr \<noteq> 0
                       then (let (ar2, s3) = arena_get_retry E ar_ptr bytes s2
                             in int_malloc E ar2 bytes s3)
                       else Some (Return victim s2))
                  (\<lambda>v s4.
                     if v \<noteq> 0
                     then Some (Return ()
                                  (s4\<lparr>tcache := v,
                                      tcache_struct := \<lparr>counts = (\<lambda>i. 0), entries = (\<lambda>i. 0)\<rparr>\<rparr>))
                     else Some (Return () s4))))"

definition MAYBE_INIT_TCACHE :: "env \<Rightarrow> gstate \<Rightarrow> unit outcome option" where
  "MAYBE_INIT_TCACHE E s = (if tcache s = 0 then tcache_init E s else Some (Return () s))"

definition malloc_result_ok :: "env \<Rightarrow> addr \<Rightarrow> addr \<Rightarrow> gstate \<Rightarrow> bool" where
  "malloc_result_ok E ar_ptr victim t \<longleftrightarrow>
     victim = 0 \<or> chunk_is_mmapped (mem t) (mem2chunk victim)
     \<or> ar_ptr = arena_for_chunk E t (mem2chunk victim)"

definition libc_malloc :: "env \<Rightarrow> 64 word \<Rightarrow> gstate \<Rightarrow> addr outcome option" where
  "libc_malloc E bytes s =
     (case malloc_hook E of
        Some hook \<Rightarrow> hook bytes s
      | None \<Rightarrow>
          (case checked_request2size bytes of
             None \<Rightarrow> Some (Return 0 (s\<lparr>errno := ENOMEM\<rparr>))
           | Some tbytes \<Rightarrow>
               let tc_idx = csize2tidx tbytes
               in obind (MAYBE_INIT_TCACHE E s)
                    (\<lambda>u s1.
                       if tc_idx < tcache_bins (mp s1) \<and> tcache s1 \<noteq> 0
                          \<and> counts (tcache_struct s1) (unat tc_idx) > 0
                       then Some (tcache_get s1 tc_idx)
                       else if single_thread s1 then
                         obind (int_malloc E (main_arena s1) bytes s1)
                           (\<lambda>victim t.
                              if malloc_result_ok E (main_arena t) victim t
                              then Some (Return victim t)
                              else Some (Abort ''assert: malloc result'' t))
                       else
                         let (ar_ptr, s2) = arena_get E bytes s1
                         in obind (int_malloc E ar_ptr bytes s2)
                              (\<lambda>victim s3.
                                 obind (if victim = 0 \<and> ar_ptr \<noteq> 0
                                        then (let (ar2, s4) = arena_get_retry E ar_ptr bytes s3
                                              in obind (int_malloc E ar2 bytes s4)
                                                   (\<lambda>v t. Some (Return (ar2, v) t)))
                                        else Some (Return (ar_ptr, victim) s3))
                                   (\<lambda>(ar, v) t.
                                      if malloc_result_ok E ar v t
                                      then Some (Return v t)
                                      else Some (Abort ''assert: malloc result'' t))))))"

definition libc_free :: "env \<Rightarrow> addr \<Rightarrow> gstate \<Rightarrow> unit outcome option" where
  "libc_free E memp s =
     (case free_hook E of
        Some hook \<Rightarrow> hook memp s
      | None \<Rightarrow>
          if memp = 0 then Some (Return () s)
          else
            let p = mem2chunk memp
            in if chunk_is_mmapped (mem s) p then
                 let s1 = (if no_dyn_threshold (mp s) = 0
                              \<and> chunksize_nomask (mem s) p > mmap_threshold (mp s)
                              \<and> chunksize_nomask (mem s) p \<le> DEFAULT_MMAP_THRESHOLD_MAX
                              \<and> \<not> DUMPED_MAIN_ARENA_CHUNK s p
                           then s\<lparr>mp := (mp s)\<lparr>mmap_threshold := chunksize (mem s) p,
                                               trim_threshold := 2 * chunksize (mem s) p\<rparr>\<rparr>
                           else s)
                 in Some (munmap_chunk s1 p)
               else
                 obind (MAYBE_INIT_TCACHE E s)
                   (\<lambda>u s1. int_free E (arena_for_chunk E s1 p) p False s1))"

section \<open>Reallocation of page-mapped chunks\<close>

definition MAP_FAILED :: addr where
  "MAP_FAILED = - 1"

definition mremap_chunk :: "env \<Rightarrow> gstate \<Rightarrow> addr \<Rightarrow> 64 word \<Rightarrow> addr outcome" where
  "mremap_chunk E s p new_size =
     (let pagesize = dl_pagesize s;
          offset = prev_size (mem s) p;
          size = chunksize (mem s) p
      in if \<not> chunk_is_mmapped (mem s) p then Abort ''assert: chunk_is_mmapped (p)'' s
         else
           let block = p - offset;
               memp = chunk2mem p;
               total_size = offset + size
           in if ((block OR total_size) AND (pagesize - 1)) \<noteq> 0
                 \<or> \<not> powerof2 (memp AND (pagesize - 1))
              then Abort ''mremap_chunk(): invalid pointer'' s
              else
                let new_size' = ALIGN_UP (new_size + offset + SIZE_SZ) pagesize
                in if total_size = new_size' then Return p s
                   else
                     let (cp, m') = os_mremap E s block total_size new_size';
                         s1 = s\<lparr>mem := m',
                                 os_trace := os_trace s @ [Mremap block total_size new_size']\<rparr>
                     in if cp = MAP_FAILED then Return 0 s1
                        else
                          let p' = cp + offset
                          in if \<not> aligned_OK (chunk2mem p')
                             then Abort ''assert: aligned_OK (chunk2mem (p))'' s1
                             else if prev_size (mem s1) p' \<noteq> offset
                             then Abort ''assert: prev_size (p) == offset'' s1
                             else
                               let s2 = s1\<lparr>mem := set_head (mem s1) p'
                                                      ((new_size' - offset) OR IS_MMAPPED)\<rparr>;
                                   new = mmapped_mem (mp s2) + (new_size' - size - offset)
                               in Return p'
                                    (s2\<lparr>mp := (mp s2)\<lparr>mmapped_mem := new,
                                          max_mmapped_mem := max (max_mmapped_mem (mp s2)) new\<rparr>\<rparr>))"

text \<open>\<open>REALLOC_ZERO_BYTES_FREES\<close> is 1; \<open>HAVE_MREMAP\<close> is a build parameter.\<close>

definition realloc_mmapped :: "env \<Rightarrow> addr \<Rightarrow> addr \<Rightarrow> 64 word \<Rightarrow> 64 word \<Rightarrow> 64 word \<Rightarrow> gstate \<Rightarrow> addr outcome option" where
  "realloc_mmapped E oldmem oldp oldsize bytes nb s =
     (if DUMPED_MAIN_ARENA_CHUNK s oldp then
        obind (libc_malloc E bytes s)
          (\<lambda>newmem t.
             if newmem = 0 then Some (Return 0 t)
             else
               let bytes' = (if bytes > oldsize - SIZE_SZ then oldsize - SIZE_SZ else bytes)
               in Some (Return newmem (t\<lparr>mem := memcpy (mem t) newmem oldmem bytes'\<rparr>)))
      else
        obind (if HAVE_MREMAP E then Some (mremap_chunk E s oldp nb) else Some (Return 0 s))
          (\<lambda>newp s1.
             if HAVE_MREMAP E \<and> newp \<noteq> 0 then Some (Return (chunk2mem newp) s1)
             else if oldsize - SIZE_SZ \<ge> nb then Some (Return oldmem s1)
             else
               obind (libc_malloc E bytes s1)
                 (\<lambda>newmem t.
                    if newmem = 0 then Some (Return 0 t)
                    else
                      (case munmap_chunk
                              (t\<lparr>mem := memcpy (mem t) newmem oldmem (oldsize - 2 * SIZE_SZ)\<rparr>)
                              oldp of
                         Abort msg t' \<Rightarrow> Some (Abort msg t')
                       | Return u t' \<Rightarrow> Some (Return newmem t')))))"

definition realloc_arena :: "env \<Rightarrow> addr \<Rightarrow> addr \<Rightarrow> addr \<Rightarrow> 64 word \<Rightarrow> 64 word \<Rightarrow> 64 word \<Rightarrow> gstate \<Rightarrow> addr outcome option" where
  "realloc_arena E ar_ptr oldmem oldp oldsize bytes nb s =
     obind (int_realloc E ar_ptr oldp oldsize nb s)
       (\<lambda>newp t.
          if \<not> malloc_result_ok E ar_ptr newp t then Some (Abort ''assert: realloc result'' t)
          else if single_thread s then Some (Return newp t)
          else if newp = 0 then
            obind (libc_malloc E bytes t)
              (\<lambda>newp' t1.
                 if newp' \<noteq> 0 then
                   obind (int_free E ar_ptr oldp False
                            (t1\<lparr>mem := memcpy (mem t1) newp' oldmem (oldsize - SIZE_SZ)\<rparr>))
                     (\<lambda>u t2. Some (Return newp' t2))
                 else Some (Return newp' t1))
          else Some (Return newp t))"

definition libc_realloc :: "env \<Rightarrow> addr \<Rightarrow> 64 word \<Rightarrow> gstate \<Rightarrow> addr outcome option" where
  "libc_realloc E oldmem bytes s =
     (case realloc_hook E of
        Some hook \<Rightarrow> hook oldmem bytes s
      | None \<Rightarrow>
          if bytes = 0 \<and> oldmem \<noteq> 0
          then obind (libc_free E oldmem s) (\<lambda>u t. Some (Return 0 t))
          else if oldmem = 0 then libc_malloc E bytes s
          else
            let oldp = mem2chunk oldmem;
                oldsize = chunksize (mem s) oldp
            in obind (if chunk_is_mmapped (mem s) oldp then Some (Return 0 s)
                      else obind (MAYBE_INIT_TCACHE E s)
                             (\<lambda>u s1. Some (Return (arena_for_chunk E s1 oldp) s1)))
                 (\<lambda>ar_ptr s1.
                    if (oldp > - oldsize \<or> misaligned_chunk oldp \<noteq> 0)
                       \<and> \<not> DUMPED_MAIN_ARENA_CHUNK s1 oldp
                    then Some (Abort ''realloc(): invalid pointer'' s1)
                    else
                      (case checked_request2size bytes of
                         None \<Rightarrow> Some (Return 0 (s1\<lparr>errno := ENOMEM\<rparr>))
                       | Some nb \<Rightarrow>
                           if chunk_is_mmapped (mem s1) oldp
                           then realloc_mmapped E oldmem oldp oldsize bytes nb s1
                           else realloc_arena E ar_ptr oldmem oldp oldsize bytes nb s1)))"

section \<open>Usable size\<close>

definition musable :: "env \<Rightarrow> gstate \<Rightarrow> addr \<Rightarrow> 64 word" where
  "musable E s memp =
     (if memp \<noteq> 0 then
        let p = mem2chunk memp
        in if using_malloc_checking s = 1 then malloc_check_get_size E s p
           else if chunk_is_mmapped (mem s) p then
             (if DUMPED_MAIN_ARENA_CHUNK s p then chunksize (mem s) p - SIZE_SZ
              else chunksize (mem s) p - 2 * SIZE_SZ)
           else if inuse (mem s) p then chunksize (mem s) p - SIZE_SZ
           else 0
      else 0)"

definition malloc_usable_size :: "env \<Rightarrow> gstate \<Rightarrow> addr \<Rightarrow> 64 word" where
  "malloc_usable_size E s m = musable E s m"


section \<open>The bound on the per-thread cache\<close>

text \<open>
  Property P11 of the specification: the counter of every bucket of the per-thread cache is
  at most \<open>mp_.tcache_count\<close>.
\<close>

definition tcache_bounded :: "gstate \<Rightarrow> bool" where
  "tcache_bounded s \<longleftrightarrow>
     (\<forall>i \<in> {0 ..< unat TCACHE_MAX_BINS}.
        ucast (counts (tcache_struct s) i) \<le> tcache_count (mp s))"
section \<open>Concrete states\<close>

text \<open>
  A small configuration on which the theorems below are exercised: the primary arena at
  \<open>0x100000\<close> with default parameters, an initialised tcache, and parameters of the
  environment that do nothing.
\<close>

definition arena0 :: malloc_state where
  "arena0 = \<lparr>have_fastchunks = False, fastbinsY = (\<lambda>i. 0), av_top = 0, last_remainder = 0,
              binmap = (\<lambda>i. 0), system_mem = 0x21000\<rparr>"

definition mp0 :: malloc_par where
  "mp0 = \<lparr>trim_threshold = 0x20000, mmap_threshold = 0x20000, n_mmaps = 0,
           no_dyn_threshold = 0, mmapped_mem = 0, max_mmapped_mem = 0,
           tcache_bins = TCACHE_MAX_BINS, tcache_count = TCACHE_FILL_COUNT,
           tcache_unsorted_limit = 0\<rparr>"

definition st0 :: gstate where
  "st0 = \<lparr>mem = (\<lambda>a. 0), mp = mp0, arena = (\<lambda>a. arena0), main_arena = 0x100000,
           tcache = 0x602010, tcache_struct = \<lparr>counts = (\<lambda>i. 0), entries = (\<lambda>i. 0)\<rparr>,
           tcache_shutting_down = False, global_max_fast = 0x80, perturb_byte = 0, errno = 0,
           dumped_main_arena_start = 0, dumped_main_arena_end = 0, dl_pagesize = 0x1000,
           using_malloc_checking = 0, single_thread = True, os_trace = []\<rparr>"

definition env0 :: env where
  "env0 = \<lparr>malloc_hook = None, free_hook = None, realloc_hook = None,
            arena_get = (\<lambda>bytes s. (main_arena s, s)),
            arena_get_retry = (\<lambda>av bytes s. (main_arena s, s)),
            heap_for_ptr_arena = (\<lambda>s p. main_arena s),
            sysmalloc = (\<lambda>nb av s. Some (Return 0 (s\<lparr>errno := ENOMEM\<rparr>))),
            malloc_consolidate = (\<lambda>av s. Some (Return () s)),
            int_free_consolidate = (\<lambda>av p sz have_lock s. Some (Return () s)),
            int_realloc = (\<lambda>av oldp oldsize nb s. Some (Return 0 s)),
            malloc_check_get_size = (\<lambda>s p. 0),
            HAVE_MREMAP = True,
            os_mremap = (\<lambda>s block old_size new_size. (MAP_FAILED, mem s))\<rparr>"

text \<open>Memory in which the unsorted bin of the primary arena is initialised and empty.\<close>

definition heap1 :: heap where
  "heap1 = store64 (store64 (\<lambda>a. 0) 0x100070 0x100060) 0x100078 0x100060"

definition st1 :: gstate where
  "st1 = st0\<lparr>mem := heap1\<rparr>"

text \<open>A page-mapped chunk of 0x21000 bytes at \<open>0x7f0000000000\<close>.\<close>

definition st7 :: gstate where
  "st7 = st0\<lparr>mem := store64 (\<lambda>a. 0) 0x7f0000000008 0x21002\<rparr>"

text \<open>
  A thread without a tcache yet, in a primary arena whose unsorted bin and small bin 41
  are initialised and empty, whose binmap is clear, and whose top chunk has 0x20000 bytes
  at \<open>0x604000\<close>.
\<close>

definition st9 :: gstate where
  "st9 = st0\<lparr>mem := store64 (store64 heap1 0x1002f8 0x1002e0) 0x604008 0x20001,
             arena := (\<lambda>a. arena0\<lparr>av_top := 0x604000\<rparr>), tcache := 0\<rparr>"

text \<open>
  An in-use chunk of 0x20 bytes at \<open>0x603000\<close> whose successor carries the size field
  \<open>2 * SIZE_SZ\<close>, in a thread without a tcache.
\<close>

definition st3 :: gstate where
  "st3 = st0\<lparr>mem := store64 (store64 (\<lambda>a. 0) 0x603008 0x21) 0x603028 0x10, tcache := 0\<rparr>"

text \<open>The same chunk with a well-formed successor of 0x20 bytes.\<close>

definition st3ok :: gstate where
  "st3ok = st0\<lparr>mem := store64 (store64 (\<lambda>a. 0) 0x603008 0x21) 0x603028 0x21, tcache := 0\<rparr>"

text \<open>
  Two in-use chunks at \<open>0x603000\<close> in a thread with a tcache: the first with a size
  that carries it past the end of the address space, the second with a size below the
  minimum.
\<close>

definition st9a :: gstate where
  "st9a = st0\<lparr>mem := store64 (\<lambda>a. 0) 0x603008 0xfffffffffffffff1\<rparr>"

definition st9b :: gstate where
  "st9b = st0\<lparr>mem := store64 (\<lambda>a. 0) 0x603008 0x11\<rparr>"

text \<open>
  The state \<open>st9\<close> after the thread's tcache has been set up: 0x290 bytes are split off the
  top chunk, and the tcache is the payload at \<open>0x604010\<close>.
\<close>

definition st9_tcache :: gstate where
  "st9_tcache = st9\<lparr>mem := store64 (store64 (mem st9) 0x604008 0x291) 0x604298 0x1fd71,
                     arena := (\<lambda>a. arena0\<lparr>av_top := 0x604000\<rparr>)
                                (0x100000 := arena0\<lparr>av_top := 0x604290\<rparr>),
                     tcache := 0x604010,
                     tcache_struct := \<lparr>counts = (\<lambda>i. 0), entries = (\<lambda>i. 0)\<rparr>\<rparr>"

text \<open>
  With the perturb byte set to \<open>0xAA\<close>: a thread whose tcache bucket 0 holds the chunk at
  \<open>0x603000\<close>, and the state after that chunk has been handed out again.
\<close>

definition st2m :: gstate where
  "st2m = st0\<lparr>mem := store64 (store64 (\<lambda>a. 0) 0x603008 0x21) 0x603018 0x602010,
              perturb_byte := 0xAA,
              tcache_struct := \<lparr>counts = (\<lambda>i. 0)(0 := 1), entries = (\<lambda>i. 0)(0 := 0x603010)\<rparr>\<rparr>"

definition st2m_after :: gstate where
  "st2m_after = st2m\<lparr>tcache_struct := \<lparr>counts = (\<lambda>i. 0), entries = (\<lambda>i. 0)\<rparr>,
                     mem := store64 (mem st2m) 0x603018 0\<rparr>"

text \<open>
  With the perturb byte set to \<open>0xAA\<close>: an in-use chunk of 0x30 bytes at \<open>0x603000\<close> whose
  payload holds the byte \<open>0x41\<close> at \<open>0x603020\<close>, and an empty tcache.
\<close>

definition st2f :: gstate where
  "st2f = st0\<lparr>mem := (store64 (\<lambda>a. 0) 0x603008 0x31)(0x603020 := 0x41),
              perturb_byte := 0xAA\<rparr>"

text \<open>A page-mapped chunk of one page at \<open>0x7f0000000000\<close>, counted in \<open>mp_\<close>.\<close>

definition st10 :: gstate where
  "st10 = st0\<lparr>mem := store64 (\<lambda>a. 0) 0x7f0000000008 0x1002,
              mp := mp0\<lparr>n_mmaps := 1, mmapped_mem := 0x1000, max_mmapped_mem := 0x1000\<rparr>\<rparr>"

text \<open>The state after that chunk has been unmapped.\<close>

definition st10_unmapped :: gstate where
  "st10_unmapped = st10\<lparr>mp := mp0\<lparr>n_mmaps := 0, mmapped_mem := 0, max_mmapped_mem := 0x1000\<rparr>,
                        os_trace := [Munmap 0x7f0000000000 0x1000]\<rparr>"

text \<open>
  The primary arena with one free chunk of 0x100 bytes at \<open>0x603000\<close> in its unsorted bin,
  which is also the last remainder, followed by a chunk whose P flag is clear; small bin 2
  is initialised and empty.
\<close>

definition heap4 :: heap where
  "heap4 =
     store64 (store64 (store64 (store64 (store64 (store64 (store64 (store64 (store64 (\<lambda>a. 0)
       0x100070 0x603000) 0x100078 0x603000)
       0x100080 0x100070) 0x100088 0x100070)
       0x603008 0x101) 0x603010 0x100060) 0x603018 0x100060)
       0x603100 0x100) 0x603108 0x20"

definition st4 :: gstate where
  "st4 = st0\<lparr>mem := heap4, arena := (\<lambda>a. arena0\<lparr>last_remainder := 0x603000\<rparr>)\<rparr>"

text \<open>
  The same with a last remainder of 0x40 bytes, and with a free chunk of 0x30 bytes at
  \<open>0x603100\<close> in small bin 3, which is marked in the binmap; the small bins 2 and 4 are
  initialised and empty.
\<close>

definition heap4c :: heap where
  "heap4c =
     store64 (store64 (store64 (store64 (store64 (store64 (store64 (store64 (store64 (store64
       (store64 (store64 (store64 (store64 (store64 (store64 (store64 (\<lambda>a. 0)
       0x100070 0x603000) 0x100078 0x603000)
       0x100080 0x100070) 0x100088 0x100070)
       0x100090 0x603100) 0x100098 0x603100)
       0x1000a0 0x100090) 0x1000a8 0x100090)
       0x603008 0x41) 0x603010 0x100060) 0x603018 0x100060)
       0x603040 0x40) 0x603048 0x20)
       0x603108 0x31) 0x603110 0x100080) 0x603118 0x100080)
       0x603130 0x30"

definition st4c :: gstate where
  "st4c = st0\<lparr>mem := store64 heap4c 0x603138 0x20,
              arena := (\<lambda>a. arena0\<lparr>last_remainder := 0x603000, binmap := (\<lambda>i. 0)(0 := 8)\<rparr>)\<rparr>"

text \<open>
  The state \<open>st4c\<close> after the last remainder has been moved from the unsorted bin to small
  bin 4.
\<close>

definition st4c_binned :: gstate where
  "st4c_binned =
     st4c\<lparr>mem := store64 (store64 (store64 (store64 (store64 (store64 (mem st4c)
                 0x100078 0x100060) 0x100070 0x100060)
                 0x603018 0x100090) 0x603010 0x100090) 0x1000a8 0x603000) 0x1000a0 0x603000,
           arena := (\<lambda>a. arena0\<lparr>last_remainder := 0x603000, binmap := (\<lambda>i. 0)(0 := 8)\<rparr>)
                      (0x100000 := arena0\<lparr>last_remainder := 0x603000,
                                             binmap := (\<lambda>i. 0)(0 := 24)\<rparr>)\<rparr>"

text \<open>
  The state \<open>st4c_binned\<close> after the chunk of 0x30 bytes has been taken out of small bin 3
  and marked in use.
\<close>

definition st4c_after :: gstate where
  "st4c_after =
     st4c_binned\<lparr>mem := store64 (store64 (store64 (mem st4c_binned)
                 0x100098 0x100080) 0x100090 0x100080) 0x603138 0x21\<rparr>"

text \<open>
  A thread with an empty cache, and the primary arena with one free chunk of 0x20 bytes at
  \<open>0x603000\<close> as the only entry of its unsorted bin and with small bin 2 initialised and
  empty; \<open>st5_cached\<close> is the state with the
  chunk moved to bucket 0 of the cache, \<open>st5_returned\<close> the state with the chunk taken
  from there again.
\<close>

definition heap5 :: heap where
  "heap5 =
     store64 (store64 (store64 (store64 (store64 (store64 (store64 (store64 (store64 (\<lambda>a. 0)
       0x100070 0x603000) 0x100078 0x603000)
       0x100080 0x100070) 0x100088 0x100070)
       0x603008 0x21) 0x603010 0x100060) 0x603018 0x100060)
       0x603020 0x20) 0x603028 0x20"

definition st5 :: gstate where
  "st5 = st0\<lparr>mem := heap5\<rparr>"

definition st5_cached :: gstate where
  "st5_cached =
     st5\<lparr>mem := store64 (store64 (store64 (store64 (store64 heap5
               0x100078 0x100060) 0x100070 0x100060)
               0x603028 0x21) 0x603018 0x602010) 0x603010 0,
          tcache_struct := \<lparr>counts = (\<lambda>i. 0)(0 := 1), entries = (\<lambda>i. 0)(0 := 0x603010)\<rparr>\<rparr>"

definition st5_returned :: gstate where
  "st5_returned =
     st5\<lparr>mem := store64 (store64 (store64 (store64 (store64 (store64 heap5
               0x100078 0x100060) 0x100070 0x100060)
               0x603028 0x21) 0x603018 0x602010) 0x603010 0) 0x603018 0\<rparr>"

text \<open>
  The same with a second free chunk, of 0x40 bytes at \<open>0x603040\<close>, at the head of the
  unsorted bin, and the small bins 2 and 4 initialised and empty; \<open>st5b_cached\<close> is the state with the
  first chunk in the cache, \<open>st5b_binned\<close> the state with the second chunk in small bin 4.
\<close>

definition heap5b :: heap where
  "heap5b =
     store64 (store64 (store64 (store64 (store64 (store64 (store64 (store64 (store64 (store64
       (store64 (store64 (store64 (store64 (store64 (store64 (\<lambda>a. 0)
       0x100070 0x603040) 0x100078 0x603000)
       0x100080 0x100070) 0x100088 0x100070)
       0x1000a0 0x100090) 0x1000a8 0x100090)
       0x603008 0x21) 0x603010 0x100060) 0x603018 0x603040)
       0x603020 0x20) 0x603028 0x20)
       0x603048 0x41) 0x603050 0x603000) 0x603058 0x100060)
       0x603080 0x40) 0x603088 0x20"

definition st5b :: gstate where
  "st5b = st0\<lparr>mem := heap5b\<rparr>"

definition st5b_cached :: gstate where
  "st5b_cached =
     st5b\<lparr>mem := store64 (store64 (store64 (store64 (store64 heap5b
                0x100078 0x603040) 0x603050 0x100060)
                0x603028 0x21) 0x603018 0x602010) 0x603010 0,
           tcache_struct := \<lparr>counts = (\<lambda>i. 0)(0 := 1), entries = (\<lambda>i. 0)(0 := 0x603010)\<rparr>\<rparr>"

definition st5b_binned :: gstate where
  "st5b_binned =
     st5b_cached\<lparr>mem := store64 (store64 (store64 (store64 (store64 (store64 (mem st5b_cached)
                 0x100078 0x100060) 0x100070 0x100060)
                 0x603058 0x100090) 0x603050 0x100090) 0x1000a8 0x603040) 0x1000a0 0x603040,
           arena := (\<lambda>a. arena0)(0x100000 := arena0\<lparr>binmap := (\<lambda>i. 0)(0 := 16)\<rparr>)\<rparr>"

section \<open>Basic facts\<close>

lemmas consts_simps = SIZE_SZ_def MALLOC_ALIGNMENT_def MALLOC_ALIGN_MASK_def MIN_CHUNK_SIZE_def
  MINSIZE_def PTRDIFF_MAX_def

lemma MINSIZE_val: "MINSIZE = 32"
  by (simp add: consts_simps)

lemma MIN_LARGE_SIZE_val: "MIN_LARGE_SIZE = 1024"
  by (simp add: MIN_LARGE_SIZE_def NSMALLBINS_def SMALLBIN_CORRECTION_def SMALLBIN_WIDTH_def
      consts_simps)

subsection \<open>Bytes and words\<close>

lemma bit_byte_part:
  "bit (push_bit (8 * i) (ucast (byte_at v i) :: 64 word)) n
     = (8 * i \<le> n \<and> n < 8 * i + 8 \<and> bit v n)"
proof (cases "8 * i \<le> n")
  case True
  then obtain d where d: "n = 8 * i + d"
    using le_Suc_ex by blast
  show ?thesis
    by (auto simp: d byte_at_def bit_push_bit_iff bit_ucast_iff bit_drop_bit_eq
        dest: bit_imp_le_length)
next
  case False
  then show ?thesis
    by (simp add: bit_push_bit_iff)
qed

lemma bytes_join:
  "ucast (byte_at v 0) OR push_bit 8 (ucast (byte_at v 1)) OR push_bit 16 (ucast (byte_at v 2))
     OR push_bit 24 (ucast (byte_at v 3)) OR push_bit 32 (ucast (byte_at v 4))
     OR push_bit 40 (ucast (byte_at v 5)) OR push_bit 48 (ucast (byte_at v 6))
     OR push_bit 56 (ucast (byte_at v 7)) = (v :: 64 word)"
proof (rule bit_word_eqI)
  fix n :: nat
  assume n: "n < LENGTH(64)"
  have p: "\<And>i. bit (push_bit (8 * i) (ucast (byte_at v i) :: 64 word)) n
     = (8 * i \<le> n \<and> n < 8 * i + 8 \<and> bit v n)"
    by (rule bit_byte_part)
  have q0: "bit (ucast (byte_at v 0) :: 64 word) n = (n < 8 \<and> bit v n)"
    using p[of 0] by simp
  have q1: "bit (push_bit 8 (ucast (byte_at v 1)) :: 64 word) n = (8 \<le> n \<and> n < 16 \<and> bit v n)"
    using p[of 1] by simp
  have q2: "bit (push_bit 16 (ucast (byte_at v 2)) :: 64 word) n = (16 \<le> n \<and> n < 24 \<and> bit v n)"
    using p[of 2] by simp
  have q3: "bit (push_bit 24 (ucast (byte_at v 3)) :: 64 word) n = (24 \<le> n \<and> n < 32 \<and> bit v n)"
    using p[of 3] by simp
  have q4: "bit (push_bit 32 (ucast (byte_at v 4)) :: 64 word) n = (32 \<le> n \<and> n < 40 \<and> bit v n)"
    using p[of 4] by simp
  have q5: "bit (push_bit 40 (ucast (byte_at v 5)) :: 64 word) n = (40 \<le> n \<and> n < 48 \<and> bit v n)"
    using p[of 5] by simp
  have q6: "bit (push_bit 48 (ucast (byte_at v 6)) :: 64 word) n = (48 \<le> n \<and> n < 56 \<and> bit v n)"
    using p[of 6] by simp
  have q7: "bit (push_bit 56 (ucast (byte_at v 7)) :: 64 word) n = (56 \<le> n \<and> n < 64 \<and> bit v n)"
    using p[of 7] by simp
  have c: "n < 8 \<or> (8 \<le> n \<and> n < 16) \<or> (16 \<le> n \<and> n < 24) \<or> (24 \<le> n \<and> n < 32)
     \<or> (32 \<le> n \<and> n < 40) \<or> (40 \<le> n \<and> n < 48) \<or> (48 \<le> n \<and> n < 56) \<or> (56 \<le> n \<and> n < 64)"
    using n by auto
  show "bit (ucast (byte_at v 0) OR push_bit 8 (ucast (byte_at v 1)) OR push_bit 16 (ucast (byte_at v 2))
     OR push_bit 24 (ucast (byte_at v 3)) OR push_bit 32 (ucast (byte_at v 4))
     OR push_bit 40 (ucast (byte_at v 5)) OR push_bit 48 (ucast (byte_at v 6))
     OR push_bit 56 (ucast (byte_at v 7)) :: 64 word) n = bit v n"
    unfolding bit_or_iff q0 q1 q2 q3 q4 q5 q6 q7 using c by blast
qed

lemma load64_store64_same: "load64 (store64 m a v) a = v"
proof -
  have "load64 (store64 m a v) a =
     ucast (byte_at v 0) OR push_bit 8 (ucast (byte_at v 1)) OR push_bit 16 (ucast (byte_at v 2))
     OR push_bit 24 (ucast (byte_at v 3)) OR push_bit 32 (ucast (byte_at v 4))
     OR push_bit 40 (ucast (byte_at v 5)) OR push_bit 48 (ucast (byte_at v 6))
     OR push_bit 56 (ucast (byte_at v 7))"
    by (simp add: load64_def store64_def)
  then show ?thesis
    by (simp only: bytes_join)
qed

lemma store64_other_byte: "8 \<le> x - a \<Longrightarrow> store64 m a v x = m x"
  by (simp add: store64_def not_less[symmetric])

lemma off_far: "8 \<le> b - a \<Longrightarrow> 8 \<le> a - b \<Longrightarrow> k < 8 \<Longrightarrow> 8 \<le> (b + k) - (a :: 64 word)"
  by unat_arith

lemma load64_cong:
  assumes "\<And>k. k < 8 \<Longrightarrow> m' (b + k) = m (b + k)"
  shows "load64 m' b = load64 m b"
  using assms[of 0] assms[of 1] assms[of 2] assms[of 3] assms[of 4] assms[of 5] assms[of 6]
    assms[of 7]
  by (simp add: load64_def)

lemma load64_store64_other:
  assumes "8 \<le> b - a" "8 \<le> a - b"
  shows "load64 (store64 m a v) b = load64 m b"
  by (rule load64_cong) (rule store64_other_byte, rule off_far[OF assms])

lemma load64_zero: "load64 (\<lambda>a. 0) b = 0"
  by (simp add: load64_def)

lemmas mem_simps = load64_store64_same load64_store64_other load64_zero

subsection \<open>Masks\<close>

lemma and_not_mask_diff: "x AND NOT m = x - (x AND m)" for x m :: "64 word"
proof -
  have "NOT x AND (x AND m) = 0"
    by (rule bit_eqI) (auto simp: bit_and_iff bit_not_iff)
  then have "x - (x AND m) = x AND NOT (x AND m)"
    by (rule disjunctive_diff_eq_and_not)
  also have "\<dots> = x AND NOT m"
    by (rule bit_eqI) (auto simp: bit_and_iff bit_not_iff bit_or_iff)
  finally show ?thesis
    by simp
qed

lemma unat_and_not_mask: "unat (x AND NOT m) + unat (x AND m) = unat x" for x m :: "64 word"
proof -
  have "x AND m \<le> x"
    by (rule word_and_le2)
  then have "unat (x - (x AND m)) = unat x - unat (x AND m)" "unat (x AND m) \<le> unat x"
    by (simp_all add: unat_sub word_le_nat_alt)
  then show ?thesis
    by (simp only: and_not_mask_diff)
qed

lemma unat_and_mask_le: "unat (x AND m) \<le> unat m" for x m :: "64 word"
proof -
  have "x AND m \<le> m"
    by (rule word_and_le1)
  then show ?thesis
    by (simp add: word_le_nat_alt)
qed

lemma request2size_bounds:
  assumes "unat n + 23 \<le> unat PTRDIFF_MAX"
  shows "unat n + 8 \<le> unat (request2size n)" "unat (request2size n) \<le> unat PTRDIFF_MAX"
proof -
  have n: "unat n + 23 < 2 ^ 64"
    using assms by (simp add: PTRDIFF_MAX_def)
  have u: "unat (n + 23) = unat n + 23"
    using n by (simp add: unat_word_ariths)
  have a: "unat ((n + 23) AND NOT 15) + unat ((n + 23) AND 15) = unat n + 23"
    using unat_and_not_mask[of "n + 23" 15] u by simp
  have b: "unat ((n + 23) AND 15) \<le> 15"
    using unat_and_mask_le[of "n + 23" 15] by simp
  have r: "request2size n = (if n + 23 < 32 then 32 else (n + 23) AND NOT 15)"
    by (simp add: request2size_def consts_simps add.assoc)
  show "unat n + 8 \<le> unat (request2size n)"
    using a b u by (auto simp: r word_less_nat_alt)
  show "unat (request2size n) \<le> unat PTRDIFF_MAX"
    using a b u assms by (auto simp: r word_less_nat_alt PTRDIFF_MAX_def)
qed

lemma al: "(x AND NOT 15) AND 15 = (0::64 word)"
  by (simp add: and.assoc)
lemma m16: "unat (y AND (15 :: 64 word)) = unat y mod 16"
proof -
  have "(15 :: 64 word) = mask 4" by (simp add: mask_eq_exp_minus_1)
  then have "y AND 15 = take_bit 4 y" by (simp add: take_bit_eq_mask)
  then show ?thesis by (simp add: take_bit_eq_mod unat_mod)
qed
lemma ge32: "32 \<le> unat x \<Longrightarrow> 32 \<le> unat (x AND NOT (15 :: 64 word))"
proof -
  assume a: "32 \<le> unat x"
  have "unat ((x AND NOT 15) AND 15) = 0" by (simp only: al) simp
  then have m: "unat (x AND NOT 15) mod 16 = 0" by (simp only: m16)
  have "unat (x AND NOT 15) + unat (x AND 15) = unat x" by (rule unat_and_not_mask)
  moreover have "unat (x AND 15) \<le> 15" using unat_and_mask_le[of x 15] by simp
  ultimately have "17 \<le> unat (x AND NOT 15)" using a by linarith
  then show ?thesis using m by presburger
qed

lemma request2size_lower:
  assumes "n \<le> PTRDIFF_MAX"
  shows "unat n + 8 \<le> unat (request2size n)" "32 \<le> request2size n"
proof -
  have n: "unat n + 23 < 2 ^ 64"
    using assms by (simp add: PTRDIFF_MAX_def word_le_nat_alt)
  have u: "unat (n + 23) = unat n + 23"
    using n by (simp add: unat_word_ariths)
  have a: "unat ((n + 23) AND NOT 15) + unat ((n + 23) AND 15) = unat n + 23"
    using unat_and_not_mask[of "n + 23" 15] u by simp
  have b: "unat ((n + 23) AND 15) \<le> 15"
    using unat_and_mask_le[of "n + 23" 15] by simp
  have r: "request2size n = (if n + 23 < 32 then 32 else (n + 23) AND NOT 15)"
    by (simp add: request2size_def consts_simps add.assoc)
  show "unat n + 8 \<le> unat (request2size n)"
    using a b u by (auto simp: r word_less_nat_alt)
  have "32 \<le> unat (request2size n)"
  proof (cases "n + 23 < 32")
    case True
    then show ?thesis by (simp add: r)
  next
    case False
    then have "32 \<le> unat (n + 23)" by (simp add: word_less_nat_alt)
    then show ?thesis using False ge32[of "n + 23"] by (simp add: r)
  qed
  then show "32 \<le> request2size n"
    by (simp add: word_le_nat_alt)
qed

section \<open>Large-bin index\<close>

lemma unat_drop_bit64: "unat (drop_bit n (w :: 64 word)) = unat w div 2 ^ n"
  unfolding unat_drop_bit_eq by (simp add: drop_bit_eq_div)

lemma largebin_index_64_unat:
  "unat (largebin_index_64 sz) = spec_largebin_index (unat sz)"
  unfolding largebin_index_64_def spec_largebin_index_def
  by (simp add: word_le_nat_alt unat_drop_bit64 unat_word_ariths)

text \<open>
  C6. On the 64-bit platform with default alignment, the large-bin index of every size in
  large-bin range is the piecewise function of the specification: granularity 64 up to
  quotient 48 (bin 48 + size/64), then 512 up to 20 (bin 91 + size/512), then 4096 up to 10
  (bin 110 + size/4096), then 32768 up to 4 (bin 119 + size/32768), then 262144 up to 2
  (bin 124 + size/262144), and bin 126 for every larger size.
\<close>

theorem largebin_index_piecewise:
  "\<not> in_smallbin_range sz \<Longrightarrow> unat (largebin_index sz) = spec_largebin_index (unat sz)"
  by (simp add: largebin_index_def SIZE_SZ_def largebin_index_64_unat)

theorem largebin_index_piecewise_witness:
  "\<not> in_smallbin_range 0x2000 \<and> unat (largebin_index 0x2000) = 107
   \<and> spec_largebin_index (unat (0x2000 :: 64 word)) = 107"
  using largebin_index_piecewise[of "0x2000"]
  by (simp add: in_smallbin_range_def MIN_LARGE_SIZE_val spec_largebin_index_def)

section \<open>Request sizes and the allocation wrapper\<close>

lemma request2size_band:
  assumes "PTRDIFF_MAX - 22 \<le> n" "n \<le> PTRDIFF_MAX"
  shows "PTRDIFF_MAX < request2size n"
proof -
  have l: "9223372036854775785 \<le> unat n" "unat n \<le> 9223372036854775807"
    using assms by (simp_all add: word_le_nat_alt PTRDIFF_MAX_def)
  have u: "unat (n + 23) = unat n + 23"
    using l by (simp add: unat_word_ariths)
  have "unat (((n + 23) AND NOT 15) AND 15) = 0" by (simp only: al) simp
  then have m: "unat ((n + 23) AND NOT 15) mod 16 = 0" by (simp only: m16)
  have a: "unat ((n + 23) AND NOT 15) + unat ((n + 23) AND 15) = unat n + 23"
    using unat_and_not_mask[of "n + 23" 15] u by simp
  have b: "unat ((n + 23) AND 15) \<le> 15"
    using unat_and_mask_le[of "n + 23" 15] by simp
  have "9223372036854775793 \<le> unat ((n + 23) AND NOT 15)"
    using a b l by linarith
  then have c: "9223372036854775808 \<le> unat ((n + 23) AND NOT 15)"
    using m by presburger
  have "\<not> n + 23 < 32"
    using u l by (simp add: word_less_nat_alt)
  then have r: "request2size n = (n + 23) AND NOT 15"
    by (simp add: request2size_def consts_simps add.assoc)
  show ?thesis
    using c by (simp add: r word_less_nat_alt PTRDIFF_MAX_def)
qed

text \<open>
  C1. The comment of \<open>checked_request2size\<close> announces a check that the padded and
  aligned value stays below the pointer-difference maximum, and so does the claim. The
  code compares the request itself, before padding: the conversion fails exactly when the
  request is above \<open>PTRDIFF_MAX\<close>; for the 23 requests from \<open>PTRDIFF_MAX - 22\<close> to
  \<open>PTRDIFF_MAX\<close> it succeeds with a padded size above \<open>PTRDIFF_MAX\<close>; below that band it
  succeeds with a padded size above the request and not above \<open>PTRDIFF_MAX\<close>. A request
  above \<open>PTRDIFF_MAX\<close> is refused by \<open>__libc_malloc\<close> (no allocation hook installed) with
  \<open>ENOMEM\<close> and a null result, nothing else being changed.
\<close>

theorem checked_request2size_tests_request:
  "(checked_request2size n = None \<longleftrightarrow> PTRDIFF_MAX < n)
   \<and> (PTRDIFF_MAX - 22 \<le> n \<and> n \<le> PTRDIFF_MAX \<longrightarrow>
        checked_request2size n = Some (request2size n) \<and> PTRDIFF_MAX < request2size n)
   \<and> (n < PTRDIFF_MAX - 22 \<longrightarrow>
        checked_request2size n = Some (request2size n)
        \<and> request2size n \<le> PTRDIFF_MAX \<and> n < request2size n)
   \<and> (malloc_hook E = None \<and> PTRDIFF_MAX < n \<longrightarrow>
        libc_malloc E n s = Some (Return 0 (s\<lparr>errno := ENOMEM\<rparr>)))"
proof (intro conjI impI)
  show "checked_request2size n = None \<longleftrightarrow> PTRDIFF_MAX < n"
    by (simp add: checked_request2size_def)
next
  assume a: "PTRDIFF_MAX - 22 \<le> n \<and> n \<le> PTRDIFF_MAX"
  then show "checked_request2size n = Some (request2size n)"
    by (simp add: checked_request2size_def not_less)
  show "PTRDIFF_MAX < request2size n"
    using a by (intro request2size_band) simp_all
next
  assume a: "n < PTRDIFF_MAX - 22"
  then have b: "unat n + 23 \<le> unat PTRDIFF_MAX"
    by (simp add: word_less_nat_alt PTRDIFF_MAX_def)
  then have "n \<le> PTRDIFF_MAX"
    by (simp add: word_le_nat_alt)
  then show "checked_request2size n = Some (request2size n)"
    by (simp add: checked_request2size_def not_less)
  show "request2size n \<le> PTRDIFF_MAX"
    using request2size_bounds(2)[OF b] by (simp add: word_le_nat_alt)
  show "n < request2size n"
    using request2size_bounds(1)[OF b] by (simp add: word_less_nat_alt)
next
  assume "malloc_hook E = None \<and> PTRDIFF_MAX < n"
  then show "libc_malloc E n s = Some (Return 0 (s\<lparr>errno := ENOMEM\<rparr>))"
    by (simp add: libc_malloc_def checked_request2size_def)
qed

theorem checked_request2size_tests_request_witness:
  "PTRDIFF_MAX - 22 \<le> PTRDIFF_MAX
   \<and> checked_request2size PTRDIFF_MAX = Some 0x8000000000000010
   \<and> PTRDIFF_MAX < (0x8000000000000010 :: 64 word)
   \<and> (100 :: 64 word) < PTRDIFF_MAX - 22
   \<and> checked_request2size 100 = Some 112
   \<and> malloc_hook env0 = None \<and> PTRDIFF_MAX < (0x8000000000000000 :: 64 word)
   \<and> checked_request2size 0x8000000000000000 = None
   \<and> libc_malloc env0 0x8000000000000000 st0 = Some (Return 0 (st0\<lparr>errno := ENOMEM\<rparr>))"
  using checked_request2size_tests_request[of PTRDIFF_MAX env0 st0]
    checked_request2size_tests_request[of 100 env0 st0]
    checked_request2size_tests_request[of "0x8000000000000000" env0 st0]
  by (simp add: env0_def consts_simps request2size_def)

subsection \<open>An empty unsorted bin\<close>

lemma unsorted_drain_empty:
  "bk (mem s) (unsorted_chunks av) = unsorted_chunks av \<Longrightarrow>
     unsorted_drain av nb bytes tcache_nb tc_idx s l = Some (drain_exit tc_idx s l)"
  by (subst unsorted_drain.simps) simp

lemma unsorted_main: "unsorted_chunks 0x100000 = 0x100060"
  by (simp add: unsorted_chunks_def bin_at_def bins_offset_def SIZE_SZ_def)

lemma bk_heap1: "bk heap1 0x100060 = 0x100060"
  by (simp add: bk_def heap1_def SIZE_SZ_def mem_simps)

section \<open>Usable size of page-mapped chunks\<close>

lemma st7_size: "chunksize_nomask (mem st7) 0x7f0000000000 = 0x21002"
  by (simp add: chunksize_nomask_def st7_def SIZE_SZ_def mem_simps)

lemma st7_facts:
  "chunk_is_mmapped (mem st7) (mem2chunk 0x7f0000000010)"
  "\<not> DUMPED_MAIN_ARENA_CHUNK st7 (mem2chunk 0x7f0000000010)"
  "chunksize (mem st7) (mem2chunk 0x7f0000000010) = 0x21000"
  "using_malloc_checking st7 \<noteq> 1"
  by (simp_all add: chunk_is_mmapped_def mem2chunk_def SIZE_SZ_def st7_size IS_MMAPPED_def
      DUMPED_MAIN_ARENA_CHUNK_def chunksize_def SIZE_BITS_def PREV_INUSE_def NON_MAIN_ARENA_def)
    (simp_all add: st7_def st0_def)

text \<open>
  C7, as amended. For every non-null pointer whose chunk is page-mapped (M flag set) and
  not a dumped-arena chunk, with malloc checking off, the usable size is the chunk size
  minus two header words (\<open>2 * SIZE_SZ\<close>).
\<close>

theorem usable_size_mmapped:
  "memp \<noteq> 0 \<Longrightarrow> using_malloc_checking s \<noteq> 1 \<Longrightarrow>
   chunk_is_mmapped (mem s) (mem2chunk memp) \<Longrightarrow>
   \<not> DUMPED_MAIN_ARENA_CHUNK s (mem2chunk memp) \<Longrightarrow>
   malloc_usable_size E s memp = chunksize (mem s) (mem2chunk memp) - 2 * SIZE_SZ"
  by (simp add: malloc_usable_size_def musable_def)

theorem usable_size_mmapped_witness:
  "(0x7f0000000010 :: 64 word) \<noteq> 0 \<and> using_malloc_checking st7 \<noteq> 1
   \<and> chunk_is_mmapped (mem st7) (mem2chunk 0x7f0000000010)
   \<and> \<not> DUMPED_MAIN_ARENA_CHUNK st7 (mem2chunk 0x7f0000000010)
   \<and> malloc_usable_size env0 st7 0x7f0000000010 = 0x20ff0"
  using usable_size_mmapped[of "0x7f0000000010" st7 env0] st7_facts
  by (simp add: SIZE_SZ_def)

text \<open>
  C7 as stated fails: for the page-mapped chunk of 0x21000 bytes the usable size is not
  the chunk size minus a single header word.
\<close>

theorem usable_size_single_word_counterexample:
  "chunk_is_mmapped (mem st7) (mem2chunk 0x7f0000000010)
   \<and> \<not> DUMPED_MAIN_ARENA_CHUNK st7 (mem2chunk 0x7f0000000010)
   \<and> malloc_usable_size env0 st7 0x7f0000000010
       \<noteq> chunksize (mem st7) (mem2chunk 0x7f0000000010) - SIZE_SZ"
  using st7_facts by (simp add: malloc_usable_size_def musable_def SIZE_SZ_def)

section \<open>Release: the checks on entry\<close>

lemma neg_less_iff: "(- sz < (p :: 64 word)) = (sz = 0 \<and> p \<noteq> 0 \<or> 2 ^ 64 < unat p + unat sz)"
proof (cases "sz = 0")
  case True
  have "unat p < 2 ^ 64"
    using unsigned_less[of p] by simp
  then show ?thesis
    using True by (simp add: word_neq_0_conv)
next
  case False
  then have "unat sz \<noteq> 0"
    by (simp add: unat_eq_0)
  moreover have "unat sz < 2 ^ 64"
    using unsigned_less[of sz] by simp
  ultimately have "unat (- sz) = 2 ^ 64 - unat sz"
    using unat_sub_if_size[of 0 sz] by (simp add: word_size)
  then show ?thesis
    using False \<open>unat sz < 2 ^ 64\<close> by (auto simp: word_less_nat_alt)
qed

lemma MAYBE_INIT_TCACHE_noop:
  "tcache s \<noteq> 0 \<or> tcache_shutting_down s \<Longrightarrow> MAYBE_INIT_TCACHE E s = Some (Return () s)"
  by (auto simp: MAYBE_INIT_TCACHE_def tcache_init_def)

text \<open>
  C9, as amended. For every non-null pointer passed to \<open>__libc_free\<close> whose chunk is not
  page-mapped, with no free hook installed and the thread's tcache already set up (or shut
  down), the release aborts in the state it was entered in, before any tcache, fast-bin or
  bin mutation: with \<open>free(): invalid pointer\<close> if the chunk address is above the negated
  size (the chunk would wrap past the end of the address space, or its size is zero) or the
  chunk is misaligned; and otherwise with \<open>free(): invalid size\<close> if the size is below the
  minimum chunk size or not a multiple of the alignment quantum.
\<close>

theorem free_entry_checks:
  assumes "free_hook E = None" "memp \<noteq> 0" "\<not> chunk_is_mmapped (mem s) (mem2chunk memp)"
    "tcache s \<noteq> 0 \<or> tcache_shutting_down s"
  shows "(- chunksize (mem s) (mem2chunk memp) < mem2chunk memp
            \<or> misaligned_chunk (mem2chunk memp) \<noteq> 0 \<longrightarrow>
          libc_free E memp s = Some (Abort ''free(): invalid pointer'' s))
       \<and> (\<not> (- chunksize (mem s) (mem2chunk memp) < mem2chunk memp
               \<or> misaligned_chunk (mem2chunk memp) \<noteq> 0)
           \<and> (chunksize (mem s) (mem2chunk memp) < MINSIZE
               \<or> \<not> aligned_OK (chunksize (mem s) (mem2chunk memp))) \<longrightarrow>
          libc_free E memp s = Some (Abort ''free(): invalid size'' s))
       \<and> ((- chunksize (mem s) (mem2chunk memp) < mem2chunk memp) =
            (chunksize (mem s) (mem2chunk memp) = 0 \<and> mem2chunk memp \<noteq> 0
             \<or> 2 ^ 64 < unat (mem2chunk memp) + unat (chunksize (mem s) (mem2chunk memp))))"
  using assms MAYBE_INIT_TCACHE_noop[OF assms(4), of E]
  by (simp add: libc_free_def obind_def int_free_def Let_def neg_less_iff)

lemma cs_masks: "SIZE_BITS = 7" "PREV_INUSE = 1" "IS_MMAPPED = 2" "NON_MAIN_ARENA = 4"
  by (simp_all add: SIZE_BITS_def PREV_INUSE_def IS_MMAPPED_def NON_MAIN_ARENA_def)

lemma mem2chunk_603010: "mem2chunk (0x603010 :: 64 word) = 0x603000"
  by (simp add: mem2chunk_def SIZE_SZ_def)

lemma misaligned_603000: "misaligned_chunk 0x603000 = 0"
  by (simp add: misaligned_chunk_def consts_simps)

lemma st9a_facts:
  "chunksize_nomask (mem st9a) 0x603000 = 0xfffffffffffffff1"
  "tcache st9a \<noteq> 0"
  by (simp_all add: chunksize_nomask_def st9a_def st0_def SIZE_SZ_def mem_simps)

lemma st9b_facts:
  "chunksize_nomask (mem st9b) 0x603000 = 0x11"
  "tcache st9b \<noteq> 0"
  by (simp_all add: chunksize_nomask_def st9b_def st0_def SIZE_SZ_def mem_simps)

theorem free_entry_checks_witness:
  "free_hook env0 = None \<and> (0x603010 :: 64 word) \<noteq> 0
   \<and> \<not> chunk_is_mmapped (mem st9a) (mem2chunk 0x603010) \<and> tcache st9a \<noteq> 0
   \<and> 2 ^ 64 < unat (mem2chunk (0x603010 :: 64 word))
                + unat (chunksize (mem st9a) (mem2chunk 0x603010))
   \<and> libc_free env0 0x603010 st9a = Some (Abort ''free(): invalid pointer'' st9a)
   \<and> \<not> chunk_is_mmapped (mem st9b) (mem2chunk 0x603010) \<and> tcache st9b \<noteq> 0
   \<and> \<not> (- chunksize (mem st9b) (mem2chunk 0x603010) < mem2chunk 0x603010
          \<or> misaligned_chunk (mem2chunk 0x603010) \<noteq> 0)
   \<and> chunksize (mem st9b) (mem2chunk 0x603010) < MINSIZE
   \<and> libc_free env0 0x603010 st9b = Some (Abort ''free(): invalid size'' st9b)"
proof -
  have h: "free_hook env0 = None"
    by (simp add: env0_def)
  have n: "(0x603010 :: 64 word) \<noteq> 0"
    by simp
  note p = mem2chunk_603010
  have a1: "\<not> chunk_is_mmapped (mem st9a) (mem2chunk 0x603010)"
    by (simp add: p chunk_is_mmapped_def st9a_facts cs_masks)
  have a2: "chunksize (mem st9a) 0x603000 = 0xfffffffffffffff0"
    by (simp add: chunksize_def st9a_facts cs_masks)
  have b1: "\<not> chunk_is_mmapped (mem st9b) (mem2chunk 0x603010)"
    by (simp add: p chunk_is_mmapped_def st9b_facts cs_masks)
  have b2: "chunksize (mem st9b) 0x603000 = 0x10"
    by (simp add: chunksize_def st9b_facts cs_masks)
  show ?thesis
    using free_entry_checks[OF h n a1] free_entry_checks[OF h n b1] a1 b1
    by (simp add: st9a_facts st9b_facts a2 b2 misaligned_603000 h p MINSIZE_val)
qed

subsection \<open>A zero size field, and a thread without a tcache\<close>

lemma next_block_clear:
  assumes "\<And>i. binmap a i = 0"
  shows "next_block a 3 = Some None" "next_block a 2 = Some None" "next_block a 1 = Some None"
    "next_block a 0 = Some None"
proof -
  show n3: "next_block a 3 = Some None"
    by (subst next_block.simps) (simp add: BINMAPSIZE_def)
  show n2: "next_block a 2 = Some None"
    by (subst next_block.simps) (simp add: BINMAPSIZE_def assms n3)
  show n1: "next_block a 1 = Some None"
    by (subst next_block.simps) (simp add: BINMAPSIZE_def assms n2)
  show "next_block a 0 = Some None"
    by (subst next_block.simps) (simp add: BINMAPSIZE_def assms n1)
qed

lemma st9_mem:
  "bk (mem st9) 0x1002e0 = 0x1002e0"
  "bk (mem st9) 0x100060 = 0x100060"
  "chunksize_nomask (mem st9) 0x603000 = 0"
  "chunksize (mem st9) 0x604000 = 0x20000"
  by (simp_all add: bk_def chunksize_def chunksize_nomask_def st9_def st0_def heap1_def
      SIZE_SZ_def cs_masks mem_simps)

lemma st9_arena:
  "av_top (arena st9 0x100000) = 0x604000"
  "system_mem (arena st9 0x100000) = 0x21000"
  "binmap (arena st9 0x100000) i = 0"
  "main_arena st9 = 0x100000" "tcache st9 = 0" "perturb_byte st9 = 0"
  "get_max_fast st9 = 0x80" "\<not> tcache_shutting_down st9"
  by (simp_all add: st9_def st0_def arena0_def get_max_fast_def)

lemma tcache_request: "checked_request2size sizeof_tcache_perthread_struct = Some 0x290"
  by (simp add: sizeof_tcache_perthread_struct_def TCACHE_MAX_BINS_def checked_request2size_def
      request2size_def consts_simps)

lemma bin41: "smallbin_index 0x290 = 41" "bin_at 0x100000 41 = 0x1002e0"
  by (simp_all add: smallbin_index_def SMALLBIN_WIDTH_def SMALLBIN_CORRECTION_def bin_at_def
      bins_offset_def consts_simps)

lemma st9_scan:
  "bin_scan 0x100000 0x290 bytes (idx2block 42) (binmap (arena st9 0x100000) (unat (idx2block 42)))
     (idx2bit 42) (bin_at 0x100000 42) st9 = Some (Inr st9)"
proof -
  have b: "idx2block 42 = 1" "idx2bit 42 = 1024"
    by (simp_all add: idx2block_def idx2bit_def BINMAPSHIFT_def)
  have n: "next_block (arena st9 0x100000) 1 = Some None"
    by (rule next_block_clear) (simp add: st9_arena)
  show ?thesis
    by (subst bin_scan.simps) (simp add: b st9_arena n)
qed

lemma st9_top:
  "use_top env0 0x100000 0x290 bytes st9
     = Some (Inl (Return 0x604010
         (st9\<lparr>mem := store64 (store64 (mem st9) 0x604008 0x291) 0x604298 0x1fd71,
              arena := (\<lambda>a. arena0\<lparr>av_top := 0x604000\<rparr>)
                         (0x100000 := arena0\<lparr>av_top := 0x604290\<rparr>)\<rparr>)))"
  by (simp add: use_top_def Let_def st9_arena st9_mem MINSIZE_val chunk_at_offset_def
      upd_arena_def set_head_def cs_masks chunk2mem_def SIZE_SZ_def alloc_perturb_def)
    (simp add: st9_def st0_def)

lemma st9_int_malloc:
  "int_malloc env0 0x100000 sizeof_tcache_perthread_struct st9
     = Some (Return 0x604010
         (st9\<lparr>mem := store64 (store64 (mem st9) 0x604008 0x291) 0x604298 0x1fd71,
              arena := (\<lambda>a. arena0\<lparr>av_top := 0x604000\<rparr>)
                         (0x100000 := arena0\<lparr>av_top := 0x604290\<rparr>)\<rparr>))"
proof -
  let ?l = "\<lparr>iters = 0, return_cached = False, tcache_unsorted_count = 0\<rparr>"
  have d: "unsorted_drain 0x100000 0x290 sizeof_tcache_perthread_struct 0 (csize2tidx 0x290) st9 ?l
     = Some (Inr (st9, ?l))"
    by (simp add: unsorted_drain_empty unsorted_main st9_mem drain_exit_def)
  have s: "in_smallbin_range 0x290"
    by (simp add: in_smallbin_range_def MIN_LARGE_SIZE_val)
  have p: "(41 :: 32 word) + 1 = 42" by simp
  have l: "int_malloc_loop env0 0x100000 0x290 sizeof_tcache_perthread_struct 0
      (csize2tidx 0x290) 41 st9 ?l
     = Some (Return 0x604010
         (st9\<lparr>mem := store64 (store64 (mem st9) 0x604008 0x291) 0x604298 0x1fd71,
              arena := (\<lambda>a. arena0\<lparr>av_top := 0x604000\<rparr>)
                         (0x100000 := arena0\<lparr>av_top := 0x604290\<rparr>)\<rparr>))"
    by (subst int_malloc_loop.simps) (simp add: d s p st9_scan st9_top)
  have f: "int_malloc_fast 0x100000 0x290 sizeof_tcache_perthread_struct st9 = Some None"
    by (simp add: int_malloc_fast_def st9_arena)
  have m: "int_malloc_small 0x100000 0x290 sizeof_tcache_perthread_struct st9 = Some None"
    by (simp add: int_malloc_small_def Let_def bin41 st9_mem)
  show ?thesis
    by (simp add: int_malloc_def tcache_request f s m bin41 st9_arena l)
qed

lemma st9_init: "MAYBE_INIT_TCACHE env0 st9 = Some (Return () st9_tcache)"
proof -
  have b: "arena_get env0 = (\<lambda>bytes s. (main_arena s, s))"
    by (simp add: env0_def)
  show ?thesis
    by (simp add: MAYBE_INIT_TCACHE_def tcache_init_def st9_arena b st9_int_malloc obind_def
        st9_tcache_def)
qed

lemma st9_free: "libc_free env0 0x603010 st9 = Some (Abort ''free(): invalid pointer'' st9_tcache)"
proof -
  have h: "free_hook env0 = None"
    by (simp add: env0_def)
  have m: "chunksize_nomask (mem st9_tcache) 0x603000 = 0"
    by (simp add: st9_tcache_def chunksize_nomask_def st9_def st0_def heap1_def SIZE_SZ_def
        mem_simps)
  have c: "\<not> chunk_is_mmapped (mem st9) 0x603000" "chunksize (mem st9_tcache) 0x603000 = 0"
    by (simp_all add: chunk_is_mmapped_def chunksize_def st9_mem m)
  show ?thesis
    by (simp add: libc_free_def h mem2chunk_603010 c st9_init obind_def int_free_def)
qed

lemma st0_chunk:
  "\<not> chunk_is_mmapped (mem st0) 0x603000" "chunksize (mem st0) 0x603000 = 0"
  by (simp_all add: chunk_is_mmapped_def chunksize_def chunksize_nomask_def st0_def mem_simps)

lemma st0_free: "libc_free env0 0x603010 st0 = Some (Abort ''free(): invalid pointer'' st0)"
proof -
  have h: "free_hook env0 = None"
    by (simp add: env0_def)
  have t: "MAYBE_INIT_TCACHE env0 st0 = Some (Return () st0)"
    by (rule MAYBE_INIT_TCACHE_noop) (simp add: st0_def)
  show ?thesis
    by (simp add: libc_free_def h mem2chunk_603010 st0_chunk t obind_def int_free_def)
qed

text \<open>
  C9 as stated fails. A chunk whose size field is zero does not wrap and is aligned, and
  its size is below the minimum, yet the abort is \<open>free(): invalid pointer\<close>, not
  \<open>free(): invalid size\<close>. And in a thread that has no tcache yet, the tcache is
  allocated and installed before the check aborts.
\<close>

theorem free_entry_counterexample:
  "(0x603010 :: 64 word) \<noteq> 0
   \<and> \<not> chunk_is_mmapped (mem st0) (mem2chunk 0x603010)
   \<and> \<not> 2 ^ 64 < unat (mem2chunk (0x603010 :: 64 word))
                  + unat (chunksize (mem st0) (mem2chunk 0x603010))
   \<and> misaligned_chunk (mem2chunk 0x603010) = 0
   \<and> chunksize (mem st0) (mem2chunk 0x603010) < MINSIZE
   \<and> libc_free env0 0x603010 st0 = Some (Abort ''free(): invalid pointer'' st0)
   \<and> libc_free env0 0x603010 st9 = Some (Abort ''free(): invalid pointer'' st9_tcache)
   \<and> tcache st9 = 0 \<and> tcache st9_tcache = 0x604010"
proof -
  have "tcache st9 = 0" "tcache st9_tcache = 0x604010"
    by (simp_all add: st9_tcache_def st9_def st0_def)
  then show ?thesis
    using st0_free st9_free
    by (simp add: mem2chunk_603010 st0_chunk misaligned_603000 MINSIZE_val)
qed

section \<open>Release into a fast bin\<close>

lemma fast_next_size_bad_iff:
  "fast_next_size_bad s av p sz \<longleftrightarrow>
     \<not> (2 * SIZE_SZ < chunksize_nomask (mem s) (p + sz)
        \<and> chunksize (mem s) (p + sz) < system_mem (arena s av))"
  by (simp add: fast_next_size_bad_def chunk_at_offset_def not_less de_Morgan_conj)

lemma int_free_fast_cases:
  assumes "old = fastbinsY (arena s av) (unat (fastbin_index sz))"
    "m' = set_fd (mem (free_perturb s (chunk2mem p) (sz - 2 * SIZE_SZ))) p old"
  shows "int_free_fast av p have_lock sz s =
     (if fast_next_size_bad s av p sz then Abort ''free(): invalid next size (fast)'' s
      else if old = p
      then Abort ''double free or corruption (fasttop)''
             (upd_arena av (\<lambda>a. a\<lparr>have_fastchunks := True\<rparr>)
                (free_perturb s (chunk2mem p) (sz - 2 * SIZE_SZ)))
      else if have_lock \<and> old \<noteq> 0 \<and> fastbin_index (chunksize m' old) \<noteq> fastbin_index sz
      then Abort ''invalid fastbin entry (free)''
             (upd_arena av (\<lambda>a. a\<lparr>fastbinsY := (fastbinsY a)(unat (fastbin_index sz) := p)\<rparr>)
                ((upd_arena av (\<lambda>a. a\<lparr>have_fastchunks := True\<rparr>)
                   (free_perturb s (chunk2mem p) (sz - 2 * SIZE_SZ)))\<lparr>mem := m'\<rparr>))
      else Return ()
             (upd_arena av (\<lambda>a. a\<lparr>fastbinsY := (fastbinsY a)(unat (fastbin_index sz) := p)\<rparr>)
                ((upd_arena av (\<lambda>a. a\<lparr>have_fastchunks := True\<rparr>)
                   (free_perturb s (chunk2mem p) (sz - 2 * SIZE_SZ)))\<lparr>mem := m'\<rparr>)))"
proof -
  have o: "fastbinsY (arena (upd_arena av (\<lambda>a. a\<lparr>have_fastchunks := True\<rparr>) t) av) i
      = fastbinsY (arena t av) i" for t i
    by (simp add: upd_arena_def)
  have a: "arena (free_perturb s q n) = arena s" for q n
    by (simp add: free_perturb_def)
  have m: "mem (upd_arena av g t) = mem t" for g t
    by (simp add: upd_arena_def)
  show ?thesis
  proof (cases "fast_next_size_bad s av p sz")
    case True
    then have "int_free_fast av p have_lock sz s = Abort ''free(): invalid next size (fast)'' s"
      by (simp add: int_free_fast_def)
    then show ?thesis
      using True by (simp only: if_True)
  next
    case False
    then have "int_free_fast av p have_lock sz s =
      (if old = p
      then Abort ''double free or corruption (fasttop)''
             (upd_arena av (\<lambda>a. a\<lparr>have_fastchunks := True\<rparr>)
                (free_perturb s (chunk2mem p) (sz - 2 * SIZE_SZ)))
      else if have_lock \<and> old \<noteq> 0 \<and> fastbin_index (chunksize m' old) \<noteq> fastbin_index sz
      then Abort ''invalid fastbin entry (free)''
             (upd_arena av (\<lambda>a. a\<lparr>fastbinsY := (fastbinsY a)(unat (fastbin_index sz) := p)\<rparr>)
                ((upd_arena av (\<lambda>a. a\<lparr>have_fastchunks := True\<rparr>)
                   (free_perturb s (chunk2mem p) (sz - 2 * SIZE_SZ)))\<lparr>mem := m'\<rparr>))
      else Return ()
             (upd_arena av (\<lambda>a. a\<lparr>fastbinsY := (fastbinsY a)(unat (fastbin_index sz) := p)\<rparr>)
                ((upd_arena av (\<lambda>a. a\<lparr>have_fastchunks := True\<rparr>)
                   (free_perturb s (chunk2mem p) (sz - 2 * SIZE_SZ)))\<lparr>mem := m'\<rparr>)))"
      by (simp add: int_free_fast_def Let_def o a m assms)
    then show ?thesis
      using False by (simp only: if_False)
  qed
qed

text \<open>
  C3, as amended. For every chunk that reaches the fast-bin branch of \<open>_int_free\<close> (valid
  pointer and size, not taken by the tcache, size at most the fast ceiling): the
  next-size test fails exactly when the successor's size is outside the open interval
  (\<open>2 * SIZE_SZ\<close>, the arena's system memory), that is, when the raw size field is at most
  \<open>2 * SIZE_SZ\<close> or the masked size is at least \<open>system_mem\<close>, and then the release aborts
  with \<open>free(): invalid next size (fast)\<close>; pushing a chunk equal to the current fast-bin
  head aborts with \<open>double free or corruption (fasttop)\<close>; and the release proceeds without
  abort exactly when the next-size test passes, the chunk is not the current head, and,
  when the arena lock is held, a non-null old head has the fast-bin index of the chunk.
\<close>

theorem fastbin_release_checks:
  assumes "chunksize (mem s) p = sz"
    "\<not> (- sz < p \<or> misaligned_chunk p \<noteq> 0)" "\<not> (sz < MINSIZE \<or> \<not> aligned_OK sz)"
    "int_free_tcache s p sz = Some None" "sz \<le> get_max_fast s"
    "old = fastbinsY (arena s av) (unat (fastbin_index sz))"
    "m' = set_fd (mem (free_perturb s (chunk2mem p) (sz - 2 * SIZE_SZ))) p old"
  shows
    "(fast_next_size_bad s av p sz \<longleftrightarrow>
        \<not> (2 * SIZE_SZ < chunksize_nomask (mem s) (p + sz)
           \<and> chunksize (mem s) (p + sz) < system_mem (arena s av)))
     \<and> (fast_next_size_bad s av p sz \<longrightarrow>
          int_free E av p have_lock s = Some (Abort ''free(): invalid next size (fast)'' s))
     \<and> (\<not> fast_next_size_bad s av p sz \<and> old = p \<longrightarrow>
          (\<exists>t. int_free E av p have_lock s = Some (Abort ''double free or corruption (fasttop)'' t)))
     \<and> ((\<exists>t. int_free E av p have_lock s = Some (Return () t)) \<longleftrightarrow>
          \<not> fast_next_size_bad s av p sz \<and> old \<noteq> p
          \<and> \<not> (have_lock \<and> old \<noteq> 0 \<and> fastbin_index (chunksize m' old) \<noteq> fastbin_index sz))"
proof -
  have f: "int_free E av p have_lock s = Some (int_free_fast av p have_lock sz s)"
    using assms by (simp add: int_free_def)
  note c = int_free_fast_cases[OF assms(6,7), of have_lock]
  show ?thesis
    unfolding f c using fast_next_size_bad_iff[of s av p sz] by auto
qed

lemma st3ok_facts:
  "chunksize (mem st3ok) 0x603000 = 0x20"
  "chunksize_nomask (mem st3ok) 0x603020 = 0x21"
  "chunksize (mem st3ok) 0x603020 = 0x20"
  "tcache st3ok = 0" "get_max_fast st3ok = 0x80"
  "arena st3ok 0x100000 = arena0"
  by (simp_all add: chunksize_def chunksize_nomask_def st3ok_def st0_def SIZE_SZ_def mem_simps
      cs_masks get_max_fast_def)

lemma st3_facts:
  "chunksize (mem st3) 0x603000 = 0x20"
  "chunksize_nomask (mem st3) 0x603020 = 0x10"
  "chunksize (mem st3) 0x603020 = 0x10"
  "tcache st3 = 0" "get_max_fast st3 = 0x80"
  "arena st3 0x100000 = arena0"
  by (simp_all add: chunksize_def chunksize_nomask_def st3_def st0_def SIZE_SZ_def mem_simps
      cs_masks get_max_fast_def)

lemma valid_603000_20:
  "\<not> (- 0x20 < (0x603000 :: 64 word) \<or> misaligned_chunk 0x603000 \<noteq> 0)"
  "\<not> ((0x20 :: 64 word) < MINSIZE \<or> \<not> aligned_OK 0x20)"
  by (simp_all add: misaligned_603000 MINSIZE_val aligned_OK_def consts_simps)

theorem fastbin_release_checks_witness:
  "chunksize (mem st3ok) 0x603000 = 0x20
   \<and> \<not> (- 0x20 < (0x603000 :: 64 word) \<or> misaligned_chunk 0x603000 \<noteq> 0)
   \<and> \<not> ((0x20 :: 64 word) < MINSIZE \<or> \<not> aligned_OK 0x20)
   \<and> int_free_tcache st3ok 0x603000 0x20 = Some None
   \<and> 0x20 \<le> get_max_fast st3ok
   \<and> \<not> fast_next_size_bad st3ok 0x100000 0x603000 0x20
   \<and> (\<exists>t. int_free env0 0x100000 0x603000 False st3ok = Some (Return () t))"
proof -
  have t: "int_free_tcache st3ok 0x603000 0x20 = Some None"
    by (simp add: int_free_tcache_def st3ok_facts)
  have g: "(0x20 :: 64 word) \<le> get_max_fast st3ok"
    by (simp add: st3ok_facts)
  have b: "\<not> fast_next_size_bad st3ok 0x100000 0x603000 0x20"
    by (simp add: fast_next_size_bad_def chunk_at_offset_def st3ok_facts arena0_def SIZE_SZ_def)
  have o: "fastbinsY (arena st3ok 0x100000) (unat (fastbin_index 0x20)) = 0"
    by (simp add: st3ok_facts arena0_def)
  show ?thesis
    using fastbin_release_checks[OF st3ok_facts(1) valid_603000_20 t g o[symmetric] refl,
        of env0 False] b t g
    by (simp add: st3ok_facts misaligned_603000 MINSIZE_val aligned_OK_def consts_simps)
qed

text \<open>
  C3 as stated fails: a successor whose size field is exactly \<open>2 * SIZE_SZ\<close> lies in the
  closed interval from \<open>2 * SIZE_SZ\<close> to the arena's system memory, and the release aborts
  with \<open>free(): invalid next size (fast)\<close>.
\<close>

theorem fastbin_closed_interval_counterexample:
  "chunksize (mem st3) 0x603000 = 0x20
   \<and> 0x20 \<le> get_max_fast st3
   \<and> 2 * SIZE_SZ \<le> chunksize_nomask (mem st3) (0x603000 + 0x20)
   \<and> chunksize_nomask (mem st3) (0x603000 + 0x20) \<le> system_mem (arena st3 0x100000)
   \<and> int_free env0 0x100000 0x603000 False st3
       = Some (Abort ''free(): invalid next size (fast)'' st3)"
proof -
  have t: "int_free_tcache st3 0x603000 0x20 = Some None"
    by (simp add: int_free_tcache_def st3_facts)
  have b: "fast_next_size_bad st3 0x100000 0x603000 0x20"
    by (simp add: fast_next_size_bad_def chunk_at_offset_def st3_facts arena0_def SIZE_SZ_def)
  have "int_free env0 0x100000 0x603000 False st3
      = Some (int_free_fast 0x100000 0x603000 False 0x20 st3)"
    using valid_603000_20 t by (simp add: int_free_def st3_facts)
  then show ?thesis
    using b by (simp add: int_free_fast_def st3_facts arena0_def SIZE_SZ_def)
qed

section \<open>Perturbation and the tcache\<close>

lemma st2m_malloc: "libc_malloc env0 24 st2m = Some (Return 0x603010 st2m_after)"
proof -
  have h: "malloc_hook env0 = None" by (simp add: env0_def)
  have r: "checked_request2size 24 = Some 32"
    by (simp add: checked_request2size_def request2size_def consts_simps)
  have i: "csize2tidx 32 = 0" by (simp add: csize2tidx_def consts_simps)
  have t: "MAYBE_INIT_TCACHE env0 st2m = Some (Return () st2m)"
    by (rule MAYBE_INIT_TCACHE_noop) (simp add: st2m_def st0_def)
  have c: "0 < tcache_bins (mp st2m)" "tcache st2m \<noteq> 0" "counts (tcache_struct st2m) 0 = 1"
      "entries (tcache_struct st2m) 0 = 0x603010"
    by (simp_all add: st2m_def st0_def mp0_def TCACHE_MAX_BINS_def)
  have l: "load64 (mem st2m) 0x603010 = 0"
    by (simp add: st2m_def st0_def mem_simps)
  have g: "tcache_get st2m 0 = Return 0x603010 st2m_after"
    apply (simp add: tcache_get_def c l st2m_after_def Let_def)
    apply (simp add: st2m_def st0_def fun_eq_iff)
    done
  show ?thesis
    by (simp add: libc_malloc_def h r i t obind_def c g)
qed

lemma st2m_bytes: "mem st2m_after 0x603010 = 0" "perturb_byte st2m = 0xAA"
  "(ucast (perturb_byte st2m XOR 0xff) :: 8 word) = 0x55"
  by (simp_all add: st2m_after_def st2m_def st0_def store64_def)

lemma st2f_facts: "chunksize_nomask (mem st2f) 0x603000 = 0x31" "tcache st2f = 0x602010"
  by (simp_all add: st2f_def st0_def chunksize_nomask_def SIZE_SZ_def load64_def store64_def byte_at_def)

lemma st2f_free: "int_free env0 0x100000 0x603000 False st2f = Some (Return () (tcache_put st2f 0x603000 1))"
proof -
  have s: "chunksize (mem st2f) 0x603000 = 0x30"
    by (simp add: chunksize_def st2f_facts cs_masks)
  have i: "csize2tidx 0x30 = 1" by (simp add: csize2tidx_def consts_simps)
  have k: "load64 (mem st2f) (chunk2mem 0x603000 + 8) \<noteq> tcache st2f"
    by (simp add: st2f_def st0_def chunk2mem_def SIZE_SZ_def load64_def store64_def)
  have c: "tcache_bins (mp st2f) = 64" "counts (tcache_struct st2f) (Suc 0) = 0" "tcache_count (mp st2f) = 7"
    by (simp_all add: st2f_def st0_def mp0_def TCACHE_MAX_BINS_def TCACHE_FILL_COUNT_def)
  have t: "int_free_tcache st2f 0x603000 0x30 = Some (Some (Return () (tcache_put st2f 0x603000 1)))"
    using k by (simp add: int_free_tcache_def i st2f_facts c)
  show ?thesis
    by (simp add: int_free_def s misaligned_603000 MINSIZE_val aligned_OK_def consts_simps t)
qed

lemma st2f_bytes: "mem (tcache_put st2f 0x603000 1) 0x603020 = 0x41"
  by (simp add: tcache_put_def Let_def chunk2mem_def SIZE_SZ_def store64_def)
     (simp add: st2f_def st0_def)

text \<open>
  C2, evaluated where the code departs from it. With the perturb byte set to \<open>0xAA\<close>, an
  allocation of 24 bytes served from the tcache returns a region whose first byte is still
  0 and not \<open>0xAA XOR 0xFF\<close>; and the release of a chunk of 0x30 bytes into the tcache
  leaves the payload byte \<open>0x41\<close> in place.
\<close>

theorem tcache_paths_skip_perturb:
  "perturb_byte st2m = 0xAA
   \<and> libc_malloc env0 24 st2m = Some (Return 0x603010 st2m_after)
   \<and> mem st2m_after 0x603010 = 0
   \<and> (ucast (perturb_byte st2m XOR 0xff) :: 8 word) = 0x55
   \<and> perturb_byte st2f = 0xAA
   \<and> int_free env0 0x100000 0x603000 False st2f
       = Some (Return () (tcache_put st2f 0x603000 1))
   \<and> mem (tcache_put st2f 0x603000 1) 0x603020 = 0x41"
proof -
  have "perturb_byte st2f = 0xAA"
    by (simp add: st2f_def)
  then show ?thesis
    using st2m_malloc st2m_bytes st2f_free st2f_bytes by simp
qed

section \<open>Reallocation of a page-mapped chunk within its pages\<close>

text \<open>
  C10, as amended. In a build with \<open>HAVE_MREMAP\<close> and with no reallocation hook installed,
  \<open>__libc_realloc (p, n)\<close> with \<open>n\<close> not zero, on a well-formed page-mapped chunk (M flag
  set, not a dumped-arena chunk, at a non-null aligned address that does not wrap, mapping
  page-aligned), returns \<open>p\<close> itself and leaves the whole allocator state unchanged (chunk
  header, mapping and mmap counters included) whenever the page-aligned value of the padded
  size of \<open>n\<close> plus the chunk's stored map offset plus one word equals the chunk's total
  mapped size.
\<close>

theorem realloc_mmapped_same_pages:
  assumes "realloc_hook E = None" "HAVE_MREMAP E" "oldmem \<noteq> 0" "bytes \<noteq> 0"
    "oldp = mem2chunk oldmem" "oldp \<noteq> 0"
    "chunk_is_mmapped (mem s) oldp" "\<not> DUMPED_MAIN_ARENA_CHUNK s oldp"
    "\<not> (- chunksize (mem s) oldp < oldp \<or> misaligned_chunk oldp \<noteq> 0)"
    "checked_request2size bytes = Some nb"
    "((oldp - prev_size (mem s) oldp) OR (prev_size (mem s) oldp + chunksize (mem s) oldp))
        AND (dl_pagesize s - 1) = 0"
    "powerof2 (oldmem AND (dl_pagesize s - 1))"
    "ALIGN_UP (nb + prev_size (mem s) oldp + SIZE_SZ) (dl_pagesize s)
       = prev_size (mem s) oldp + chunksize (mem s) oldp"
  shows "libc_realloc E oldmem bytes s = Some (Return oldmem s)"
proof -
  have c: "chunk2mem oldp = oldmem"
    by (simp add: assms(5) chunk2mem_def mem2chunk_def)
  have m: "mremap_chunk E s oldp nb = Return oldp s"
    using assms(7,11,12,13) by (simp add: mremap_chunk_def Let_def c)
  have r: "realloc_mmapped E oldmem oldp (chunksize (mem s) oldp) bytes nb s = Some (Return oldmem s)"
    using assms(2,6,8) m by (simp add: realloc_mmapped_def obind_def c)
  show ?thesis
    using assms(1,3,4,7,9,10) r
    by (simp add: libc_realloc_def Let_def assms(5)[symmetric] obind_def)
qed

lemma st10_facts:
  "chunksize_nomask (mem st10) 0x7f0000000000 = 0x1002"
  "prev_size (mem st10) 0x7f0000000000 = 0"
  "dl_pagesize st10 = 0x1000"
  "\<not> DUMPED_MAIN_ARENA_CHUNK st10 0x7f0000000000"
  by (simp_all add: chunksize_nomask_def prev_size_def st10_def st0_def SIZE_SZ_def mem_simps
      DUMPED_MAIN_ARENA_CHUNK_def)

lemma st10_chunk:
  "chunk_is_mmapped (mem st10) 0x7f0000000000"
  "chunksize (mem st10) 0x7f0000000000 = 0x1000"
  by (simp_all add: chunk_is_mmapped_def chunksize_def st10_facts cs_masks)

lemma mem2chunk_7f: "mem2chunk (0x7f0000000010 :: 64 word) = 0x7f0000000000"
  by (simp add: mem2chunk_def SIZE_SZ_def)

theorem realloc_mmapped_same_pages_witness:
  "realloc_hook env0 = None \<and> HAVE_MREMAP env0 \<and> (0x7f0000000010 :: 64 word) \<noteq> 0
   \<and> (100 :: 64 word) \<noteq> 0
   \<and> chunk_is_mmapped (mem st10) (mem2chunk 0x7f0000000010)
   \<and> \<not> DUMPED_MAIN_ARENA_CHUNK st10 (mem2chunk 0x7f0000000010)
   \<and> checked_request2size 100 = Some 112
   \<and> ALIGN_UP (112 + prev_size (mem st10) (mem2chunk 0x7f0000000010) + SIZE_SZ) (dl_pagesize st10)
       = prev_size (mem st10) (mem2chunk 0x7f0000000010)
         + chunksize (mem st10) (mem2chunk 0x7f0000000010)
   \<and> libc_realloc env0 0x7f0000000010 100 st10 = Some (Return 0x7f0000000010 st10)"
proof -
  have h: "realloc_hook env0 = None" "HAVE_MREMAP env0"
    by (simp_all add: env0_def)
  have r: "checked_request2size 100 = Some 112"
    by (simp add: checked_request2size_def request2size_def consts_simps)
  have v: "\<not> (- chunksize (mem st10) 0x7f0000000000 < 0x7f0000000000
            \<or> misaligned_chunk 0x7f0000000000 \<noteq> 0)"
    by (simp add: st10_chunk misaligned_chunk_def consts_simps)
  have i: "((0x7f0000000000 - prev_size (mem st10) 0x7f0000000000)
             OR (prev_size (mem st10) 0x7f0000000000 + chunksize (mem st10) 0x7f0000000000))
            AND (dl_pagesize st10 - 1) = 0"
    by (simp add: st10_facts st10_chunk)
  have p: "powerof2 (0x7f0000000010 AND (dl_pagesize st10 - 1))"
    by (simp add: st10_facts powerof2_def)
  have a: "ALIGN_UP (112 + prev_size (mem st10) 0x7f0000000000 + SIZE_SZ) (dl_pagesize st10)
       = prev_size (mem st10) 0x7f0000000000 + chunksize (mem st10) 0x7f0000000000"
    by (simp add: st10_facts st10_chunk ALIGN_UP_def SIZE_SZ_def)
  show ?thesis
    using realloc_mmapped_same_pages[OF h _ _ mem2chunk_7f[symmetric] _ st10_chunk(1) st10_facts(4) v r i p a]
      h r a st10_chunk st10_facts(4)
    by (simp add: mem2chunk_7f)
qed

lemma st10_munmap: "munmap_chunk st10 0x7f0000000000 = Return () st10_unmapped"
proof -
  have p: "powerof2 (0x7f0000000010 AND (0x1000 - 1))"
    by (simp add: powerof2_def)
  have m: "mp st10 = mp0\<lparr>n_mmaps := 1, mmapped_mem := 0x1000, max_mmapped_mem := 0x1000\<rparr>" "os_trace st10 = []"
    by (simp_all add: st10_def st0_def)
  show ?thesis
    using p
    by (simp add: munmap_chunk_def Let_def st10_chunk st10_facts chunk2mem_def SIZE_SZ_def m
        st10_unmapped_def)
qed

text \<open>
  C10 as stated fails for a request of zero bytes: the padded size of 0 plus the offset
  plus one word is page-aligned to the one page that the chunk maps, yet the chunk is
  released and unmapped, the mmap counters drop, and null is returned.
\<close>

theorem realloc_zero_bytes_counterexample:
  "chunk_is_mmapped (mem st10) (mem2chunk 0x7f0000000010)
   \<and> \<not> DUMPED_MAIN_ARENA_CHUNK st10 (mem2chunk 0x7f0000000010)
   \<and> checked_request2size 0 = Some 32
   \<and> ALIGN_UP (32 + prev_size (mem st10) (mem2chunk 0x7f0000000010) + SIZE_SZ) (dl_pagesize st10)
       = prev_size (mem st10) (mem2chunk 0x7f0000000010)
         + chunksize (mem st10) (mem2chunk 0x7f0000000010)
   \<and> libc_realloc env0 0x7f0000000010 0 st10 = Some (Return 0 st10_unmapped)
   \<and> os_trace st10_unmapped = [Munmap 0x7f0000000000 0x1000]
   \<and> n_mmaps (mp st10_unmapped) = 0 \<and> n_mmaps (mp st10) = 1"
proof -
  have h: "realloc_hook env0 = None" "free_hook env0 = None"
    by (simp_all add: env0_def)
  have r: "checked_request2size 0 = Some 32"
    by (simp add: checked_request2size_def request2size_def consts_simps)
  have a: "ALIGN_UP (32 + prev_size (mem st10) 0x7f0000000000 + SIZE_SZ) (dl_pagesize st10)
       = prev_size (mem st10) 0x7f0000000000 + chunksize (mem st10) 0x7f0000000000"
    by (simp add: st10_facts st10_chunk ALIGN_UP_def SIZE_SZ_def)
  have t: "\<not> mmap_threshold (mp st10) < 0x1002"
    by (simp add: st10_def st0_def mp0_def)
  have f: "libc_free env0 0x7f0000000010 st10 = Some (Return () st10_unmapped)"
    by (simp add: libc_free_def h mem2chunk_7f st10_chunk st10_facts t st10_munmap)
  have l: "libc_realloc env0 0x7f0000000010 0 st10 = Some (Return 0 st10_unmapped)"
    by (simp add: libc_realloc_def h f obind_def)
  have o: "os_trace st10_unmapped = [Munmap 0x7f0000000000 0x1000]"
     "n_mmaps (mp st10_unmapped) = 0" "n_mmaps (mp st10) = 1"
    by (simp_all add: st10_unmapped_def st10_def st0_def mp0_def)
  show ?thesis
    using r a l o st10_chunk st10_facts(4) by (simp add: mem2chunk_7f)
qed

section \<open>The last-remainder split\<close>

subsection \<open>Separated words\<close>

lemma load64_store64_nat:
  assumes "unat k1 + 8 \<le> unat k2 \<or> unat k2 + 8 \<le> unat k1"
    "unat k1 + 8 \<le> 2 ^ 64" "unat k2 + 8 \<le> 2 ^ 64"
  shows "load64 (store64 m (V + k1) v) (V + (k2 :: 64 word)) = load64 m (V + k2)"
proof -
  have s: "unat (k2 - k1) = (if unat k1 \<le> unat k2 then unat k2 - unat k1
                              else unat k2 + 2 ^ 64 - unat k1)"
    using unat_sub_if_size[of k2 k1] by (simp add: word_size)
  have t: "unat (k1 - k2) = (if unat k2 \<le> unat k1 then unat k1 - unat k2
                              else unat k1 + 2 ^ 64 - unat k2)"
    using unat_sub_if_size[of k1 k2] by (simp add: word_size)
  have "8 \<le> unat (k2 - k1)" "8 \<le> unat (k1 - k2)"
    using assms unfolding s t by (auto split: if_splits)
  then have "8 \<le> (V + k2) - (V + k1)" "8 \<le> (V + k1) - (V + k2)"
    by (simp_all add: word_le_nat_alt)
  then show ?thesis
    by (rule load64_store64_other)
qed


lemma split_reads_small:
  fixes V :: addr and nb sz d :: "64 word"
  assumes a: "32 \<le> nb" "nb < 1024" "nb + 32 < sz" "sz \<le> d" "d \<le> 0xFFFFFFFFFFFFFFD8"
    and M: "M = store64 (store64 (store64 (store64 (store64 (store64 (store64 (m) (V + (d + 16)) r) (V + (d + 24)) r) (V + (nb + 16)) b) (V + (nb + 24)) b) (V + 8) h1) (V + (nb + 8)) h2) (V + sz) rs"
  shows "load64 M (V + (d + 16)) = r"
    "load64 M (V + (d + 24)) = r"
    "load64 M (V + (nb + 16)) = b"
    "load64 M (V + (nb + 24)) = b"
    "load64 M (V + 8) = h1"
    "load64 M (V + (nb + 8)) = h2"
    "load64 M (V + sz) = rs"
proof -
  have n1: "32 \<le> unat nb" using a(1) by (simp add: word_le_nat_alt)
  have n2: "unat nb < 1024" using a(2) by (simp add: word_less_nat_alt)
  have n3: "unat (nb + 32) = unat nb + 32" using n2 by (simp add: unat_word_ariths)
  have n4: "unat nb + 32 < unat sz" using a(3) n3 by (simp add: word_less_nat_alt)
  have n5: "unat sz \<le> unat d" using a(4) by (simp add: word_le_nat_alt)
  have n6: "unat d + 40 \<le> 2 ^ 64" using a(5) by (simp add: word_le_nat_alt)
  note n = n1 n2 n4 n5 n6
  have u: "unat (d + 16) = unat d + 16" "unat (d + 24) = unat d + 24"
    "unat (nb + 8) = unat nb + 8" "unat (nb + 16) = unat nb + 16" "unat (nb + 24) = unat nb + 24"
    "unat (nb + 32) = unat nb + 32" "unat (nb + 40) = unat nb + 40" "unat (8 :: 64 word) = 8"
    using n by (simp_all add: unat_word_ariths)
  have s1_2: "load64 (store64 m' (V + (d + 24)) v) (V + (d + 16)) = load64 m' (V + (d + 16))" for m' v
    by (rule load64_store64_nat) (use n u in simp_all)
  have s1_3: "load64 (store64 m' (V + (nb + 16)) v) (V + (d + 16)) = load64 m' (V + (d + 16))" for m' v
    by (rule load64_store64_nat) (use n u in simp_all)
  have s1_4: "load64 (store64 m' (V + (nb + 24)) v) (V + (d + 16)) = load64 m' (V + (d + 16))" for m' v
    by (rule load64_store64_nat) (use n u in simp_all)
  have s1_7: "load64 (store64 m' (V + 8) v) (V + (d + 16)) = load64 m' (V + (d + 16))" for m' v
    by (rule load64_store64_nat) (use n u in simp_all)
  have s1_8: "load64 (store64 m' (V + (nb + 8)) v) (V + (d + 16)) = load64 m' (V + (d + 16))" for m' v
    by (rule load64_store64_nat) (use n u in simp_all)
  have s1_9: "load64 (store64 m' (V + sz) v) (V + (d + 16)) = load64 m' (V + (d + 16))" for m' v
    by (rule load64_store64_nat) (use n u in simp_all)
  have s2_3: "load64 (store64 m' (V + (nb + 16)) v) (V + (d + 24)) = load64 m' (V + (d + 24))" for m' v
    by (rule load64_store64_nat) (use n u in simp_all)
  have s2_4: "load64 (store64 m' (V + (nb + 24)) v) (V + (d + 24)) = load64 m' (V + (d + 24))" for m' v
    by (rule load64_store64_nat) (use n u in simp_all)
  have s2_7: "load64 (store64 m' (V + 8) v) (V + (d + 24)) = load64 m' (V + (d + 24))" for m' v
    by (rule load64_store64_nat) (use n u in simp_all)
  have s2_8: "load64 (store64 m' (V + (nb + 8)) v) (V + (d + 24)) = load64 m' (V + (d + 24))" for m' v
    by (rule load64_store64_nat) (use n u in simp_all)
  have s2_9: "load64 (store64 m' (V + sz) v) (V + (d + 24)) = load64 m' (V + (d + 24))" for m' v
    by (rule load64_store64_nat) (use n u in simp_all)
  have s3_4: "load64 (store64 m' (V + (nb + 24)) v) (V + (nb + 16)) = load64 m' (V + (nb + 16))" for m' v
    by (rule load64_store64_nat) (use n u in simp_all)
  have s3_7: "load64 (store64 m' (V + 8) v) (V + (nb + 16)) = load64 m' (V + (nb + 16))" for m' v
    by (rule load64_store64_nat) (use n u in simp_all)
  have s3_8: "load64 (store64 m' (V + (nb + 8)) v) (V + (nb + 16)) = load64 m' (V + (nb + 16))" for m' v
    by (rule load64_store64_nat) (use n u in simp_all)
  have s3_9: "load64 (store64 m' (V + sz) v) (V + (nb + 16)) = load64 m' (V + (nb + 16))" for m' v
    by (rule load64_store64_nat) (use n u in simp_all)
  have s4_7: "load64 (store64 m' (V + 8) v) (V + (nb + 24)) = load64 m' (V + (nb + 24))" for m' v
    by (rule load64_store64_nat) (use n u in simp_all)
  have s4_8: "load64 (store64 m' (V + (nb + 8)) v) (V + (nb + 24)) = load64 m' (V + (nb + 24))" for m' v
    by (rule load64_store64_nat) (use n u in simp_all)
  have s4_9: "load64 (store64 m' (V + sz) v) (V + (nb + 24)) = load64 m' (V + (nb + 24))" for m' v
    by (rule load64_store64_nat) (use n u in simp_all)
  have s7_8: "load64 (store64 m' (V + (nb + 8)) v) (V + 8) = load64 m' (V + 8)" for m' v
    by (rule load64_store64_nat) (use n u in simp_all)
  have s7_9: "load64 (store64 m' (V + sz) v) (V + 8) = load64 m' (V + 8)" for m' v
    by (rule load64_store64_nat) (use n u in simp_all)
  have s8_9: "load64 (store64 m' (V + sz) v) (V + (nb + 8)) = load64 m' (V + (nb + 8))" for m' v
    by (rule load64_store64_nat) (use n u in simp_all)
  show "load64 M (V + (d + 16)) = r"
    unfolding M by (simp only: load64_store64_same s1_2 s1_3 s1_4 s1_7 s1_8 s1_9)
  show "load64 M (V + (d + 24)) = r"
    unfolding M by (simp only: load64_store64_same s2_3 s2_4 s2_7 s2_8 s2_9)
  show "load64 M (V + (nb + 16)) = b"
    unfolding M by (simp only: load64_store64_same s3_4 s3_7 s3_8 s3_9)
  show "load64 M (V + (nb + 24)) = b"
    unfolding M by (simp only: load64_store64_same s4_7 s4_8 s4_9)
  show "load64 M (V + 8) = h1"
    unfolding M by (simp only: load64_store64_same s7_8 s7_9)
  show "load64 M (V + (nb + 8)) = h2"
    unfolding M by (simp only: load64_store64_same s8_9)
  show "load64 M (V + sz) = rs"
    unfolding M by (simp only: load64_store64_same )
qed

lemma split_reads_large:
  fixes V :: addr and nb sz d :: "64 word"
  assumes a: "32 \<le> nb" "nb < 1024" "nb + 32 < sz" "sz \<le> d" "d \<le> 0xFFFFFFFFFFFFFFD8" "1024 \<le> sz - nb"
    and M: "M = store64 (store64 (store64 (store64 (store64 (store64 (store64 (store64 (store64 (m) (V + (d + 16)) r) (V + (d + 24)) r) (V + (nb + 16)) b) (V + (nb + 24)) b) (V + (nb + 32)) 0) (V + (nb + 40)) 0) (V + 8) h1) (V + (nb + 8)) h2) (V + sz) rs"
  shows "load64 M (V + (d + 16)) = r"
    "load64 M (V + (d + 24)) = r"
    "load64 M (V + (nb + 16)) = b"
    "load64 M (V + (nb + 24)) = b"
    "load64 M (V + 8) = h1"
    "load64 M (V + (nb + 8)) = h2"
    "load64 M (V + sz) = rs"
proof -
  have n1: "32 \<le> unat nb" using a(1) by (simp add: word_le_nat_alt)
  have n2: "unat nb < 1024" using a(2) by (simp add: word_less_nat_alt)
  have n3: "unat (nb + 32) = unat nb + 32" using n2 by (simp add: unat_word_ariths)
  have n4: "unat nb + 32 < unat sz" using a(3) n3 by (simp add: word_less_nat_alt)
  have n5: "unat sz \<le> unat d" using a(4) by (simp add: word_le_nat_alt)
  have n6: "unat d + 40 \<le> 2 ^ 64" using a(5) by (simp add: word_le_nat_alt)
  have n7: "unat nb + 1024 \<le> unat sz" using a(6) n4 by (simp add: word_le_nat_alt unat_sub word_less_nat_alt)
  note n = n1 n2 n4 n5 n6 n7
  have u: "unat (d + 16) = unat d + 16" "unat (d + 24) = unat d + 24"
    "unat (nb + 8) = unat nb + 8" "unat (nb + 16) = unat nb + 16" "unat (nb + 24) = unat nb + 24"
    "unat (nb + 32) = unat nb + 32" "unat (nb + 40) = unat nb + 40" "unat (8 :: 64 word) = 8"
    using n by (simp_all add: unat_word_ariths)
  have s1_2: "load64 (store64 m' (V + (d + 24)) v) (V + (d + 16)) = load64 m' (V + (d + 16))" for m' v
    by (rule load64_store64_nat) (use n u in simp_all)
  have s1_3: "load64 (store64 m' (V + (nb + 16)) v) (V + (d + 16)) = load64 m' (V + (d + 16))" for m' v
    by (rule load64_store64_nat) (use n u in simp_all)
  have s1_4: "load64 (store64 m' (V + (nb + 24)) v) (V + (d + 16)) = load64 m' (V + (d + 16))" for m' v
    by (rule load64_store64_nat) (use n u in simp_all)
  have s1_5: "load64 (store64 m' (V + (nb + 32)) v) (V + (d + 16)) = load64 m' (V + (d + 16))" for m' v
    by (rule load64_store64_nat) (use n u in simp_all)
  have s1_6: "load64 (store64 m' (V + (nb + 40)) v) (V + (d + 16)) = load64 m' (V + (d + 16))" for m' v
    by (rule load64_store64_nat) (use n u in simp_all)
  have s1_7: "load64 (store64 m' (V + 8) v) (V + (d + 16)) = load64 m' (V + (d + 16))" for m' v
    by (rule load64_store64_nat) (use n u in simp_all)
  have s1_8: "load64 (store64 m' (V + (nb + 8)) v) (V + (d + 16)) = load64 m' (V + (d + 16))" for m' v
    by (rule load64_store64_nat) (use n u in simp_all)
  have s1_9: "load64 (store64 m' (V + sz) v) (V + (d + 16)) = load64 m' (V + (d + 16))" for m' v
    by (rule load64_store64_nat) (use n u in simp_all)
  have s2_3: "load64 (store64 m' (V + (nb + 16)) v) (V + (d + 24)) = load64 m' (V + (d + 24))" for m' v
    by (rule load64_store64_nat) (use n u in simp_all)
  have s2_4: "load64 (store64 m' (V + (nb + 24)) v) (V + (d + 24)) = load64 m' (V + (d + 24))" for m' v
    by (rule load64_store64_nat) (use n u in simp_all)
  have s2_5: "load64 (store64 m' (V + (nb + 32)) v) (V + (d + 24)) = load64 m' (V + (d + 24))" for m' v
    by (rule load64_store64_nat) (use n u in simp_all)
  have s2_6: "load64 (store64 m' (V + (nb + 40)) v) (V + (d + 24)) = load64 m' (V + (d + 24))" for m' v
    by (rule load64_store64_nat) (use n u in simp_all)
  have s2_7: "load64 (store64 m' (V + 8) v) (V + (d + 24)) = load64 m' (V + (d + 24))" for m' v
    by (rule load64_store64_nat) (use n u in simp_all)
  have s2_8: "load64 (store64 m' (V + (nb + 8)) v) (V + (d + 24)) = load64 m' (V + (d + 24))" for m' v
    by (rule load64_store64_nat) (use n u in simp_all)
  have s2_9: "load64 (store64 m' (V + sz) v) (V + (d + 24)) = load64 m' (V + (d + 24))" for m' v
    by (rule load64_store64_nat) (use n u in simp_all)
  have s3_4: "load64 (store64 m' (V + (nb + 24)) v) (V + (nb + 16)) = load64 m' (V + (nb + 16))" for m' v
    by (rule load64_store64_nat) (use n u in simp_all)
  have s3_5: "load64 (store64 m' (V + (nb + 32)) v) (V + (nb + 16)) = load64 m' (V + (nb + 16))" for m' v
    by (rule load64_store64_nat) (use n u in simp_all)
  have s3_6: "load64 (store64 m' (V + (nb + 40)) v) (V + (nb + 16)) = load64 m' (V + (nb + 16))" for m' v
    by (rule load64_store64_nat) (use n u in simp_all)
  have s3_7: "load64 (store64 m' (V + 8) v) (V + (nb + 16)) = load64 m' (V + (nb + 16))" for m' v
    by (rule load64_store64_nat) (use n u in simp_all)
  have s3_8: "load64 (store64 m' (V + (nb + 8)) v) (V + (nb + 16)) = load64 m' (V + (nb + 16))" for m' v
    by (rule load64_store64_nat) (use n u in simp_all)
  have s3_9: "load64 (store64 m' (V + sz) v) (V + (nb + 16)) = load64 m' (V + (nb + 16))" for m' v
    by (rule load64_store64_nat) (use n u in simp_all)
  have s4_5: "load64 (store64 m' (V + (nb + 32)) v) (V + (nb + 24)) = load64 m' (V + (nb + 24))" for m' v
    by (rule load64_store64_nat) (use n u in simp_all)
  have s4_6: "load64 (store64 m' (V + (nb + 40)) v) (V + (nb + 24)) = load64 m' (V + (nb + 24))" for m' v
    by (rule load64_store64_nat) (use n u in simp_all)
  have s4_7: "load64 (store64 m' (V + 8) v) (V + (nb + 24)) = load64 m' (V + (nb + 24))" for m' v
    by (rule load64_store64_nat) (use n u in simp_all)
  have s4_8: "load64 (store64 m' (V + (nb + 8)) v) (V + (nb + 24)) = load64 m' (V + (nb + 24))" for m' v
    by (rule load64_store64_nat) (use n u in simp_all)
  have s4_9: "load64 (store64 m' (V + sz) v) (V + (nb + 24)) = load64 m' (V + (nb + 24))" for m' v
    by (rule load64_store64_nat) (use n u in simp_all)
  have s7_8: "load64 (store64 m' (V + (nb + 8)) v) (V + 8) = load64 m' (V + 8)" for m' v
    by (rule load64_store64_nat) (use n u in simp_all)
  have s7_9: "load64 (store64 m' (V + sz) v) (V + 8) = load64 m' (V + 8)" for m' v
    by (rule load64_store64_nat) (use n u in simp_all)
  have s8_9: "load64 (store64 m' (V + sz) v) (V + (nb + 8)) = load64 m' (V + (nb + 8))" for m' v
    by (rule load64_store64_nat) (use n u in simp_all)
  show "load64 M (V + (d + 16)) = r"
    unfolding M by (simp only: load64_store64_same s1_2 s1_3 s1_4 s1_5 s1_6 s1_7 s1_8 s1_9)
  show "load64 M (V + (d + 24)) = r"
    unfolding M by (simp only: load64_store64_same s2_3 s2_4 s2_5 s2_6 s2_7 s2_8 s2_9)
  show "load64 M (V + (nb + 16)) = b"
    unfolding M by (simp only: load64_store64_same s3_4 s3_5 s3_6 s3_7 s3_8 s3_9)
  show "load64 M (V + (nb + 24)) = b"
    unfolding M by (simp only: load64_store64_same s4_5 s4_6 s4_7 s4_8 s4_9)
  show "load64 M (V + 8) = h1"
    unfolding M by (simp only: load64_store64_same s7_8 s7_9)
  show "load64 M (V + (nb + 8)) = h2"
    unfolding M by (simp only: load64_store64_same s8_9)
  show "load64 M (V + sz) = rs"
    unfolding M by (simp only: load64_store64_same )
qed

lemma load64_memset_nat:
  assumes "unat n + 16 \<le> unat k" "unat k + 8 \<le> 2 ^ 64"
  shows "load64 (memset m (V + 16) c n) (V + (k :: 64 word)) = load64 m (V + k)"
proof (rule load64_cong)
  fix j :: "64 word"
  assume j: "j < 8"
  then have uj: "unat j < 8" by (simp add: word_less_nat_alt)
  have kj: "unat (k + j) = unat k + unat j"
    using assms(2) uj by (simp add: unat_word_ariths)
  have "16 \<le> k + j" using assms(1) kj by (simp add: word_le_nat_alt)
  then have "unat (k + j - 16) = unat k + unat j - 16"
    using kj by (simp add: unat_sub)
  then have "n \<le> k + j - 16"
    using assms(1) by (simp add: word_le_nat_alt)
  moreover have "V + k + j - (V + 16) = k + j - 16" by simp
  ultimately have "\<not> V + k + j - (V + 16) < n"
    by (simp only: not_less)
  then show "memset m (V + 16) c n (V + k + j) = m (V + k + j)"
    unfolding memset_def by (simp only: if_False)
qed

lemma load64_memset_head:
  assumes "unat n + 8 \<le> 2 ^ 64"
  shows "load64 (memset m (V + 16) c n) (V + 8) = load64 m (V + 8)"
proof (rule load64_cong)
  fix j :: "64 word"
  assume j: "j < 8"
  then have uj: "unat j < 8" by (simp add: word_less_nat_alt)
  have "unat (j - 8) = unat j + 2 ^ 64 - 8"
    using uj unat_sub_if_size[of j 8] by (simp add: word_size)
  then have "n \<le> j - 8"
    using assms uj by (simp add: word_le_nat_alt)
  moreover have "V + 8 + j - (V + 16) = j - 8" by simp
  ultimately have "\<not> V + 8 + j - (V + 16) < n"
    by (simp only: not_less)
  then show "memset m (V + 16) c n (V + 8 + j) = m (V + 8 + j)"
    unfolding memset_def by (simp only: if_False)
qed

lemma binned_reads:
  fixes V :: addr and sz d k :: "64 word"
  assumes a: "16 < sz" "sz \<le> d" "d \<le> 0xFFFFFFFFFFFFFBD8" "48 \<le> k" "k \<le> 992"
    and M: "M = store64 (store64 (store64 (store64 (store64 (store64 (m) (V + (d + 24)) b) (V + (d + 16)) b) (V + 24) c) (V + 16) c) (V + (d + k + 24)) v) (V + (d + k + 16)) v"
  shows "load64 M (V + (d + 24)) = b"
    "load64 M (V + (d + 16)) = b"
    "load64 M (V + 24) = c"
    "load64 M (V + 16) = c"
    "load64 M (V + (d + k + 24)) = v"
    "load64 M (V + (d + k + 16)) = v"
    "load64 M (V + 8) = load64 m (V + 8)"
proof -
  have n1: "16 < unat sz" using a(1) by (simp add: word_less_nat_alt)
  have n2: "unat sz \<le> unat d" using a(2) by (simp add: word_le_nat_alt)
  have n3: "unat d + 1064 \<le> 2 ^ 64" using a(3) by (simp add: word_le_nat_alt)
  have n4: "48 \<le> unat k" using a(4) by (simp add: word_le_nat_alt)
  have n5: "unat k \<le> 992" using a(5) by (simp add: word_le_nat_alt)
  note n = n1 n2 n3 n4 n5
  have u: "unat (d + 16) = unat d + 16" "unat (d + 24) = unat d + 24" "unat (d + k) = unat d + unat k" "unat (d + k + 16) = unat d + unat k + 16" "unat (d + k + 24) = unat d + unat k + 24" "unat (8 :: 64 word) = 8" "unat (16 :: 64 word) = 16" "unat (24 :: 64 word) = 24"
    using n by (simp_all add: unat_word_ariths)
  have s1: "load64 (store64 m' (V + (d + 16)) v) (V + (d + 24)) = load64 m' (V + (d + 24))" for m' v
    by (rule load64_store64_nat) (use n u in simp_all)
  have s2: "load64 (store64 m' (V + 24) v) (V + (d + 24)) = load64 m' (V + (d + 24))" for m' v
    by (rule load64_store64_nat) (use n u in simp_all)
  have s3: "load64 (store64 m' (V + 16) v) (V + (d + 24)) = load64 m' (V + (d + 24))" for m' v
    by (rule load64_store64_nat) (use n u in simp_all)
  have s4: "load64 (store64 m' (V + (d + k + 24)) v) (V + (d + 24)) = load64 m' (V + (d + 24))" for m' v
    by (rule load64_store64_nat) (use n u in simp_all)
  have s5: "load64 (store64 m' (V + (d + k + 16)) v) (V + (d + 24)) = load64 m' (V + (d + 24))" for m' v
    by (rule load64_store64_nat) (use n u in simp_all)
  show "load64 M (V + (d + 24)) = b"
    unfolding M by (simp only: load64_store64_same s1 s2 s3 s4 s5)
  have s6: "load64 (store64 m' (V + 24) v) (V + (d + 16)) = load64 m' (V + (d + 16))" for m' v
    by (rule load64_store64_nat) (use n u in simp_all)
  have s7: "load64 (store64 m' (V + 16) v) (V + (d + 16)) = load64 m' (V + (d + 16))" for m' v
    by (rule load64_store64_nat) (use n u in simp_all)
  have s8: "load64 (store64 m' (V + (d + k + 24)) v) (V + (d + 16)) = load64 m' (V + (d + 16))" for m' v
    by (rule load64_store64_nat) (use n u in simp_all)
  have s9: "load64 (store64 m' (V + (d + k + 16)) v) (V + (d + 16)) = load64 m' (V + (d + 16))" for m' v
    by (rule load64_store64_nat) (use n u in simp_all)
  show "load64 M (V + (d + 16)) = b"
    unfolding M by (simp only: load64_store64_same s6 s7 s8 s9)
  have s10: "load64 (store64 m' (V + 16) v) (V + 24) = load64 m' (V + 24)" for m' v
    by (rule load64_store64_nat) (use n u in simp_all)
  have s11: "load64 (store64 m' (V + (d + k + 24)) v) (V + 24) = load64 m' (V + 24)" for m' v
    by (rule load64_store64_nat) (use n u in simp_all)
  have s12: "load64 (store64 m' (V + (d + k + 16)) v) (V + 24) = load64 m' (V + 24)" for m' v
    by (rule load64_store64_nat) (use n u in simp_all)
  show "load64 M (V + 24) = c"
    unfolding M by (simp only: load64_store64_same s10 s11 s12)
  have s13: "load64 (store64 m' (V + (d + k + 24)) v) (V + 16) = load64 m' (V + 16)" for m' v
    by (rule load64_store64_nat) (use n u in simp_all)
  have s14: "load64 (store64 m' (V + (d + k + 16)) v) (V + 16) = load64 m' (V + 16)" for m' v
    by (rule load64_store64_nat) (use n u in simp_all)
  show "load64 M (V + 16) = c"
    unfolding M by (simp only: load64_store64_same s13 s14)
  have s15: "load64 (store64 m' (V + (d + k + 16)) v) (V + (d + k + 24)) = load64 m' (V + (d + k + 24))" for m' v
    by (rule load64_store64_nat) (use n u in simp_all)
  show "load64 M (V + (d + k + 24)) = v"
    unfolding M by (simp only: load64_store64_same s15)
  show "load64 M (V + (d + k + 16)) = v"
    unfolding M by (simp only: load64_store64_same )
  have s16: "load64 (store64 m' (V + (d + 24)) v) (V + 8) = load64 m' (V + 8)" for m' v
    by (rule load64_store64_nat) (use n u in simp_all)
  have s17: "load64 (store64 m' (V + (d + 16)) v) (V + 8) = load64 m' (V + 8)" for m' v
    by (rule load64_store64_nat) (use n u in simp_all)
  have s18: "load64 (store64 m' (V + 24) v) (V + 8) = load64 m' (V + 8)" for m' v
    by (rule load64_store64_nat) (use n u in simp_all)
  have s19: "load64 (store64 m' (V + 16) v) (V + 8) = load64 m' (V + 8)" for m' v
    by (rule load64_store64_nat) (use n u in simp_all)
  have s20: "load64 (store64 m' (V + (d + k + 24)) v) (V + 8) = load64 m' (V + 8)" for m' v
    by (rule load64_store64_nat) (use n u in simp_all)
  have s21: "load64 (store64 m' (V + (d + k + 16)) v) (V + 8) = load64 m' (V + 8)" for m' v
    by (rule load64_store64_nat) (use n u in simp_all)
  show "load64 M (V + 8) = load64 m (V + 8)"
    unfolding M by (simp only: load64_store64_same s16 s17 s18 s19 s20 s21)
qed

lemma binned_fwd:
  fixes V :: addr and sz d k :: "64 word"
  assumes a: "16 < sz" "sz \<le> d" "d \<le> 0xFFFFFFFFFFFFFBD8" "48 \<le> k" "k \<le> 992"
    and M: "M = store64 (store64 (m) (V + (d + 24)) b) (V + (d + 16)) b"
  shows "load64 M (V + (d + k + 16)) = load64 m (V + (d + k + 16))"
proof -
  have n1: "16 < unat sz" using a(1) by (simp add: word_less_nat_alt)
  have n2: "unat sz \<le> unat d" using a(2) by (simp add: word_le_nat_alt)
  have n3: "unat d + 1064 \<le> 2 ^ 64" using a(3) by (simp add: word_le_nat_alt)
  have n4: "48 \<le> unat k" using a(4) by (simp add: word_le_nat_alt)
  have n5: "unat k \<le> 992" using a(5) by (simp add: word_le_nat_alt)
  note n = n1 n2 n3 n4 n5
  have u: "unat (d + 16) = unat d + 16" "unat (d + 24) = unat d + 24" "unat (d + k) = unat d + unat k" "unat (d + k + 16) = unat d + unat k + 16" "unat (d + k + 24) = unat d + unat k + 24"
    using n by (simp_all add: unat_word_ariths)
  have s1: "load64 (store64 m' (V + (d + 24)) v) (V + (d + k + 16)) = load64 m' (V + (d + k + 16))" for m' v
    by (rule load64_store64_nat) (use n u in simp_all)
  have s2: "load64 (store64 m' (V + (d + 16)) v) (V + (d + k + 16)) = load64 m' (V + (d + k + 16))" for m' v
    by (rule load64_store64_nat) (use n u in simp_all)
  show "load64 M (V + (d + k + 16)) = load64 m (V + (d + k + 16))"
    unfolding M by (simp only: load64_store64_same s1 s2)
qed

lemma cached_reads:
  fixes V :: addr and nb d e :: "64 word"
  assumes a: "24 \<le> nb" "nb \<le> d" "d \<le> 0xFFFFFFFFFFFFFFD8" "nb \<le> e" "e \<le> 0xFFFFFFFFFFFFFFD8" "e \<le> d \<or> d + 16 \<le> e"
    and M: "M = store64 (store64 ((if q then store64 (store64 (store64 (store64 (m) (V + (d + 24)) b) (V + (e + 16)) c) (V + (nb + 8)) x) (V + 8) y else store64 (store64 (store64 (m) (V + (d + 24)) b) (V + (e + 16)) c) (V + (nb + 8)) x)) (V + 24) t) (V + 16) h"
  shows "load64 M (V + (d + 24)) = b"
    "load64 M (V + (e + 16)) = c"
    "load64 M (V + (nb + 8)) = x"
    "load64 M (V + 24) = t"
    "load64 M (V + 16) = h"
proof -
  have n1: "24 \<le> unat nb" using a(1) by (simp add: word_le_nat_alt)
  have n2: "unat nb \<le> unat d" using a(2) by (simp add: word_le_nat_alt)
  have n3: "unat d + 40 \<le> 2 ^ 64" using a(3) by (simp add: word_le_nat_alt)
  have n4: "unat nb \<le> unat e" using a(4) by (simp add: word_le_nat_alt)
  have n5: "unat e + 40 \<le> 2 ^ 64" using a(5) by (simp add: word_le_nat_alt)
  have n6: "unat e \<le> unat d \<or> unat d + 16 \<le> unat e" using a(6) n3 by (simp add: word_le_nat_alt unat_word_ariths)
  note n = n1 n2 n3 n4 n5 n6
  have u: "unat (d + 24) = unat d + 24" "unat (e + 16) = unat e + 16" "unat (nb + 8) = unat nb + 8" "unat (8 :: 64 word) = 8" "unat (16 :: 64 word) = 16" "unat (24 :: 64 word) = 24"
    using n by (simp_all add: unat_word_ariths)
  have s1: "load64 (store64 m' (V + (e + 16)) v) (V + (d + 24)) = load64 m' (V + (d + 24))" for m' v
    by (rule load64_store64_nat) (use n u in auto)
  have s2: "load64 (store64 m' (V + (nb + 8)) v) (V + (d + 24)) = load64 m' (V + (d + 24))" for m' v
    by (rule load64_store64_nat) (use n u in auto)
  have s3: "load64 (if q then store64 m' (V + 8) v else m') (V + (d + 24)) = load64 m' (V + (d + 24))" for m' v
  proof (cases "q")
    case True
    have "load64 (store64 m' (V + 8) v) (V + (d + 24)) = load64 m' (V + (d + 24))"
      by (rule load64_store64_nat) (use n u in auto)
    then show ?thesis using True by simp
  next
    case False
    then show ?thesis by simp
  qed
  have s4: "load64 (store64 m' (V + 24) v) (V + (d + 24)) = load64 m' (V + (d + 24))" for m' v
    by (rule load64_store64_nat) (use n u in auto)
  have s5: "load64 (store64 m' (V + 16) v) (V + (d + 24)) = load64 m' (V + (d + 24))" for m' v
    by (rule load64_store64_nat) (use n u in auto)
  show "load64 M (V + (d + 24)) = b"
    unfolding M by (simp only: load64_store64_same s1 s2 s3 s4 s5)
  have s6: "load64 (store64 m' (V + (nb + 8)) v) (V + (e + 16)) = load64 m' (V + (e + 16))" for m' v
    by (rule load64_store64_nat) (use n u in auto)
  have s7: "load64 (if q then store64 m' (V + 8) v else m') (V + (e + 16)) = load64 m' (V + (e + 16))" for m' v
  proof (cases "q")
    case True
    have "load64 (store64 m' (V + 8) v) (V + (e + 16)) = load64 m' (V + (e + 16))"
      by (rule load64_store64_nat) (use n u in auto)
    then show ?thesis using True by simp
  next
    case False
    then show ?thesis by simp
  qed
  have s8: "load64 (store64 m' (V + 24) v) (V + (e + 16)) = load64 m' (V + (e + 16))" for m' v
    by (rule load64_store64_nat) (use n u in auto)
  have s9: "load64 (store64 m' (V + 16) v) (V + (e + 16)) = load64 m' (V + (e + 16))" for m' v
    by (rule load64_store64_nat) (use n u in auto)
  show "load64 M (V + (e + 16)) = c"
    unfolding M by (simp only: load64_store64_same s6 s7 s8 s9)
  have s10: "load64 (if q then store64 m' (V + 8) v else m') (V + (nb + 8)) = load64 m' (V + (nb + 8))" for m' v
  proof (cases "q")
    case True
    have "load64 (store64 m' (V + 8) v) (V + (nb + 8)) = load64 m' (V + (nb + 8))"
      by (rule load64_store64_nat) (use n u in auto)
    then show ?thesis using True by simp
  next
    case False
    then show ?thesis by simp
  qed
  have s11: "load64 (store64 m' (V + 24) v) (V + (nb + 8)) = load64 m' (V + (nb + 8))" for m' v
    by (rule load64_store64_nat) (use n u in auto)
  have s12: "load64 (store64 m' (V + 16) v) (V + (nb + 8)) = load64 m' (V + (nb + 8))" for m' v
    by (rule load64_store64_nat) (use n u in auto)
  show "load64 M (V + (nb + 8)) = x"
    unfolding M by (simp only: load64_store64_same s10 s11 s12)
  have s13: "load64 (store64 m' (V + 16) v) (V + 24) = load64 m' (V + 24)" for m' v
    by (rule load64_store64_nat) (use n u in auto)
  show "load64 M (V + 24) = t"
    unfolding M by (simp only: load64_store64_same s13)
  show "load64 M (V + 16) = h"
    unfolding M by (simp only: load64_store64_same )
qed

lemma cached_mid:
  fixes V :: addr and nb d e :: "64 word"
  assumes a: "24 \<le> nb" "nb \<le> d" "d \<le> 0xFFFFFFFFFFFFFFD8" "nb \<le> e" "e \<le> 0xFFFFFFFFFFFFFFD8" "e \<le> d \<or> d + 16 \<le> e"
    and M: "M = store64 (store64 (m) (V + (d + 24)) b) (V + (e + 16)) c"
  shows "load64 M (V + (nb + 8)) = load64 m (V + (nb + 8))"
    "load64 M (V + 8) = load64 m (V + 8)"
proof -
  have n1: "24 \<le> unat nb" using a(1) by (simp add: word_le_nat_alt)
  have n2: "unat nb \<le> unat d" using a(2) by (simp add: word_le_nat_alt)
  have n3: "unat d + 40 \<le> 2 ^ 64" using a(3) by (simp add: word_le_nat_alt)
  have n4: "unat nb \<le> unat e" using a(4) by (simp add: word_le_nat_alt)
  have n5: "unat e + 40 \<le> 2 ^ 64" using a(5) by (simp add: word_le_nat_alt)
  have n6: "unat e \<le> unat d \<or> unat d + 16 \<le> unat e" using a(6) n3 by (simp add: word_le_nat_alt unat_word_ariths)
  note n = n1 n2 n3 n4 n5 n6
  have u: "unat (d + 24) = unat d + 24" "unat (e + 16) = unat e + 16" "unat (nb + 8) = unat nb + 8" "unat (8 :: 64 word) = 8" "unat (16 :: 64 word) = 16" "unat (24 :: 64 word) = 24"
    using n by (simp_all add: unat_word_ariths)
  have s1: "load64 (store64 m' (V + (d + 24)) v) (V + (nb + 8)) = load64 m' (V + (nb + 8))" for m' v
    by (rule load64_store64_nat) (use n u in simp_all)
  have s2: "load64 (store64 m' (V + (e + 16)) v) (V + (nb + 8)) = load64 m' (V + (nb + 8))" for m' v
    by (rule load64_store64_nat) (use n u in simp_all)
  show "load64 M (V + (nb + 8)) = load64 m (V + (nb + 8))"
    unfolding M by (simp only: load64_store64_same s1 s2)
  have s3: "load64 (store64 m' (V + (d + 24)) v) (V + 8) = load64 m' (V + 8)" for m' v
    by (rule load64_store64_nat) (use n u in simp_all)
  have s4: "load64 (store64 m' (V + (e + 16)) v) (V + 8) = load64 m' (V + 8)" for m' v
    by (rule load64_store64_nat) (use n u in simp_all)
  show "load64 M (V + 8) = load64 m (V + 8)"
    unfolding M by (simp only: load64_store64_same s3 s4)
qed

lemma cached_head:
  fixes V :: addr and nb d e :: "64 word"
  assumes a: "24 \<le> nb" "nb \<le> d" "d \<le> 0xFFFFFFFFFFFFFFD8" "nb \<le> e" "e \<le> 0xFFFFFFFFFFFFFFD8" "e \<le> d \<or> d + 16 \<le> e"
    and M: "M = store64 (m) (V + (nb + 8)) x"
  shows "load64 M (V + 8) = load64 m (V + 8)"
proof -
  have n1: "24 \<le> unat nb" using a(1) by (simp add: word_le_nat_alt)
  have n2: "unat nb \<le> unat d" using a(2) by (simp add: word_le_nat_alt)
  have n3: "unat d + 40 \<le> 2 ^ 64" using a(3) by (simp add: word_le_nat_alt)
  have n4: "unat nb \<le> unat e" using a(4) by (simp add: word_le_nat_alt)
  have n5: "unat e + 40 \<le> 2 ^ 64" using a(5) by (simp add: word_le_nat_alt)
  have n6: "unat e \<le> unat d \<or> unat d + 16 \<le> unat e" using a(6) n3 by (simp add: word_le_nat_alt unat_word_ariths)
  note n = n1 n2 n3 n4 n5 n6
  have u: "unat (d + 24) = unat d + 24" "unat (e + 16) = unat e + 16" "unat (nb + 8) = unat nb + 8" "unat (8 :: 64 word) = 8" "unat (16 :: 64 word) = 16" "unat (24 :: 64 word) = 24"
    using n by (simp_all add: unat_word_ariths)
  have s1: "load64 (store64 m' (V + (nb + 8)) v) (V + 8) = load64 m' (V + 8)" for m' v
    by (rule load64_store64_nat) (use n u in simp_all)
  show "load64 M (V + 8) = load64 m (V + 8)"
    unfolding M by (simp only: load64_store64_same s1)
qed

lemma cached_tail:
  fixes V :: addr and nb d e :: "64 word"
  assumes a: "24 \<le> nb" "nb \<le> d" "d \<le> 0xFFFFFFFFFFFFFFD8" "nb \<le> e" "e \<le> 0xFFFFFFFFFFFFFFD8" "e \<le> d \<or> d + 16 \<le> e"
    and M: "M = store64 (store64 (m) (V + 24) t) (V + 16) h"
  shows "load64 M (V + 8) = load64 m (V + 8)"
proof -
  have n1: "24 \<le> unat nb" using a(1) by (simp add: word_le_nat_alt)
  have n2: "unat nb \<le> unat d" using a(2) by (simp add: word_le_nat_alt)
  have n3: "unat d + 40 \<le> 2 ^ 64" using a(3) by (simp add: word_le_nat_alt)
  have n4: "unat nb \<le> unat e" using a(4) by (simp add: word_le_nat_alt)
  have n5: "unat e + 40 \<le> 2 ^ 64" using a(5) by (simp add: word_le_nat_alt)
  have n6: "unat e \<le> unat d \<or> unat d + 16 \<le> unat e" using a(6) n3 by (simp add: word_le_nat_alt unat_word_ariths)
  note n = n1 n2 n3 n4 n5 n6
  have u: "unat (d + 24) = unat d + 24" "unat (e + 16) = unat e + 16" "unat (nb + 8) = unat nb + 8" "unat (8 :: 64 word) = 8" "unat (16 :: 64 word) = 16" "unat (24 :: 64 word) = 24"
    using n by (simp_all add: unat_word_ariths)
  have s1: "load64 (store64 m' (V + 24) v) (V + 8) = load64 m' (V + 8)" for m' v
    by (rule load64_store64_nat) (use n u in simp_all)
  have s2: "load64 (store64 m' (V + 16) v) (V + 8) = load64 m' (V + 8)" for m' v
    by (rule load64_store64_nat) (use n u in simp_all)
  show "load64 M (V + 8) = load64 m (V + 8)"
    unfolding M by (simp only: load64_store64_same s1 s2)
qed

lemma unat_ucast_64_32: "unat sz < 4294967296 \<Longrightarrow> unat (ucast (sz :: 64 word) :: 32 word) = unat sz"
  by (simp add: unsigned_ucast_eq take_bit_nat_eq_self_iff)

lemma unat_ucast_32_64: "unat (ucast (i :: 32 word) :: 64 word) = unat i"
proof -
  have "unat i < 2 ^ 32" using unsigned_less[of i] by simp
  then have "unat i < 18446744073709551616" by simp
  then show ?thesis by (simp add: unsigned_ucast_eq take_bit_nat_eq_self_iff)
qed

lemma small_bin_at:
  assumes "in_smallbin_range sz" "64 \<le> sz"
  shows "\<exists>k. bin_at av (smallbin_index sz) = unsorted_chunks av + k \<and> 48 \<le> k \<and> k \<le> 992"
proof -
  have l: "unat sz < 1024" "64 \<le> unat sz"
    using assms by (simp_all add: in_smallbin_range_def MIN_LARGE_SIZE_val word_less_nat_alt
        word_le_nat_alt)
  define i where "i = smallbin_index sz"
  have i: "unat i = unat sz div 16"
    using l by (simp add: i_def smallbin_index_def SMALLBIN_WIDTH_def SMALLBIN_CORRECTION_def
        consts_simps unat_drop_bit_eq drop_bit_eq_div unat_div unat_ucast_64_32)
  then have r: "4 \<le> unat i" "unat i \<le> 63"
    using l by simp_all
  then have "1 \<le> i" by (simp add: word_le_nat_alt)
  then have i1: "unat (i - 1) = unat i - 1" by (simp add: unat_sub)
  define j where "j = (i - 1) * 2"
  have "unat j = unat (i - 1) * unat (2 :: 32 word) mod 2 ^ LENGTH(32)"
    unfolding j_def by (rule unat_word_ariths)
  then have i2: "unat j = 2 * (unat i - 1)"
    using r i1 by simp
  define k :: "64 word" where "k = ucast j * 8"
  have "unat k = unat (ucast j :: 64 word) * unat (8 :: 64 word) mod 2 ^ LENGTH(64)"
    unfolding k_def by (rule unat_word_ariths)
  then have k: "unat k = 16 * (unat i - 1)"
    using r i2 by (simp add: unat_ucast_32_64)
  have "bin_at av i = unsorted_chunks av + k"
    by (simp add: bin_at_def unsorted_chunks_def k_def j_def)
  moreover have "48 \<le> k" "k \<le> 992"
    using k r by (simp_all add: word_le_nat_alt)
  ultimately show ?thesis
    unfolding i_def by blast
qed

subsection \<open>Steps of the drain\<close>

lemma exact_not_split: "in_smallbin_range nb \<Longrightarrow> \<not> nb + MINSIZE < nb"
proof -
  assume "in_smallbin_range nb"
  then have l: "unat nb < 1024"
    by (simp add: in_smallbin_range_def MIN_LARGE_SIZE_val word_less_nat_alt)
  then have "unat (nb + 32) = unat nb + 32" by (simp add: unat_word_ariths)
  then show ?thesis by (simp add: MINSIZE_val word_less_nat_alt)
qed

lemma unsorted_checks_NoneD:
  assumes "unsorted_checks s av victim = None"
  shows "fd (mem s) (bk (mem s) victim) = victim" "2 * SIZE_SZ < chunksize (mem s) victim"
  using assms by (auto simp: unsorted_checks_def Let_def not_le split: if_splits)

lemma drain_body_binned:
  assumes "unsorted_checks t av v = None"
    and "\<not> (in_smallbin_range nb \<and> bk (mem t) v = unsorted_chunks av
             \<and> v = last_remainder (arena t av) \<and> nb + MINSIZE < chunksize (mem t) v)"
    and "chunksize (mem t) v \<noteq> nb"
    and "bin_link av v (chunksize (mem t) v) (unsorted_remove av v t) = Some (Inr t')"
  shows "drain_body av nb bytes tcache_nb tc_idx v t k
     = Some (if return_cached k \<and> 0 < tcache_unsorted_limit (mp t')
                \<and> tcache_unsorted_limit (mp t') < tcache_unsorted_count k + 1
             then Step_return (tcache_get t' tc_idx)
             else if MAX_ITERS \<le> iters k + 1
             then Step_break t' (k\<lparr>tcache_unsorted_count := tcache_unsorted_count k + 1,
                                   iters := iters k + 1\<rparr>)
             else Step_continue t' (k\<lparr>tcache_unsorted_count := tcache_unsorted_count k + 1,
                                      iters := iters k + 1\<rparr>))"
proof -
  have f: "\<not> fd (mem t) (bk (mem t) v) \<noteq> v"
    using unsorted_checks_NoneD(1)[OF assms(1)] by simp
  show ?thesis
    unfolding drain_body_def Let_def assms(1) option.case if_not_P[OF assms(2)] if_not_P[OF f]
      if_not_P[OF assms(3)] assms(4) sum.case
    by simp
qed

subsection \<open>The split\<close>

lemma unsorted_drain_split:
  assumes "bk (mem s) (unsorted_chunks av) = victim" "victim \<noteq> unsorted_chunks av"
    "unsorted_checks s av victim = None"
    "in_smallbin_range nb" "bk (mem s) victim = unsorted_chunks av"
    "victim = last_remainder (arena s av)"
    "nb + MINSIZE < chunksize (mem s) victim"
  shows "unsorted_drain av nb bytes tcache_nb tc_idx s l
     = Some (Inl (split_last_remainder av nb bytes victim (chunksize (mem s) victim) s))"
  using assms
  by (subst unsorted_drain.simps) (simp add: drain_body_def Let_def)

lemma split_last_remainder_reads:
  fixes V B :: addr
  assumes nb: "32 \<le> nb" "nb < 1024" "nb + 32 < sz"
    and sep: "sz \<le> B - V" "B - V \<le> 0xFFFFFFFFFFFFFFD8"
    and bl: "unat bytes + 8 \<le> unat nb"
    and B: "B = unsorted_chunks av"
  shows "\<exists>t. split_last_remainder av nb bytes V sz s = Return (chunk2mem V) t
     \<and> last_remainder (arena t av) = V + nb
     \<and> fd (mem t) B = V + nb \<and> bk (mem t) B = V + nb
     \<and> fd (mem t) (V + nb) = B \<and> bk (mem t) (V + nb) = B
     \<and> chunksize_nomask (mem t) V
          = (nb OR PREV_INUSE OR (if av \<noteq> main_arena s then NON_MAIN_ARENA else 0))
     \<and> chunksize_nomask (mem t) (V + nb) = ((sz - nb) OR PREV_INUSE)
     \<and> prev_size (mem t) (V + sz) = sz - nb"
proof -
  define d where "d = B - V"
  define h1 where "h1 = (nb OR PREV_INUSE OR (if av \<noteq> main_arena s then NON_MAIN_ARENA else 0))"
  define h2 where "h2 = ((sz - nb) OR PREV_INUSE)"
  define Ms where "Ms = store64 (store64 (store64 (store64 (store64 (store64 (store64 (mem s)
       (V + (d + 16)) (V + nb)) (V + (d + 24)) (V + nb)) (V + (nb + 16)) B) (V + (nb + 24)) B)
       (V + 8) h1) (V + (nb + 8)) h2) (V + sz) (sz - nb)"
  define Ml where "Ml = store64 (store64 (store64 (store64 (store64 (store64 (store64 (store64
       (store64 (mem s)
       (V + (d + 16)) (V + nb)) (V + (d + 24)) (V + nb)) (V + (nb + 16)) B) (V + (nb + 24)) B)
       (V + (nb + 32)) 0) (V + (nb + 40)) 0)
       (V + 8) h1) (V + (nb + 8)) h2) (V + sz) (sz - nb)"
  define M where "M = (if in_smallbin_range (sz - nb) then Ms else Ml)"
  define t where "t = alloc_perturb
      ((upd_arena av (\<lambda>a. a\<lparr>last_remainder := V + nb\<rparr>) s)\<lparr>mem := M\<rparr>) (V + 16) bytes"
  have ad: "B + 16 = V + (d + 16)" "B + 24 = V + (d + 24)"
    "V + nb + 16 = V + (nb + 16)" "V + nb + 24 = V + (nb + 24)" "V + nb + 32 = V + (nb + 32)"
    "V + nb + 40 = V + (nb + 40)" "V + nb + 8 = V + (nb + 8)" "V + nb + (sz - nb) = V + sz"
    by (simp_all add: d_def)
  have sp: "split_last_remainder av nb bytes V sz s = Return (chunk2mem V) t"
    unfolding split_last_remainder_def Let_def t_def M_def Ms_def Ml_def h1_def h2_def
    by (simp add: set_fd_def set_bk_def set_fd_nextsize_def set_bk_nextsize_def set_head_def
        set_foot_def set_prev_size_def chunk_at_offset_def chunk2mem_def SIZE_SZ_def B[symmetric]
        upd_arena_def ad)
  have lr: "last_remainder (arena t av) = V + nb"
    by (simp add: t_def alloc_perturb_def upd_arena_def)
  have large: "1024 \<le> sz - nb" if "\<not> in_smallbin_range (sz - nb)"
    using that by (simp add: in_smallbin_range_def MIN_LARGE_SIZE_val not_less)
  have rd: "load64 M (V + (d + 16)) = V + nb \<and> load64 M (V + (d + 24)) = V + nb
     \<and> load64 M (V + (nb + 16)) = B \<and> load64 M (V + (nb + 24)) = B
     \<and> load64 M (V + 8) = h1 \<and> load64 M (V + (nb + 8)) = h2 \<and> load64 M (V + sz) = sz - nb"
  proof (cases "in_smallbin_range (sz - nb)")
    case True
    then have "M = Ms" by (simp add: M_def)
    then show ?thesis
      using split_reads_small[OF nb sep[folded d_def] Ms_def[unfolded \<open>M = Ms\<close>[symmetric]]]
      by simp
  next
    case False
    then have "M = Ml" by (simp add: M_def)
    then show ?thesis
      using split_reads_large[OF nb sep[folded d_def] large[OF False] Ml_def[unfolded \<open>M = Ml\<close>[symmetric]]]
      by simp
  qed
  have n: "32 \<le> unat nb" "unat nb < 1024" "unat nb + 32 < unat sz" "unat sz \<le> unat d"
    "unat d + 40 \<le> 2 ^ 64"
  proof -
    show "32 \<le> unat nb" using nb(1) by (simp add: word_le_nat_alt)
    show l: "unat nb < 1024" using nb(2) by (simp add: word_less_nat_alt)
    have "unat (nb + 32) = unat nb + 32" using l by (simp add: unat_word_ariths)
    then show "unat nb + 32 < unat sz" using nb(3) by (simp add: word_less_nat_alt)
    show "unat sz \<le> unat d" using sep(1) by (simp add: word_le_nat_alt d_def)
    show "unat d + 40 \<le> 2 ^ 64" using sep(2) by (simp add: word_le_nat_alt d_def)
  qed
  have u: "unat (d + 16) = unat d + 16" "unat (d + 24) = unat d + 24"
    "unat (nb + 8) = unat nb + 8" "unat (nb + 16) = unat nb + 16" "unat (nb + 24) = unat nb + 24"
    using n by (simp_all add: unat_word_ariths)
  have mt: "load64 (mem t) (V + k) = load64 M (V + k)"
    if "unat bytes + 16 \<le> unat k" "unat k + 8 \<le> 2 ^ 64" for k
    using load64_memset_nat[OF that] by (simp add: t_def alloc_perturb_def)
  have mh: "load64 (mem t) (V + 8) = load64 M (V + 8)"
    using load64_memset_head[of bytes] n bl by (simp add: t_def alloc_perturb_def)
  have r1: "load64 (mem t) (V + (d + 16)) = V + nb"
    using mt[of "d + 16"] rd n u bl by simp
  have r2: "load64 (mem t) (V + (d + 24)) = V + nb"
    using mt[of "d + 24"] rd n u bl by simp
  have r3: "load64 (mem t) (V + (nb + 16)) = B"
    using mt[of "nb + 16"] rd n u bl by simp
  have r4: "load64 (mem t) (V + (nb + 24)) = B"
    using mt[of "nb + 24"] rd n u bl by simp
  have r7: "load64 (mem t) (V + 8) = h1"
    using mh rd by simp
  have r8: "load64 (mem t) (V + (nb + 8)) = h2"
    using mt[of "nb + 8"] rd n u bl by simp
  have r9: "load64 (mem t) (V + sz) = sz - nb"
    using mt[of sz] rd n u bl by simp
  show ?thesis
    using sp lr r1 r2 r3 r4 r7 r8 r9
    by (simp add: fd_def bk_def chunksize_nomask_def prev_size_def SIZE_SZ_def ad h1_def h2_def)
qed

lemma unsorted_drain_kept_whole:
  fixes V B :: addr
  assumes tail: "bk (mem s) B = V" "V \<noteq> B"
    and checks: "unsorted_checks s av V = None"
    and sole: "bk (mem s) V = B"
    and nb: "32 \<le> nb" "in_smallbin_range nb" "in_smallbin_range (nb + MINSIZE)"
    and sz: "chunksize (mem s) V = nb + MINSIZE"
    and empty: "fd (mem s) (bin_at av (smallbin_index (nb + MINSIZE)))
                  = bin_at av (smallbin_index (nb + MINSIZE))"
    and sep: "nb + MINSIZE \<le> B - V" "B - V \<le> 0xFFFFFFFFFFFFFBD8"
    and rc: "\<not> return_cached l"
    and B: "B = unsorted_chunks av"
  shows "\<exists>t. unsorted_drain av nb bytes tcache_nb tc_idx s l
           = Some (Inr (t, l\<lparr>tcache_unsorted_count := tcache_unsorted_count l + 1,
                              iters := iters l + 1\<rparr>))
     \<and> last_remainder (arena t av) = last_remainder (arena s av)
     \<and> chunksize_nomask (mem t) V = chunksize_nomask (mem s) V
     \<and> fd (mem t) B = B \<and> bk (mem t) B = B
     \<and> fd (mem t) (bin_at av (smallbin_index (nb + MINSIZE))) = V
     \<and> bk (mem t) (bin_at av (smallbin_index (nb + MINSIZE))) = V
     \<and> fd (mem t) V = bin_at av (smallbin_index (nb + MINSIZE))
     \<and> bk (mem t) V = bin_at av (smallbin_index (nb + MINSIZE))"
proof -
  define i where "i = smallbin_index (nb + MINSIZE)"
  define Bi where "Bi = bin_at av i"
  define d where "d = B - V"
  have l: "unat nb < 1024" "32 \<le> unat nb"
    using nb by (simp_all add: in_smallbin_range_def MIN_LARGE_SIZE_val word_less_nat_alt
        word_le_nat_alt)
  then have u: "unat (nb + 32) = unat nb + 32"
    by (simp add: unat_word_ariths)
  have g: "64 \<le> nb + MINSIZE" "16 < nb + MINSIZE" "nb + MINSIZE \<noteq> nb"
    "\<not> nb + MINSIZE < nb + MINSIZE"
    using u l by (simp_all add: MINSIZE_val word_le_nat_alt word_less_nat_alt)
  obtain k where k: "Bi = B + k" "48 \<le> k" "k \<le> 992"
    using small_bin_at[OF nb(3) g(1), of av] unfolding Bi_def i_def B by blast
  define M where "M = store64 (store64 (store64 (store64 (store64 (store64 (mem s)
      (V + (d + 24)) B) (V + (d + 16)) B) (V + 24) Bi) (V + 16) Bi)
      (V + (d + k + 24)) V) (V + (d + k + 16)) V"
  define t where "t = (mark_bin av i s)\<lparr>mem := M\<rparr>"
  have ad: "B + 24 = V + (d + 24)" "B + 16 = V + (d + 16)"
    "B + k + 24 = V + (d + k + 24)" "B + k + 16 = V + (d + k + 16)"
    by (simp_all add: d_def)
  note hyp = g(2) sep[folded d_def] k(2,3)
  have rem: "unsorted_remove av V s
      = s\<lparr>mem := store64 (store64 (mem s) (V + (d + 24)) B) (V + (d + 16)) B\<rparr>"
    unfolding unsorted_remove_def Let_def sole B[symmetric]
    by (simp add: set_bk_def set_fd_def SIZE_SZ_def ad)
  have fwd: "load64 (store64 (store64 (mem s) (V + (d + 24)) B) (V + (d + 16)) B)
       (V + (d + k + 16)) = Bi"
    using binned_fwd[OF hyp refl, of "mem s" V B] empty[folded i_def Bi_def]
    by (simp add: fd_def SIZE_SZ_def k(1) ad)
  have link: "bin_link av V (nb + MINSIZE) (unsorted_remove av V s) = Some (Inr t)"
    unfolding rem bin_link_def place_chunk_def
    using nb(3) fwd
    by (simp add: Let_def i_def[symmetric] Bi_def[symmetric] fd_def set_bk_def set_fd_def
        SIZE_SZ_def k(1) ad t_def M_def mark_bin_def upd_arena_def)
  have ns: "\<not> (in_smallbin_range nb \<and> bk (mem s) V = unsorted_chunks av
       \<and> V = last_remainder (arena s av) \<and> nb + MINSIZE < chunksize (mem s) V)"
    using g(4) by (simp add: sz)
  have ne: "chunksize (mem s) V \<noteq> nb"
    using g(3) by (simp add: sz)
  note body = drain_body_binned[OF checks ns ne link[folded sz],
      of bytes tcache_nb tc_idx l]
  note r = binned_reads[OF hyp M_def]
  have e: "bk (mem t) B = B"
    using r(1) by (simp add: t_def bk_def SIZE_SZ_def ad)
  let ?l2 = "l\<lparr>tcache_unsorted_count := tcache_unsorted_count l + 1, iters := iters l + 1\<rparr>"
  have ex: "unsorted_drain av nb bytes tcache_nb tc_idx t ?l2 = Some (Inr (t, ?l2))"
    using e rc by (subst unsorted_drain.simps) (simp add: B[symmetric] drain_exit_def)
  have dr: "unsorted_drain av nb bytes tcache_nb tc_idx s l = Some (Inr (t, ?l2))"
    using tail rc ex
    by (subst unsorted_drain.simps) (simp add: B[symmetric] body drain_exit_def)
  have lr: "last_remainder (arena t av) = last_remainder (arena s av)"
    by (simp add: t_def mark_bin_def upd_arena_def)
  show ?thesis
    using dr lr r
    by (simp add: i_def[symmetric] Bi_def[symmetric] t_def fd_def bk_def chunksize_nomask_def
        SIZE_SZ_def k(1) ad)
qed

lemma unsorted_drain_split_reads:
  assumes "bk (mem s) (unsorted_chunks av) = victim" "victim \<noteq> unsorted_chunks av"
    "unsorted_checks s av victim = None"
    "in_smallbin_range nb" "bk (mem s) victim = unsorted_chunks av"
    "victim = last_remainder (arena s av)"
    "nb + MINSIZE < chunksize (mem s) victim"
    "checked_request2size bytes = Some nb"
    "chunksize (mem s) victim \<le> unsorted_chunks av - victim"
    "unsorted_chunks av - victim \<le> 0xFFFFFFFFFFFFFFD8"
  shows "\<exists>t. unsorted_drain av nb bytes tcache_nb tc_idx s l
           = Some (Inl (Return (chunk2mem victim) t))
     \<and> last_remainder (arena t av) = victim + nb
     \<and> fd (mem t) (unsorted_chunks av) = victim + nb
     \<and> bk (mem t) (unsorted_chunks av) = victim + nb
     \<and> fd (mem t) (victim + nb) = unsorted_chunks av
     \<and> bk (mem t) (victim + nb) = unsorted_chunks av
     \<and> chunksize_nomask (mem t) victim
          = (nb OR PREV_INUSE OR (if av \<noteq> main_arena s then NON_MAIN_ARENA else 0))
     \<and> chunksize_nomask (mem t) (victim + nb) = ((chunksize (mem s) victim - nb) OR PREV_INUSE)
     \<and> prev_size (mem t) (victim + chunksize (mem s) victim) = chunksize (mem s) victim - nb"
proof -
  have b: "bytes \<le> PTRDIFF_MAX" "nb = request2size bytes"
    using assms(8) by (auto simp: checked_request2size_def split: if_splits)
  have n1: "32 \<le> nb" "unat bytes + 8 \<le> unat nb"
    using request2size_lower[OF b(1)] b(2) by simp_all
  have n2: "nb < 1024"
    using assms(4) by (simp add: in_smallbin_range_def MIN_LARGE_SIZE_val)
  have n3: "nb + 32 < chunksize (mem s) victim"
    using assms(7) by (simp add: MINSIZE_val)
  show ?thesis
    using split_last_remainder_reads[OF n1(1) n2 n3 assms(9,10) n1(2) refl, where s=s]
    unfolding unsorted_drain_split[OF assms(1-7)]
    by simp
qed

text \<open>
  C4, as amended. During the drain of the unsorted bin, for a request whose chunk size
  \<open>nb\<close> is in the small range: let the bin hold exactly one chunk, which passes the checks
  of the drain, is the arena's last remainder, and lies in memory apart from the arena's
  bin array. If its size is strictly greater than \<open>nb + MINSIZE\<close>, the chunk is split: the
  front \<open>nb\<close> bytes are returned (with the P flag set, and the A flag for a secondary
  arena); the tail becomes the new last remainder, is the only chunk of the unsorted bin,
  has the P flag set, and its size is written into the boundary tag that follows it. If its
  size is exactly \<open>nb + MINSIZE\<close> (a size of the small range whose bin is empty, and no
  chunk cached before), the chunk is not split: the drain returns no chunk, having moved
  the chunk whole from the unsorted bin, which is left empty, to its small bin, with its
  size field as it was, and the last remainder of the arena still names it.
\<close>

theorem last_remainder_split:
  assumes "bk (mem s) (unsorted_chunks av) = victim" "victim \<noteq> unsorted_chunks av"
    "unsorted_checks s av victim = None"
    "in_smallbin_range nb" "bk (mem s) victim = unsorted_chunks av"
    "victim = last_remainder (arena s av)"
    "checked_request2size bytes = Some nb"
    "chunksize (mem s) victim \<le> unsorted_chunks av - victim"
  shows
    "(nb + MINSIZE < chunksize (mem s) victim
        \<and> unsorted_chunks av - victim \<le> 0xFFFFFFFFFFFFFFD8 \<longrightarrow>
      (\<exists>t. unsorted_drain av nb bytes tcache_nb tc_idx s l
               = Some (Inl (Return (chunk2mem victim) t))
         \<and> last_remainder (arena t av) = victim + nb
         \<and> fd (mem t) (unsorted_chunks av) = victim + nb
         \<and> bk (mem t) (unsorted_chunks av) = victim + nb
         \<and> fd (mem t) (victim + nb) = unsorted_chunks av
         \<and> bk (mem t) (victim + nb) = unsorted_chunks av
         \<and> chunksize_nomask (mem t) victim
              = (nb OR PREV_INUSE OR (if av \<noteq> main_arena s then NON_MAIN_ARENA else 0))
         \<and> chunksize_nomask (mem t) (victim + nb)
              = ((chunksize (mem s) victim - nb) OR PREV_INUSE)
         \<and> prev_size (mem t) (victim + chunksize (mem s) victim)
              = chunksize (mem s) victim - nb))
     \<and> (chunksize (mem s) victim = nb + MINSIZE \<and> in_smallbin_range (nb + MINSIZE)
        \<and> fd (mem s) (bin_at av (smallbin_index (nb + MINSIZE)))
             = bin_at av (smallbin_index (nb + MINSIZE))
        \<and> unsorted_chunks av - victim \<le> 0xFFFFFFFFFFFFFBD8 \<and> \<not> return_cached l \<longrightarrow>
      (\<exists>t. unsorted_drain av nb bytes tcache_nb tc_idx s l
               = Some (Inr (t, l\<lparr>tcache_unsorted_count := tcache_unsorted_count l + 1,
                                  iters := iters l + 1\<rparr>))
         \<and> last_remainder (arena t av) = victim
         \<and> chunksize_nomask (mem t) victim = chunksize_nomask (mem s) victim
         \<and> fd (mem t) (unsorted_chunks av) = unsorted_chunks av
         \<and> bk (mem t) (unsorted_chunks av) = unsorted_chunks av
         \<and> fd (mem t) (bin_at av (smallbin_index (nb + MINSIZE))) = victim
         \<and> bk (mem t) (bin_at av (smallbin_index (nb + MINSIZE))) = victim
         \<and> fd (mem t) victim = bin_at av (smallbin_index (nb + MINSIZE))
         \<and> bk (mem t) victim = bin_at av (smallbin_index (nb + MINSIZE))))"
proof (intro conjI impI)
  assume "nb + MINSIZE < chunksize (mem s) victim
        \<and> unsorted_chunks av - victim \<le> 0xFFFFFFFFFFFFFFD8"
  then show "\<exists>t. unsorted_drain av nb bytes tcache_nb tc_idx s l
               = Some (Inl (Return (chunk2mem victim) t))
         \<and> last_remainder (arena t av) = victim + nb
         \<and> fd (mem t) (unsorted_chunks av) = victim + nb
         \<and> bk (mem t) (unsorted_chunks av) = victim + nb
         \<and> fd (mem t) (victim + nb) = unsorted_chunks av
         \<and> bk (mem t) (victim + nb) = unsorted_chunks av
         \<and> chunksize_nomask (mem t) victim
              = (nb OR PREV_INUSE OR (if av \<noteq> main_arena s then NON_MAIN_ARENA else 0))
         \<and> chunksize_nomask (mem t) (victim + nb)
              = ((chunksize (mem s) victim - nb) OR PREV_INUSE)
         \<and> prev_size (mem t) (victim + chunksize (mem s) victim)
              = chunksize (mem s) victim - nb"
    using assms by (intro unsorted_drain_split_reads) simp_all
next
  assume h: "chunksize (mem s) victim = nb + MINSIZE \<and> in_smallbin_range (nb + MINSIZE)
        \<and> fd (mem s) (bin_at av (smallbin_index (nb + MINSIZE)))
             = bin_at av (smallbin_index (nb + MINSIZE))
        \<and> unsorted_chunks av - victim \<le> 0xFFFFFFFFFFFFFBD8 \<and> \<not> return_cached l"
  have b: "bytes \<le> PTRDIFF_MAX" "nb = request2size bytes"
    using assms(7) by (auto simp: checked_request2size_def split: if_splits)
  have n1: "32 \<le> nb"
    using request2size_lower(2)[OF b(1)] b(2) by simp
  have s: "nb + MINSIZE \<le> unsorted_chunks av - victim"
    using assms(8) h by simp
  show "\<exists>t. unsorted_drain av nb bytes tcache_nb tc_idx s l
               = Some (Inr (t, l\<lparr>tcache_unsorted_count := tcache_unsorted_count l + 1,
                                  iters := iters l + 1\<rparr>))
         \<and> last_remainder (arena t av) = victim
         \<and> chunksize_nomask (mem t) victim = chunksize_nomask (mem s) victim
         \<and> fd (mem t) (unsorted_chunks av) = unsorted_chunks av
         \<and> bk (mem t) (unsorted_chunks av) = unsorted_chunks av
         \<and> fd (mem t) (bin_at av (smallbin_index (nb + MINSIZE))) = victim
         \<and> bk (mem t) (bin_at av (smallbin_index (nb + MINSIZE))) = victim
         \<and> fd (mem t) victim = bin_at av (smallbin_index (nb + MINSIZE))
         \<and> bk (mem t) victim = bin_at av (smallbin_index (nb + MINSIZE))"
    using unsorted_drain_kept_whole[OF assms(1,2,3,5) n1 assms(4) _ _ _ s _ _ refl,
        where l = l and bytes = bytes and tcache_nb = tcache_nb and tc_idx = tc_idx] h
      assms(6)
    by simp
qed

subsection \<open>From the wrapper to the drain\<close>

lemma int_malloc_small_to_loop:
  assumes "checked_request2size bytes = Some nb" "av \<noteq> 0"
    "int_malloc_fast av nb bytes s = Some None" "in_smallbin_range nb"
    "bk (mem s) (bin_at av (smallbin_index nb)) = bin_at av (smallbin_index nb)"
  shows "int_malloc E av bytes s
     = int_malloc_loop E av nb bytes
         (if tcache s \<noteq> 0 \<and> csize2tidx nb < tcache_bins (mp s) then nb else 0)
         (csize2tidx nb) (smallbin_index nb) s
         \<lparr>iters = 0, return_cached = False, tcache_unsorted_count = 0\<rparr>"
  using assms by (simp add: int_malloc_def int_malloc_small_def Let_def)

lemma int_malloc_loop_drain:
  assumes "unsorted_drain av nb bytes tcache_nb tc_idx s (l\<lparr>iters := 0\<rparr>) = Some (Inl r)"
  shows "int_malloc_loop E av nb bytes tcache_nb tc_idx idx s l = Some r"
  using assms by (subst int_malloc_loop.simps) simp

lemma libc_malloc_main:
  assumes "malloc_hook E = None" "checked_request2size bytes = Some tb" "tcache s \<noteq> 0"
    "counts (tcache_struct s) (unat (csize2tidx tb)) = 0" "single_thread s"
    "int_malloc E (main_arena s) bytes s = Some (Return p t)"
    "\<not> chunk_is_mmapped (mem t) (mem2chunk p) \<longrightarrow> chunk_main_arena (mem t) (mem2chunk p)"
  shows "libc_malloc E bytes s = Some (Return p t)"
proof -
  have "MAYBE_INIT_TCACHE E s = Some (Return () s)"
    using assms(3) by (intro MAYBE_INIT_TCACHE_noop) simp
  moreover have "malloc_result_ok E (main_arena t) p t"
    using assms(7) by (auto simp: malloc_result_ok_def arena_for_chunk_def)
  ultimately show ?thesis
    using assms by (simp add: libc_malloc_def obind_def)
qed

lemma request_24: "checked_request2size 24 = Some 0x20"
  by (simp add: checked_request2size_def request2size_def consts_simps)

lemma small_20: "in_smallbin_range 0x20" "smallbin_index 0x20 = 2" "bin_at 0x100000 2 = 0x100070"
  "csize2tidx 0x20 = 0" "fastbin_index 0x20 = 0"
  by (simp_all add: in_smallbin_range_def MIN_LARGE_SIZE_val smallbin_index_def
      SMALLBIN_WIDTH_def SMALLBIN_CORRECTION_def bin_at_def bins_offset_def csize2tidx_def
      fastbin_index_def consts_simps)

lemma unsorted_100000: "unsorted_chunks 0x100000 = 0x100060"
  by (simp add: unsorted_chunks_def bin_at_def bins_offset_def consts_simps)

lemma st4_reads:
  "bk (mem st4) 0x100060 = 0x603000"
  "fd (mem st4) 0x100060 = 0x603000"
  "bk (mem st4) 0x603000 = 0x100060"
  "fd (mem st4) 0x603000 = 0x100060"
  "chunksize (mem st4) 0x603000 = 0x100"
  "chunksize_nomask (mem st4) 0x603100 = 0x20"
  "prev_size (mem st4) 0x603100 = 0x100"
  "bk (mem st4) 0x100070 = 0x100070"
  by (simp_all add: st4_def st0_def heap4_def bk_def fd_def chunksize_def
      chunksize_nomask_def prev_size_def cs_masks consts_simps mem_simps)

lemma st4_fields:
  "last_remainder (arena st4 0x100000) = 0x603000"
  "system_mem (arena st4 0x100000) = 0x21000"
  "fastbinsY (arena st4 0x100000) 0 = 0"
  "main_arena st4 = 0x100000" "tcache st4 \<noteq> 0" "single_thread st4"
  "counts (tcache_struct st4) 0 = 0" "get_max_fast st4 = 0x80"
  "tcache_bins (mp st4) = 64"
  by (simp_all add: st4_def st0_def arena0_def mp0_def get_max_fast_def TCACHE_MAX_BINS_def)

lemma st4_checks: "unsorted_checks st4 0x100000 0x603000 = None"
  by (simp add: unsorted_checks_def Let_def chunk_at_offset_def st4_reads st4_fields
      unsorted_100000 prev_inuse_def cs_masks SIZE_SZ_def)

lemma st4_to_loop:
  "int_malloc env0 0x100000 24 st4
     = int_malloc_loop env0 0x100000 0x20 24 0x20 0 2 st4
         \<lparr>iters = 0, return_cached = False, tcache_unsorted_count = 0\<rparr>"
proof -
  have f: "int_malloc_fast 0x100000 0x20 24 st4 = Some None"
    by (simp add: int_malloc_fast_def Let_def st4_fields small_20)
  show ?thesis
    using int_malloc_small_to_loop[OF request_24 _ f small_20(1), of env0]
    by (simp add: small_20 st4_reads st4_fields)
qed


lemma bin4: "bin_at 0x100000 4 = 0x100090" "smallbin_index 0x40 = 4"
  "idx2block 4 = 0" "idx2bit 4 = 16"
  by (simp_all add: bin_at_def bins_offset_def smallbin_index_def SMALLBIN_WIDTH_def
      SMALLBIN_CORRECTION_def idx2block_def idx2bit_def BINMAPSHIFT_def consts_simps)

lemma bin3: "bin_at 0x100000 3 = 0x100080" "idx2block 3 = 0" "idx2bit 3 = 8"
  by (simp_all add: bin_at_def bins_offset_def idx2block_def idx2bit_def BINMAPSHIFT_def
      consts_simps)

lemma st4c_reads:
  "bk (mem st4c) 0x100060 = 0x603000"
  "fd (mem st4c) 0x100060 = 0x603000"
  "bk (mem st4c) 0x603000 = 0x100060"
  "fd (mem st4c) 0x603000 = 0x100060"
  "chunksize (mem st4c) 0x603000 = 0x40"
  "chunksize_nomask (mem st4c) 0x603040 = 0x20"
  "prev_size (mem st4c) 0x603040 = 0x40"
  "bk (mem st4c) 0x100070 = 0x100070"
  "fd (mem st4c) 0x100090 = 0x100090"
  "chunksize_nomask (mem st4c) 0x603000 = 0x41"
  by (simp_all add: st4c_def st0_def heap4c_def bk_def fd_def chunksize_def
      chunksize_nomask_def prev_size_def cs_masks consts_simps mem_simps)

lemma st4c_fields:
  "last_remainder (arena st4c 0x100000) = 0x603000"
  "system_mem (arena st4c 0x100000) = 0x21000"
  "fastbinsY (arena st4c 0x100000) 0 = 0"
  "main_arena st4c = 0x100000" "tcache st4c \<noteq> 0" "single_thread st4c"
  "counts (tcache_struct st4c) 0 = 0" "get_max_fast st4c = 0x80"
  "tcache_bins (mp st4c) = 64"
  by (simp_all add: st4c_def st0_def arena0_def mp0_def get_max_fast_def TCACHE_MAX_BINS_def)

lemma st4c_checks: "unsorted_checks st4c 0x100000 0x603000 = None"
  by (simp add: unsorted_checks_def Let_def chunk_at_offset_def st4c_reads st4c_fields
      unsorted_100000 prev_inuse_def cs_masks SIZE_SZ_def)

theorem last_remainder_split_witness:
  "bk (mem st4) (unsorted_chunks 0x100000) = 0x603000
   \<and> bk (mem st4) 0x603000 = unsorted_chunks 0x100000
   \<and> unsorted_checks st4 0x100000 0x603000 = None
   \<and> in_smallbin_range 0x20
   \<and> 0x603000 = last_remainder (arena st4 0x100000)
   \<and> checked_request2size 24 = Some 0x20
   \<and> 0x20 + MINSIZE < chunksize (mem st4) 0x603000
   \<and> (\<exists>t. libc_malloc env0 24 st4 = Some (Return 0x603010 t)
         \<and> last_remainder (arena t 0x100000) = 0x603020
         \<and> fd (mem t) 0x100060 = 0x603020 \<and> bk (mem t) 0x100060 = 0x603020
         \<and> fd (mem t) 0x603020 = 0x100060 \<and> bk (mem t) 0x603020 = 0x100060
         \<and> chunksize_nomask (mem t) 0x603000 = 0x21
         \<and> chunksize_nomask (mem t) 0x603020 = 0xe1
         \<and> prev_size (mem t) 0x603100 = 0xe0)
   \<and> bk (mem st4c) (unsorted_chunks 0x100000) = 0x603000
   \<and> bk (mem st4c) 0x603000 = unsorted_chunks 0x100000
   \<and> unsorted_checks st4c 0x100000 0x603000 = None
   \<and> 0x603000 = last_remainder (arena st4c 0x100000)
   \<and> chunksize (mem st4c) 0x603000 = 0x20 + MINSIZE
   \<and> (\<exists>t. unsorted_drain 0x100000 0x20 24 0x20 0 st4c
              \<lparr>iters = 0, return_cached = False, tcache_unsorted_count = 0\<rparr>
             = Some (Inr (t, \<lparr>iters = 1, return_cached = False, tcache_unsorted_count = 1\<rparr>))
         \<and> last_remainder (arena t 0x100000) = 0x603000
         \<and> chunksize_nomask (mem t) 0x603000 = 0x41
         \<and> bk (mem t) 0x100060 = 0x100060
         \<and> fd (mem t) 0x100090 = 0x603000 \<and> bk (mem t) 0x100090 = 0x603000
         \<and> fd (mem t) 0x603000 = 0x100090 \<and> bk (mem t) 0x603000 = 0x100090)"
proof -
  let ?l0 = "\<lparr>iters = 0, return_cached = False, tcache_unsorted_count = 0\<rparr>"
  have a: "bk (mem st4) (unsorted_chunks 0x100000) = 0x603000"
    "(0x603000 :: 64 word) \<noteq> unsorted_chunks 0x100000"
    "bk (mem st4) 0x603000 = unsorted_chunks 0x100000"
    "0x603000 = last_remainder (arena st4 0x100000)"
    "chunksize (mem st4) 0x603000 \<le> unsorted_chunks 0x100000 - 0x603000"
    "0x20 + MINSIZE < chunksize (mem st4) 0x603000"
    "unsorted_chunks 0x100000 - (0x603000 :: 64 word) \<le> 0xFFFFFFFFFFFFFFD8"
    by (simp_all add: unsorted_100000 st4_reads st4_fields MINSIZE_val)
  have "\<exists>t. unsorted_drain 0x100000 0x20 24 0x20 0 st4 ?l0
               = Some (Inl (Return (chunk2mem 0x603000) t))
         \<and> last_remainder (arena t 0x100000) = 0x603000 + 0x20
         \<and> fd (mem t) (unsorted_chunks 0x100000) = 0x603000 + 0x20
         \<and> bk (mem t) (unsorted_chunks 0x100000) = 0x603000 + 0x20
         \<and> fd (mem t) (0x603000 + 0x20) = unsorted_chunks 0x100000
         \<and> bk (mem t) (0x603000 + 0x20) = unsorted_chunks 0x100000
         \<and> chunksize_nomask (mem t) 0x603000
              = (0x20 OR PREV_INUSE OR (if 0x100000 \<noteq> main_arena st4 then NON_MAIN_ARENA else 0))
         \<and> chunksize_nomask (mem t) (0x603000 + 0x20)
              = ((chunksize (mem st4) 0x603000 - 0x20) OR PREV_INUSE)
         \<and> prev_size (mem t) (0x603000 + chunksize (mem st4) 0x603000)
              = chunksize (mem st4) 0x603000 - 0x20"
    using last_remainder_split[OF a(1,2) st4_checks small_20(1) a(3,4) request_24 a(5),
        of "0x20" 0 ?l0] a(6,7)
    by blast
  then obtain t where t: "unsorted_drain 0x100000 0x20 24 0x20 0 st4 ?l0
               = Some (Inl (Return 0x603010 t))"
    "last_remainder (arena t 0x100000) = 0x603020"
    "fd (mem t) 0x100060 = 0x603020" "bk (mem t) 0x100060 = 0x603020"
    "fd (mem t) 0x603020 = 0x100060" "bk (mem t) 0x603020 = 0x100060"
    "chunksize_nomask (mem t) 0x603000 = 0x21"
    "chunksize_nomask (mem t) 0x603020 = 0xe1"
    "prev_size (mem t) 0x603100 = 0xe0"
    by (auto simp: unsorted_100000 st4_reads st4_fields chunk2mem_def cs_masks SIZE_SZ_def)
  have "int_malloc env0 0x100000 24 st4 = Some (Return 0x603010 t)"
    unfolding st4_to_loop by (rule int_malloc_loop_drain) (simp add: t(1))
  then have m: "libc_malloc env0 24 st4 = Some (Return 0x603010 t)"
    by (intro libc_malloc_main[where tb = "0x20"])
      (simp_all add: env0_def request_24 st4_fields small_20 mem2chunk_603010
        chunk_main_arena_def t(7) cs_masks)
  have b: "bk (mem st4c) (unsorted_chunks 0x100000) = 0x603000"
    "(0x603000 :: 64 word) \<noteq> unsorted_chunks 0x100000"
    "bk (mem st4c) 0x603000 = unsorted_chunks 0x100000"
    "0x603000 = last_remainder (arena st4c 0x100000)"
    "chunksize (mem st4c) 0x603000 \<le> unsorted_chunks 0x100000 - 0x603000"
    "chunksize (mem st4c) 0x603000 = 0x20 + MINSIZE"
    "in_smallbin_range (0x20 + MINSIZE)"
    "fd (mem st4c) (bin_at 0x100000 (smallbin_index (0x20 + MINSIZE)))
       = bin_at 0x100000 (smallbin_index (0x20 + MINSIZE))"
    "unsorted_chunks 0x100000 - (0x603000 :: 64 word) \<le> 0xFFFFFFFFFFFFFBD8"
    "\<not> return_cached ?l0"
    by (simp_all add: unsorted_100000 st4c_reads st4c_fields MINSIZE_val bin4
        in_smallbin_range_def MIN_LARGE_SIZE_val)
  have "\<exists>t. unsorted_drain 0x100000 0x20 24 0x20 0 st4c ?l0
               = Some (Inr (t, ?l0\<lparr>tcache_unsorted_count := tcache_unsorted_count ?l0 + 1,
                                   iters := iters ?l0 + 1\<rparr>))
         \<and> last_remainder (arena t 0x100000) = 0x603000
         \<and> chunksize_nomask (mem t) 0x603000 = chunksize_nomask (mem st4c) 0x603000
         \<and> fd (mem t) (unsorted_chunks 0x100000) = unsorted_chunks 0x100000
         \<and> bk (mem t) (unsorted_chunks 0x100000) = unsorted_chunks 0x100000
         \<and> fd (mem t) (bin_at 0x100000 (smallbin_index (0x20 + MINSIZE))) = 0x603000
         \<and> bk (mem t) (bin_at 0x100000 (smallbin_index (0x20 + MINSIZE))) = 0x603000
         \<and> fd (mem t) 0x603000 = bin_at 0x100000 (smallbin_index (0x20 + MINSIZE))
         \<and> bk (mem t) 0x603000 = bin_at 0x100000 (smallbin_index (0x20 + MINSIZE))"
    using last_remainder_split[OF b(1,2) st4c_checks small_20(1) b(3,4) request_24 b(5),
        of "0x20" 0 ?l0] b(6-10)
    by blast
  then have w: "\<exists>t. unsorted_drain 0x100000 0x20 24 0x20 0 st4c ?l0
             = Some (Inr (t, \<lparr>iters = 1, return_cached = False, tcache_unsorted_count = 1\<rparr>))
         \<and> last_remainder (arena t 0x100000) = 0x603000
         \<and> chunksize_nomask (mem t) 0x603000 = 0x41
         \<and> bk (mem t) 0x100060 = 0x100060
         \<and> fd (mem t) 0x100090 = 0x603000 \<and> bk (mem t) 0x100090 = 0x603000
         \<and> fd (mem t) 0x603000 = 0x100090 \<and> bk (mem t) 0x603000 = 0x100090"
    by (auto simp add: unsorted_100000 MINSIZE_val bin4 st4c_reads)
  show ?thesis
    using m t(2-9) w a(1,3,4,6) b(1,3,4,6) st4_checks st4c_checks small_20(1) request_24
    by blast
qed


subsection \<open>A last remainder of exactly \<open>nb + MINSIZE\<close> bytes\<close>

lemma st4c_link:
  "bin_link 0x100000 0x603000 0x40 (unsorted_remove 0x100000 0x603000 st4c)
     = Some (Inr st4c_binned)"
proof -
  have r: "unsorted_remove 0x100000 0x603000 st4c
     = st4c\<lparr>mem := store64 (store64 (mem st4c) 0x100078 0x100060) 0x100070 0x100060\<rparr>"
    by (simp add: unsorted_remove_def Let_def st4c_reads unsorted_100000 set_bk_def
        set_fd_def SIZE_SZ_def)
  have f: "fd (store64 (store64 (mem st4c) 0x100078 0x100060) 0x100070 0x100060)
             0x100090 = 0x100090"
    using st4c_reads(9) by (simp add: fd_def SIZE_SZ_def mem_simps)
  show ?thesis
    unfolding r
    by (simp add: bin_link_def place_chunk_def in_smallbin_range_def MIN_LARGE_SIZE_val bin4
        Let_def f mark_bin_def upd_arena_def set_bk_def set_fd_def SIZE_SZ_def)
      (simp add: st4c_binned_def st4c_def st0_def arena0_def)
qed

lemma st4c_binned_reads:
  "bk (mem st4c_binned) 0x100060 = 0x100060"
  "bk (mem st4c_binned) 0x100080 = 0x603100"
  "fd (mem st4c_binned) 0x100080 = 0x603100"
  "bk (mem st4c_binned) 0x603100 = 0x100080"
  "fd (mem st4c_binned) 0x603100 = 0x100080"
  "chunksize (mem st4c_binned) 0x603100 = 0x30"
  "chunksize_nomask (mem st4c_binned) 0x603100 = 0x31"
  "prev_size (mem st4c_binned) 0x603130 = 0x30"
  "chunksize_nomask (mem st4c_binned) 0x603130 = 0x20"
  by (simp_all add: st4c_binned_def st4c_def st0_def heap4c_def bk_def fd_def chunksize_def
      chunksize_nomask_def prev_size_def cs_masks consts_simps mem_simps)

lemma st4c_binned_fields:
  "binmap (arena st4c_binned 0x100000) 0 = 24"
  "main_arena st4c_binned = 0x100000" "perturb_byte st4c_binned = 0"
  by (simp_all add: st4c_binned_def st4c_def st0_def)

lemma st4c_drain:
  "unsorted_drain 0x100000 0x20 24 0x20 0 st4c
        \<lparr>iters = 0, return_cached = False, tcache_unsorted_count = 0\<rparr>
      = Some (Inr (st4c_binned, \<lparr>iters = 1, return_cached = False, tcache_unsorted_count = 1\<rparr>))"
proof -
  let ?l0 = "\<lparr>iters = 0, return_cached = False, tcache_unsorted_count = 0\<rparr>"
  let ?l1 = "\<lparr>iters = 1, return_cached = False, tcache_unsorted_count = 1\<rparr>"
  have ns: "\<not> (in_smallbin_range 0x20 \<and> bk (mem st4c) 0x603000 = unsorted_chunks 0x100000
       \<and> 0x603000 = last_remainder (arena st4c 0x100000)
       \<and> 0x20 + MINSIZE < chunksize (mem st4c) 0x603000)"
    by (simp add: st4c_reads MINSIZE_val)
  have ne: "chunksize (mem st4c) 0x603000 \<noteq> 0x20"
    by (simp add: st4c_reads)
  have l: "bin_link 0x100000 0x603000 (chunksize (mem st4c) 0x603000)
      (unsorted_remove 0x100000 0x603000 st4c) = Some (Inr st4c_binned)"
    by (simp add: st4c_reads st4c_link)
  have b: "drain_body 0x100000 0x20 24 0x20 0 0x603000 st4c ?l0
      = Some (Step_continue st4c_binned ?l1)"
    unfolding drain_body_binned[OF st4c_checks ns ne l]
    by (simp add: MAX_ITERS_def)
  have d2: "unsorted_drain 0x100000 0x20 24 0x20 0 st4c_binned ?l1
      = Some (Inr (st4c_binned, ?l1))"
    by (subst unsorted_drain.simps)
      (simp add: unsorted_100000 st4c_binned_reads drain_exit_def)
  show ?thesis
    using d2 by (subst unsorted_drain.simps)
      (simp add: unsorted_100000 st4c_reads b)
qed

lemma st4c_unlink:
  "unlink_chunk 0x100000 0x603100 st4c_binned
     = Return () (st4c_binned\<lparr>mem := store64 (store64 (mem st4c_binned)
                     0x100098 0x100080) 0x100090 0x100080\<rparr>)"
proof -
  have h: "chunksize_nomask (store64 (store64 (mem st4c_binned) 0x100098 0x100080)
      0x100090 0x100080) 0x603100 = 0x31"
    using st4c_binned_reads(7) by (simp add: chunksize_nomask_def SIZE_SZ_def mem_simps)
  show ?thesis
    by (simp add: unlink_chunk_def Let_def next_chunk_def st4c_binned_reads set_bk_def
        set_fd_def SIZE_SZ_def h in_smallbin_range_def MIN_LARGE_SIZE_val)
qed

lemma st4c_take:
  "take_from_bin 0x100000 0x20 24 0x603100 0x30 True msg st4c_binned
     = Return 0x603110 st4c_after"
proof -
  have h: "chunksize_nomask (store64 (store64 (mem st4c_binned) 0x100098 0x100080)
      0x100090 0x100080) 0x603130 = 0x20"
    using st4c_binned_reads(9) by (simp add: chunksize_nomask_def SIZE_SZ_def mem_simps)
  show ?thesis
    by (simp add: take_from_bin_def Let_def st4c_unlink MINSIZE_val
        set_inuse_bit_at_offset_def set_head_def h cs_masks st4c_binned_fields
        alloc_perturb_def chunk2mem_def SIZE_SZ_def st4c_after_def)
qed

lemma st4c_scan:
  "bin_scan 0x100000 0x20 24 (idx2block 3) (binmap (arena st4c_binned 0x100000) (unat (idx2block 3)))
     (idx2bit 3) (bin_at 0x100000 3) st4c_binned
   = Some (Inl (Return 0x603110 st4c_after))"
proof -
  have a: "advance_bin 24 8 0x100080 = Some (Inr (8, 0x100080))"
    by (subst advance_bin.simps) simp
  show ?thesis
    by (subst bin_scan.simps)
      (simp add: bin3 st4c_binned_fields a st4c_binned_reads st4c_take)
qed

lemma st4c_malloc: "libc_malloc env0 24 st4c = Some (Return 0x603110 st4c_after)"
proof -
  have f: "int_malloc_fast 0x100000 0x20 24 st4c = Some None"
    by (simp add: int_malloc_fast_def Let_def st4c_fields small_20)
  have p: "(2 :: 32 word) + 1 = 3" by simp
  have "int_malloc_loop env0 0x100000 0x20 24 0x20 0 2 st4c
         \<lparr>iters = 0, return_cached = False, tcache_unsorted_count = 0\<rparr>
     = Some (Return 0x603110 st4c_after)"
    by (subst int_malloc_loop.simps) (simp add: st4c_drain small_20 p st4c_scan)
  then have i: "int_malloc env0 0x100000 24 st4c = Some (Return 0x603110 st4c_after)"
    using int_malloc_small_to_loop[OF request_24 _ f small_20(1), of env0]
    by (simp add: small_20 st4c_reads st4c_fields)
  have h: "chunksize_nomask (mem st4c_after) 0x603100 = 0x31"
    using st4c_binned_reads(7)
    by (simp add: st4c_after_def chunksize_nomask_def SIZE_SZ_def mem_simps)
  have m: "mem2chunk (0x603110 :: 64 word) = 0x603100"
    by (simp add: mem2chunk_def SIZE_SZ_def)
  have k: "malloc_hook env0 = None"
    by (simp add: env0_def)
  show ?thesis
    by (intro libc_malloc_main[where tb = "0x20"])
      (simp_all add: k request_24 st4c_fields small_20 i m chunk_main_arena_def h cs_masks)
qed

lemma st4c_after_reads:
  "chunksize (mem st4c_after) 0x603000 = 0x40"
  "bk (mem st4c_after) 0x100090 = 0x603000"
  "fd (mem st4c_after) 0x100090 = 0x603000"
  "bk (mem st4c_after) 0x100060 = 0x100060"
  "last_remainder (arena st4c_after 0x100000) = 0x603000"
  by (simp_all add: st4c_after_def st4c_binned_def st4c_def st0_def heap4c_def bk_def fd_def
      chunksize_def chunksize_nomask_def cs_masks consts_simps mem_simps)

text \<open>
  C4 as stated fails at the boundary. With a last remainder of exactly \<open>nb + MINSIZE\<close>
  bytes as the only chunk of the unsorted bin, and a free chunk of \<open>nb + 16\<close> bytes in the
  next small bin, the permitted size \<open>T.size \<ge> nb + MINSIZE\<close> holds, but the call neither
  splits the last remainder nor returns its front: the drain moves it whole to its small
  bin, the scan of the bins then takes the other chunk, and \<open>malloc\<close> returns that one.
\<close>

theorem last_remainder_exact_counterexample:
  "bk (mem st4c) (unsorted_chunks 0x100000) = 0x603000
   \<and> bk (mem st4c) 0x603000 = unsorted_chunks 0x100000
   \<and> unsorted_checks st4c 0x100000 0x603000 = None
   \<and> last_remainder (arena st4c 0x100000) = 0x603000
   \<and> checked_request2size 24 = Some 0x20
   \<and> in_smallbin_range 0x20
   \<and> chunksize (mem st4c) 0x603000 \<ge> 0x20 + MINSIZE
   \<and> libc_malloc env0 24 st4c = Some (Return 0x603110 st4c_after)
   \<and> chunk2mem 0x603000 = (0x603010 :: 64 word)
   \<and> chunksize (mem st4c_after) 0x603000 = 0x40
   \<and> bk (mem st4c_after) (bin_at 0x100000 (smallbin_index 0x40)) = 0x603000
   \<and> bk (mem st4c_after) (unsorted_chunks 0x100000) = unsorted_chunks 0x100000
   \<and> last_remainder (arena st4c_after 0x100000) = 0x603000"
  using st4c_malloc
  by (simp add: unsorted_100000 st4c_reads st4c_fields st4c_checks request_24 small_20
      MINSIZE_val bin4 st4c_after_reads chunk2mem_def SIZE_SZ_def)

section \<open>Exact fits in the unsorted bin\<close>

lemma take_exact_frame:
  "tcache_struct (take_exact av victim sz (unsorted_remove av victim s)) = tcache_struct s"
  "mp (take_exact av victim sz (unsorted_remove av victim s)) = mp s"
  by (simp_all add: take_exact_def unsorted_remove_def Let_def)

lemma drain_body_exact:
  assumes "unsorted_checks s av victim = None"
    and "chunksize (mem s) victim = nb"
    and "tcache_nb \<noteq> 0"
    and "ucast (counts (tcache_struct s) (unat tc_idx)) < tcache_count (mp s)"
  shows "drain_body av nb bytes tcache_nb tc_idx victim s l
     = Some (Step_continue
         (tcache_put (take_exact av victim nb (unsorted_remove av victim s)) victim tc_idx)
         (l\<lparr>return_cached := True\<rparr>))"
  using assms unsorted_checks_NoneD(1)[OF assms(1)] exact_not_split[of nb]
  by (simp add: drain_body_def Let_def take_exact_frame)

lemma unsorted_drain_end:
  assumes "return_cached k" "bk (mem t) (unsorted_chunks av) = unsorted_chunks av"
  shows "unsorted_drain av nb bytes tcache_nb tc_idx t k = Some (Inl (tcache_get t tc_idx))"
  using assms by (subst unsorted_drain.simps) (simp add: drain_exit_def)

lemma unsorted_drain_binned:
  assumes "return_cached k" "bk (mem t) (unsorted_chunks av) = v" "v \<noteq> unsorted_chunks av"
    and "unsorted_checks t av v = None"
    and "\<not> (in_smallbin_range nb \<and> bk (mem t) v = unsorted_chunks av
             \<and> v = last_remainder (arena t av) \<and> nb + MINSIZE < chunksize (mem t) v)"
    and "chunksize (mem t) v \<noteq> nb"
    and "bin_link av v (chunksize (mem t) v) (unsorted_remove av v t) = Some (Inr t')"
  shows "unsorted_drain av nb bytes tcache_nb tc_idx t k
     = (if 0 < tcache_unsorted_limit (mp t')
           \<and> tcache_unsorted_limit (mp t') < tcache_unsorted_count k + 1
        then Some (Inl (tcache_get t' tc_idx))
        else if MAX_ITERS \<le> iters k + 1 then Some (Inl (tcache_get t' tc_idx))
        else unsorted_drain av nb bytes tcache_nb tc_idx t'
               (k\<lparr>tcache_unsorted_count := tcache_unsorted_count k + 1,
                  iters := iters k + 1\<rparr>))"
  apply (subst unsorted_drain.simps)
  unfolding assms(2) drain_body_binned[OF assms(4-7)]
  using assms(1,3) by (simp add: drain_exit_def)

lemma sole_exact_bin_empty:
  fixes V B :: addr
  assumes sep: "nb \<le> B - V" "B - V \<le> 0xFFFFFFFFFFFFFFD8" "16 < nb"
    and B: "B = unsorted_chunks av" and bkv: "bk (mem s) V = B"
  shows "bk (mem (tcache_put (take_exact av V nb (unsorted_remove av V s)) V tc_idx)) B = B"
proof -
  define d where "d = B - V"
  define m2 where "m2 = store64 (store64 (mem s) (V + (d + 24)) B) (V + (d + 16)) B"
  define x where "x = chunksize_nomask m2 (V + nb) OR PREV_INUSE"
  define m3 where "m3 = store64 m2 (V + (nb + 8)) x"
  define y where "y = chunksize_nomask m3 V OR NON_MAIN_ARENA"
  define c where "c \<longleftrightarrow> av \<noteq> main_arena s"
  define m4 where "m4 = (if c then store64 m3 (V + 8) y else m3)"
  define e where "e = entries (tcache_struct s) (unat tc_idx)"
  define m6 where "m6 = store64 (store64 m4 (V + 24) (tcache s)) (V + 16) e"
  have ad: "B + 24 = V + (d + 24)" "B + 16 = V + (d + 16)" "V + nb + 8 = V + (nb + 8)"
    "V + 16 + 8 = V + 24"
    by (simp_all add: d_def)
  have m: "mem (tcache_put (take_exact av V nb (unsorted_remove av V s)) V tc_idx) = m6"
    unfolding tcache_put_def take_exact_def unsorted_remove_def Let_def m6_def m4_def m3_def
      m2_def x_def y_def e_def bkv B[symmetric]
    by (simp add: c_def[symmetric] set_bk_def set_fd_def set_inuse_bit_at_offset_def
        set_non_main_arena_def set_head_def chunk2mem_def SIZE_SZ_def ad)
  have n: "16 < unat nb" "unat nb \<le> unat d" "unat d + 40 \<le> 2 ^ 64"
    using sep by (simp_all add: word_le_nat_alt word_less_nat_alt d_def)
  have u: "unat (d + 24) = unat d + 24" "unat (d + 16) = unat d + 16"
    "unat (nb + 8) = unat nb + 8"
    using n by (simp_all add: unat_word_ariths)
  have r2: "load64 m2 (V + (d + 24)) = B"
    unfolding m2_def
    using load64_store64_nat[of "d + 16" "d + 24" "store64 (mem s) (V + (d + 24)) B" V B] n u
    by (simp add: load64_store64_same)
  have r3: "load64 m3 (V + (d + 24)) = B"
    unfolding m3_def
    using load64_store64_nat[of "nb + 8" "d + 24" m2 V x] n u r2 by simp
  have r4: "load64 m4 (V + (d + 24)) = B"
    unfolding m4_def
    using load64_store64_nat[of 8 "d + 24" m3 V y] n u r3 by simp
  have r5: "load64 (store64 m4 (V + 24) (tcache s)) (V + (d + 24)) = B"
    using load64_store64_nat[of 24 "d + 24" m4 V "tcache s"] n u r4 by simp
  have r6: "load64 m6 (V + (d + 24)) = B"
    unfolding m6_def
    using load64_store64_nat[of 16 "d + 24" "store64 m4 (V + 24) (tcache s)" V e] n u r5 by simp
  show ?thesis
    using r6 by (simp add: m bk_def SIZE_SZ_def ad)
qed

lemma tcache_get_put:
  "tcache_get (tcache_put s V tc_idx) tc_idx
     = Return (chunk2mem V)
         (s\<lparr>tcache_struct := tcache_struct s,
            mem := store64 (store64 (store64 (mem s) (chunk2mem V + 8) (tcache s)) (chunk2mem V)
                     (entries (tcache_struct s) (unat tc_idx))) (chunk2mem V + 8) 0\<rparr>)"
proof -
  have "load64 (store64 m a v) a = v" for m a v
    by (rule load64_store64_same)
  then show ?thesis
    by (simp add: tcache_get_def tcache_put_def Let_def)
qed

lemma chunksize_ge24:
  assumes "2 * SIZE_SZ < chunksize m p"
  shows "24 \<le> chunksize m p"
proof -
  define x where "x = chunksize_nomask m p"
  have c: "chunksize m p = x AND NOT 7"
    by (simp add: chunksize_def x_def cs_masks)
  have "(7 :: 64 word) = mask 3" by (simp add: mask_eq_exp_minus_1)
  then have "(x AND NOT 7) AND 7 = take_bit 3 (x AND NOT 7)" by (simp add: take_bit_eq_mask)
  moreover have "(x AND NOT 7) AND 7 = 0" by (simp add: and.assoc)
  ultimately have "take_bit 3 (x AND NOT 7) = 0" by simp
  then have "unat (take_bit 3 (x AND NOT 7)) = 0" by simp
  then have m: "unat (x AND NOT 7) mod 8 = 0"
    by (simp add: take_bit_eq_mod unat_mod)
  have "16 < unat (x AND NOT 7)"
    using assms by (simp add: c SIZE_SZ_def word_less_nat_alt)
  then have "24 \<le> unat (x AND NOT 7)" using m by presburger
  then show ?thesis by (simp add: c word_le_nat_alt)
qed

lemma or_one_and_one: "(w OR 1) AND 1 \<noteq> (0 :: 64 word)"
proof -
  have "bit ((w OR 1) AND 1) 0" by (simp add: bit_and_iff bit_or_iff)
  then show ?thesis by auto
qed

lemma cached_state_reads:
  fixes V B :: addr
  assumes nb: "24 \<le> nb"
    and sep: "nb \<le> B - V" "B - V \<le> 0xFFFFFFFFFFFFFFD8"
      "nb \<le> bk (mem s) V - V" "bk (mem s) V - V \<le> 0xFFFFFFFFFFFFFFD8"
      "bk (mem s) V - V \<le> B - V \<or> B - V + 16 \<le> bk (mem s) V - V"
    and B: "B = unsorted_chunks av"
    and s': "s' = tcache_put (take_exact av V nb (unsorted_remove av V s)) V tc_idx"
  shows "bk (mem s') B = bk (mem s) V" "fd (mem s') (bk (mem s) V) = B"
    "prev_inuse (mem s') (V + nb)"
    "chunksize_nomask (mem s') V
       = (if av \<noteq> main_arena s then chunksize_nomask (mem s) V OR NON_MAIN_ARENA
          else chunksize_nomask (mem s) V)"
    "load64 (mem s') (chunk2mem V) = entries (tcache_struct s) (unat tc_idx)"
    "load64 (mem s') (chunk2mem V + 8) = tcache s"
proof -
  define bck where "bck = bk (mem s) V"
  define d where "d = B - V"
  define e where "e = bck - V"
  define m2 where "m2 = store64 (store64 (mem s) (V + (d + 24)) bck) (V + (e + 16)) B"
  define x where "x = load64 m2 (V + (nb + 8)) OR 1"
  define m3 where "m3 = store64 m2 (V + (nb + 8)) x"
  define y where "y = load64 m3 (V + 8) OR 4"
  define q where "q \<longleftrightarrow> av \<noteq> main_arena s"
  define m4 where "m4 = (if q then store64 m3 (V + 8) y else m3)"
  define h where "h = entries (tcache_struct s) (unat tc_idx)"
  define m6 where "m6 = store64 (store64 m4 (V + 24) (tcache s)) (V + 16) h"
  have ad: "B + 24 = V + (d + 24)" "bck + 16 = V + (e + 16)" "V + nb + 8 = V + (nb + 8)"
    "V + 16 + 8 = V + 24"
    by (simp_all add: d_def e_def)
  have m: "mem s' = m6"
    unfolding s' tcache_put_def take_exact_def unsorted_remove_def Let_def m6_def m4_def m3_def
      m2_def x_def y_def h_def bck_def[symmetric] B[symmetric]
    by (simp add: q_def[symmetric] set_bk_def set_fd_def set_inuse_bit_at_offset_def
        set_non_main_arena_def set_head_def chunksize_nomask_def chunk2mem_def SIZE_SZ_def
        cs_masks ad)
  note hyp = nb sep[folded bck_def, folded d_def e_def]
  have M: "m6 = store64 (store64 (if q then store64 (store64 (store64 (store64 (mem s)
       (V + (d + 24)) bck) (V + (e + 16)) B) (V + (nb + 8)) x) (V + 8) y
     else store64 (store64 (store64 (mem s)
       (V + (d + 24)) bck) (V + (e + 16)) B) (V + (nb + 8)) x) (V + 24) (tcache s)) (V + 16) h"
    by (simp add: m6_def m4_def m3_def m2_def)
  note r = cached_reads[OF hyp M]
  have t8: "load64 m6 (V + 8) = load64 m4 (V + 8)"
    using cached_tail[OF hyp refl, of m4 V "tcache s" h] by (simp add: m6_def)
  have h8: "load64 m3 (V + 8) = load64 m2 (V + 8)"
    using cached_head[OF hyp refl, of m2 V x] by (simp add: m3_def)
  have o8: "load64 m2 (V + 8) = load64 (mem s) (V + 8)"
    using cached_mid(2)[OF hyp refl, of "mem s" V bck B] by (simp add: m2_def)
  have s4: "load64 m4 (V + 8) = (if q then y else load64 m3 (V + 8))"
    by (simp add: m4_def load64_store64_same)
  show "bk (mem s') B = bk (mem s) V"
    using r(1) by (simp add: m bk_def SIZE_SZ_def ad bck_def)
  show "fd (mem s') (bk (mem s) V) = B"
    using r(2) by (simp add: m fd_def SIZE_SZ_def ad bck_def[symmetric])
  show "prev_inuse (mem s') (V + nb)"
    using r(3) or_one_and_one[of "load64 m2 (V + (nb + 8))"]
    by (simp add: m prev_inuse_def chunksize_nomask_def SIZE_SZ_def cs_masks ad x_def)
  show "chunksize_nomask (mem s') V
       = (if av \<noteq> main_arena s then chunksize_nomask (mem s) V OR NON_MAIN_ARENA
          else chunksize_nomask (mem s) V)"
    using t8 s4 h8 o8
    by (simp add: m chunksize_nomask_def SIZE_SZ_def cs_masks y_def q_def)
  show "load64 (mem s') (chunk2mem V) = entries (tcache_struct s) (unat tc_idx)"
    using r(5) by (simp add: m chunk2mem_def SIZE_SZ_def h_def)
  show "load64 (mem s') (chunk2mem V + 8) = tcache s"
    using r(4) by (simp add: m chunk2mem_def SIZE_SZ_def ad)
qed

lemma sole_exact_returned:
  fixes V B :: addr
  assumes nb: "24 \<le> nb"
    and sep: "nb \<le> B - V" "B - V \<le> 0xFFFFFFFFFFFFFFD8"
    and B: "B = unsorted_chunks av" and bkv: "bk (mem s) V = B"
    and s': "s' = tcache_put (take_exact av V nb (unsorted_remove av V s)) V tc_idx"
  shows "\<exists>t. tcache_get s' tc_idx = Return (chunk2mem V) t
     \<and> tcache_struct t = tcache_struct s
     \<and> prev_inuse (mem t) (V + nb) \<and> fd (mem t) B = B \<and> bk (mem t) B = B"
proof -
  define d where "d = B - V"
  define t where "t = (take_exact av V nb (unsorted_remove av V s))
     \<lparr>tcache_struct := tcache_struct (take_exact av V nb (unsorted_remove av V s)),
       mem := store64 (mem s') (V + 24) 0\<rparr>"
  have g: "tcache_get s' tc_idx = Return (chunk2mem V) t"
    unfolding s' tcache_get_put t_def
    by (simp add: tcache_put_def Let_def chunk2mem_def SIZE_SZ_def add.commute)
  have ts: "tcache_struct t = tcache_struct s"
    by (simp add: t_def take_exact_frame)
  have e: "bk (mem s) V - V \<le> B - V \<or> B - V + 16 \<le> bk (mem s) V - V"
    "nb \<le> bk (mem s) V - V" "bk (mem s) V - V \<le> 0xFFFFFFFFFFFFFFD8"
    using sep by (simp_all add: bkv)
  note r = cached_state_reads[OF nb sep e(2,3,1) B s', unfolded bkv]
  have n: "24 \<le> unat nb" "unat nb \<le> unat d" "unat d + 40 \<le> 2 ^ 64"
    using nb sep by (simp_all add: word_le_nat_alt d_def)
  have u: "unat (d + 24) = unat d + 24" "unat (d + 16) = unat d + 16"
    "unat (nb + 8) = unat nb + 8"
    using n by (simp_all add: unat_word_ariths)
  have ad: "B + 24 = V + (d + 24)" "B + 16 = V + (d + 16)" "V + nb + 8 = V + (nb + 8)"
    by (simp_all add: d_def)
  have r1: "load64 (store64 (mem s') (V + 24) 0) (V + (d + 24)) = load64 (mem s') (V + (d + 24))"
    by (rule load64_store64_nat) (use n u in simp_all)
  have r2: "load64 (store64 (mem s') (V + 24) 0) (V + (d + 16)) = load64 (mem s') (V + (d + 16))"
    by (rule load64_store64_nat) (use n u in simp_all)
  have r3: "load64 (store64 (mem s') (V + 24) 0) (V + (nb + 8)) = load64 (mem s') (V + (nb + 8))"
    by (rule load64_store64_nat) (use n u in simp_all)
  have "bk (mem t) B = B"
    using r(1) r1 by (simp add: t_def bk_def SIZE_SZ_def ad)
  moreover have "fd (mem t) B = B"
    using r(2) r2 by (simp add: t_def fd_def SIZE_SZ_def ad)
  moreover have "prev_inuse (mem t) (V + nb)"
    using r(3) r3 by (simp add: t_def prev_inuse_def chunksize_nomask_def SIZE_SZ_def ad)
  ultimately show ?thesis
    using g ts by blast
qed

text \<open>
  C5, as amended. During the drain of the unsorted bin, when the tail chunk passes the
  integrity checks, has exactly the requested chunk size, and the matching cache bucket is
  not full, the chunk is not returned: it becomes the head of the bucket, whose counter
  goes up by one, and the drain goes on with the iteration count and the count of
  processed chunks unchanged. For a chunk that lies apart from the head of the unsorted bin
  and from its neighbour in the bin, the state then reads as follows: the chunk is off the
  unsorted bin (the bin's \<open>bk\<close> is the chunk's old \<open>bk\<close>, whose \<open>fd\<close> is the bin), the P flag
  of its successor is set, its own size field is as before but for the A flag in a
  secondary arena, and its payload holds the old head of the bucket and the tcache key. If
  the chunk was alone in the bin, the drain returns it at once, marked in use, with the
  unsorted bin empty and the bucket as before. Once a chunk has been cached, the head of
  the bucket is taken and returned when the loop finds the unsorted bin empty; and after a
  chunk has been linked into its bin, it is returned exactly when the cap is non-zero and
  the count of chunks so linked exceeds it, or the iteration limit is reached; otherwise
  the drain goes on.
\<close>

theorem exact_fit_cached:
  "(bk (mem s) (unsorted_chunks av) = victim \<and> victim \<noteq> unsorted_chunks av
      \<and> unsorted_checks s av victim = None \<and> chunksize (mem s) victim = nb
      \<and> tcache_nb \<noteq> 0
      \<and> ucast (counts (tcache_struct s) (unat tc_idx)) < tcache_count (mp s)
    \<longrightarrow> (let s' = tcache_put (take_exact av victim nb (unsorted_remove av victim s)) victim tc_idx
         in drain_body av nb bytes tcache_nb tc_idx victim s l
              = Some (Step_continue s' (l\<lparr>return_cached := True\<rparr>))
          \<and> unsorted_drain av nb bytes tcache_nb tc_idx s l
              = unsorted_drain av nb bytes tcache_nb tc_idx s' (l\<lparr>return_cached := True\<rparr>)
          \<and> entries (tcache_struct s') (unat tc_idx) = chunk2mem victim
          \<and> counts (tcache_struct s') (unat tc_idx) = counts (tcache_struct s) (unat tc_idx) + 1
          \<and> (nb \<le> unsorted_chunks av - victim
               \<and> unsorted_chunks av - victim \<le> 0xFFFFFFFFFFFFFFD8
               \<and> nb \<le> bk (mem s) victim - victim
               \<and> bk (mem s) victim - victim \<le> 0xFFFFFFFFFFFFFFD8
               \<and> (bk (mem s) victim - victim \<le> unsorted_chunks av - victim
                    \<or> unsorted_chunks av - victim + 16 \<le> bk (mem s) victim - victim)
              \<longrightarrow> bk (mem s') (unsorted_chunks av) = bk (mem s) victim
                  \<and> fd (mem s') (bk (mem s) victim) = unsorted_chunks av
                  \<and> prev_inuse (mem s') (victim + nb)
                  \<and> chunksize_nomask (mem s') victim
                       = (if av \<noteq> main_arena s
                          then chunksize_nomask (mem s) victim OR NON_MAIN_ARENA
                          else chunksize_nomask (mem s) victim)
                  \<and> load64 (mem s') (chunk2mem victim) = entries (tcache_struct s) (unat tc_idx)
                  \<and> load64 (mem s') (chunk2mem victim + 8) = tcache s)
          \<and> (bk (mem s) victim = unsorted_chunks av \<and> nb \<le> unsorted_chunks av - victim
               \<and> unsorted_chunks av - victim \<le> 0xFFFFFFFFFFFFFFD8
              \<longrightarrow> (\<exists>t. unsorted_drain av nb bytes tcache_nb tc_idx s l
                            = Some (Inl (Return (chunk2mem victim) t))
                       \<and> tcache_struct t = tcache_struct s
                       \<and> prev_inuse (mem t) (victim + nb)
                       \<and> fd (mem t) (unsorted_chunks av) = unsorted_chunks av
                       \<and> bk (mem t) (unsorted_chunks av) = unsorted_chunks av))))
   \<and> (return_cached k \<and> bk (mem t) (unsorted_chunks av) = unsorted_chunks av
      \<longrightarrow> unsorted_drain av nb bytes tcache_nb tc_idx t k = Some (Inl (tcache_get t tc_idx)))
   \<and> (return_cached k \<and> bk (mem t) (unsorted_chunks av) = v \<and> v \<noteq> unsorted_chunks av
        \<and> unsorted_checks t av v = None
        \<and> \<not> (in_smallbin_range nb \<and> bk (mem t) v = unsorted_chunks av
               \<and> v = last_remainder (arena t av) \<and> nb + MINSIZE < chunksize (mem t) v)
        \<and> chunksize (mem t) v \<noteq> nb
        \<and> bin_link av v (chunksize (mem t) v) (unsorted_remove av v t) = Some (Inr t')
      \<longrightarrow> unsorted_drain av nb bytes tcache_nb tc_idx t k
           = (if 0 < tcache_unsorted_limit (mp t')
                 \<and> tcache_unsorted_limit (mp t') < tcache_unsorted_count k + 1
              then Some (Inl (tcache_get t' tc_idx))
              else if MAX_ITERS \<le> iters k + 1 then Some (Inl (tcache_get t' tc_idx))
              else unsorted_drain av nb bytes tcache_nb tc_idx t'
                     (k\<lparr>tcache_unsorted_count := tcache_unsorted_count k + 1,
                        iters := iters k + 1\<rparr>)))"
proof (intro conjI)
  show "bk (mem s) (unsorted_chunks av) = victim \<and> victim \<noteq> unsorted_chunks av
      \<and> unsorted_checks s av victim = None \<and> chunksize (mem s) victim = nb
      \<and> tcache_nb \<noteq> 0
      \<and> ucast (counts (tcache_struct s) (unat tc_idx)) < tcache_count (mp s)
    \<longrightarrow> (let s' = tcache_put (take_exact av victim nb (unsorted_remove av victim s)) victim tc_idx
         in drain_body av nb bytes tcache_nb tc_idx victim s l
              = Some (Step_continue s' (l\<lparr>return_cached := True\<rparr>))
          \<and> unsorted_drain av nb bytes tcache_nb tc_idx s l
              = unsorted_drain av nb bytes tcache_nb tc_idx s' (l\<lparr>return_cached := True\<rparr>)
          \<and> entries (tcache_struct s') (unat tc_idx) = chunk2mem victim
          \<and> counts (tcache_struct s') (unat tc_idx) = counts (tcache_struct s) (unat tc_idx) + 1
          \<and> (nb \<le> unsorted_chunks av - victim
               \<and> unsorted_chunks av - victim \<le> 0xFFFFFFFFFFFFFFD8
               \<and> nb \<le> bk (mem s) victim - victim
               \<and> bk (mem s) victim - victim \<le> 0xFFFFFFFFFFFFFFD8
               \<and> (bk (mem s) victim - victim \<le> unsorted_chunks av - victim
                    \<or> unsorted_chunks av - victim + 16 \<le> bk (mem s) victim - victim)
              \<longrightarrow> bk (mem s') (unsorted_chunks av) = bk (mem s) victim
                  \<and> fd (mem s') (bk (mem s) victim) = unsorted_chunks av
                  \<and> prev_inuse (mem s') (victim + nb)
                  \<and> chunksize_nomask (mem s') victim
                       = (if av \<noteq> main_arena s
                          then chunksize_nomask (mem s) victim OR NON_MAIN_ARENA
                          else chunksize_nomask (mem s) victim)
                  \<and> load64 (mem s') (chunk2mem victim) = entries (tcache_struct s) (unat tc_idx)
                  \<and> load64 (mem s') (chunk2mem victim + 8) = tcache s)
          \<and> (bk (mem s) victim = unsorted_chunks av \<and> nb \<le> unsorted_chunks av - victim
               \<and> unsorted_chunks av - victim \<le> 0xFFFFFFFFFFFFFFD8
              \<longrightarrow> (\<exists>t. unsorted_drain av nb bytes tcache_nb tc_idx s l
                            = Some (Inl (Return (chunk2mem victim) t))
                       \<and> tcache_struct t = tcache_struct s
                       \<and> prev_inuse (mem t) (victim + nb)
                       \<and> fd (mem t) (unsorted_chunks av) = unsorted_chunks av
                       \<and> bk (mem t) (unsorted_chunks av) = unsorted_chunks av)))"
  proof
    assume a: "bk (mem s) (unsorted_chunks av) = victim \<and> victim \<noteq> unsorted_chunks av
      \<and> unsorted_checks s av victim = None \<and> chunksize (mem s) victim = nb
      \<and> tcache_nb \<noteq> 0
      \<and> ucast (counts (tcache_struct s) (unat tc_idx)) < tcache_count (mp s)"
    define s' where "s' = tcache_put (take_exact av victim nb (unsorted_remove av victim s)) victim tc_idx"
    have b: "drain_body av nb bytes tcache_nb tc_idx victim s l
              = Some (Step_continue s' (l\<lparr>return_cached := True\<rparr>))"
      unfolding s'_def using a by (intro drain_body_exact) simp_all
    have d: "unsorted_drain av nb bytes tcache_nb tc_idx s l
              = unsorted_drain av nb bytes tcache_nb tc_idx s' (l\<lparr>return_cached := True\<rparr>)"
      using a by (subst unsorted_drain.simps) (simp add: b)
    have e: "entries (tcache_struct s') (unat tc_idx) = chunk2mem victim"
      "counts (tcache_struct s') (unat tc_idx) = counts (tcache_struct s) (unat tc_idx) + 1"
      by (simp_all add: s'_def tcache_put_def Let_def take_exact_frame)
    have nb: "24 \<le> nb"
      using unsorted_checks_NoneD(2)[of s av victim] chunksize_ge24[of "mem s" victim] a
      by simp
    have m: "bk (mem s') (unsorted_chunks av) = bk (mem s) victim
                  \<and> fd (mem s') (bk (mem s) victim) = unsorted_chunks av
                  \<and> prev_inuse (mem s') (victim + nb)
                  \<and> chunksize_nomask (mem s') victim
                       = (if av \<noteq> main_arena s
                          then chunksize_nomask (mem s) victim OR NON_MAIN_ARENA
                          else chunksize_nomask (mem s) victim)
                  \<and> load64 (mem s') (chunk2mem victim) = entries (tcache_struct s) (unat tc_idx)
                  \<and> load64 (mem s') (chunk2mem victim + 8) = tcache s"
      if h: "nb \<le> unsorted_chunks av - victim
               \<and> unsorted_chunks av - victim \<le> 0xFFFFFFFFFFFFFFD8
               \<and> nb \<le> bk (mem s) victim - victim
               \<and> bk (mem s) victim - victim \<le> 0xFFFFFFFFFFFFFFD8
               \<and> (bk (mem s) victim - victim \<le> unsorted_chunks av - victim
                    \<or> unsorted_chunks av - victim + 16 \<le> bk (mem s) victim - victim)"
    proof -
      have h1: "nb \<le> unsorted_chunks av - victim" using h by (rule conjunct1)
      have h2: "unsorted_chunks av - victim \<le> 0xFFFFFFFFFFFFFFD8"
        using h by (elim conjE)
      have h3: "nb \<le> bk (mem s) victim - victim" using h by (elim conjE)
      have h4: "bk (mem s) victim - victim \<le> 0xFFFFFFFFFFFFFFD8" using h by (elim conjE)
      have h5: "bk (mem s) victim - victim \<le> unsorted_chunks av - victim
                    \<or> unsorted_chunks av - victim + 16 \<le> bk (mem s) victim - victim"
        using h by (elim conjE)
      note c = cached_state_reads[OF nb h1 h2 h3 h4 h5 refl s'_def]
      show ?thesis
        by (intro conjI) (rule c)+
    qed
    have r: "\<exists>t. unsorted_drain av nb bytes tcache_nb tc_idx s l
                            = Some (Inl (Return (chunk2mem victim) t))
                       \<and> tcache_struct t = tcache_struct s
                       \<and> prev_inuse (mem t) (victim + nb)
                       \<and> fd (mem t) (unsorted_chunks av) = unsorted_chunks av
                       \<and> bk (mem t) (unsorted_chunks av) = unsorted_chunks av"
      if h: "bk (mem s) victim = unsorted_chunks av \<and> nb \<le> unsorted_chunks av - victim
               \<and> unsorted_chunks av - victim \<le> 0xFFFFFFFFFFFFFFD8"
    proof -
      have "16 < nb"
        using unsorted_checks_NoneD(2)[of s av victim] a by (simp add: SIZE_SZ_def)
      then have "bk (mem s') (unsorted_chunks av) = unsorted_chunks av"
        unfolding s'_def using h by (intro sole_exact_bin_empty) simp_all
      then have "unsorted_drain av nb bytes tcache_nb tc_idx s' (l\<lparr>return_cached := True\<rparr>)
          = Some (Inl (tcache_get s' tc_idx))"
        by (intro unsorted_drain_end) simp_all
      moreover have h1: "nb \<le> unsorted_chunks av - victim" using h by (elim conjE)
      moreover have h2: "unsorted_chunks av - victim \<le> 0xFFFFFFFFFFFFFFD8"
        using h by (elim conjE)
      moreover have h3: "bk (mem s) victim = unsorted_chunks av" using h by (rule conjunct1)
      ultimately show ?thesis
        using sole_exact_returned[OF nb h1 h2 refl h3 s'_def]
        unfolding d by simp
    qed
    show "let s' = tcache_put (take_exact av victim nb (unsorted_remove av victim s)) victim tc_idx
         in drain_body av nb bytes tcache_nb tc_idx victim s l
              = Some (Step_continue s' (l\<lparr>return_cached := True\<rparr>))
          \<and> unsorted_drain av nb bytes tcache_nb tc_idx s l
              = unsorted_drain av nb bytes tcache_nb tc_idx s' (l\<lparr>return_cached := True\<rparr>)
          \<and> entries (tcache_struct s') (unat tc_idx) = chunk2mem victim
          \<and> counts (tcache_struct s') (unat tc_idx) = counts (tcache_struct s) (unat tc_idx) + 1
          \<and> (nb \<le> unsorted_chunks av - victim
               \<and> unsorted_chunks av - victim \<le> 0xFFFFFFFFFFFFFFD8
               \<and> nb \<le> bk (mem s) victim - victim
               \<and> bk (mem s) victim - victim \<le> 0xFFFFFFFFFFFFFFD8
               \<and> (bk (mem s) victim - victim \<le> unsorted_chunks av - victim
                    \<or> unsorted_chunks av - victim + 16 \<le> bk (mem s) victim - victim)
              \<longrightarrow> bk (mem s') (unsorted_chunks av) = bk (mem s) victim
                  \<and> fd (mem s') (bk (mem s) victim) = unsorted_chunks av
                  \<and> prev_inuse (mem s') (victim + nb)
                  \<and> chunksize_nomask (mem s') victim
                       = (if av \<noteq> main_arena s
                          then chunksize_nomask (mem s) victim OR NON_MAIN_ARENA
                          else chunksize_nomask (mem s) victim)
                  \<and> load64 (mem s') (chunk2mem victim) = entries (tcache_struct s) (unat tc_idx)
                  \<and> load64 (mem s') (chunk2mem victim + 8) = tcache s)
          \<and> (bk (mem s) victim = unsorted_chunks av \<and> nb \<le> unsorted_chunks av - victim
               \<and> unsorted_chunks av - victim \<le> 0xFFFFFFFFFFFFFFD8
              \<longrightarrow> (\<exists>t. unsorted_drain av nb bytes tcache_nb tc_idx s l
                            = Some (Inl (Return (chunk2mem victim) t))
                       \<and> tcache_struct t = tcache_struct s
                       \<and> prev_inuse (mem t) (victim + nb)
                       \<and> fd (mem t) (unsorted_chunks av) = unsorted_chunks av
                       \<and> bk (mem t) (unsorted_chunks av) = unsorted_chunks av))"
      unfolding Let_def s'_def[symmetric] using b d e m r by blast
  qed
next
  show "return_cached k \<and> bk (mem t) (unsorted_chunks av) = unsorted_chunks av
      \<longrightarrow> unsorted_drain av nb bytes tcache_nb tc_idx t k = Some (Inl (tcache_get t tc_idx))"
    using unsorted_drain_end[of k t av nb bytes tcache_nb tc_idx] by blast
next
  show "return_cached k \<and> bk (mem t) (unsorted_chunks av) = v \<and> v \<noteq> unsorted_chunks av
        \<and> unsorted_checks t av v = None
        \<and> \<not> (in_smallbin_range nb \<and> bk (mem t) v = unsorted_chunks av
               \<and> v = last_remainder (arena t av) \<and> nb + MINSIZE < chunksize (mem t) v)
        \<and> chunksize (mem t) v \<noteq> nb
        \<and> bin_link av v (chunksize (mem t) v) (unsorted_remove av v t) = Some (Inr t')
      \<longrightarrow> unsorted_drain av nb bytes tcache_nb tc_idx t k
           = (if 0 < tcache_unsorted_limit (mp t')
                 \<and> tcache_unsorted_limit (mp t') < tcache_unsorted_count k + 1
              then Some (Inl (tcache_get t' tc_idx))
              else if MAX_ITERS \<le> iters k + 1 then Some (Inl (tcache_get t' tc_idx))
              else unsorted_drain av nb bytes tcache_nb tc_idx t'
                     (k\<lparr>tcache_unsorted_count := tcache_unsorted_count k + 1,
                        iters := iters k + 1\<rparr>))"
    using unsorted_drain_binned[of k t av v nb t' bytes tcache_nb tc_idx] by blast
qed

lemma st5_reads:
  "bk (mem st5) 0x100060 = 0x603000"
  "fd (mem st5) 0x100060 = 0x603000"
  "bk (mem st5) 0x603000 = 0x100060"
  "fd (mem st5) 0x603000 = 0x100060"
  "chunksize (mem st5) 0x603000 = 0x20"
  "chunksize_nomask (mem st5) 0x603020 = 0x20"
  "prev_size (mem st5) 0x603020 = 0x20"
  "system_mem (arena st5 0x100000) = 0x21000"
  "main_arena st5 = 0x100000"
  "tcache st5 = 0x602010"
  "counts (tcache_struct st5) 0 = 0"
  "entries (tcache_struct st5) 0 = 0"
  "tcache_count (mp st5) = 7"
  "tcache_unsorted_limit (mp st5) = 0"
  "bk (mem st5) 0x100070 = 0x100070"
  by (simp_all add: st5_def st0_def heap5_def arena0_def mp0_def TCACHE_FILL_COUNT_def bk_def
      fd_def chunksize_def chunksize_nomask_def prev_size_def cs_masks consts_simps mem_simps)

lemma st5_checks: "unsorted_checks st5 0x100000 0x603000 = None"
  by (simp add: unsorted_checks_def Let_def chunk_at_offset_def st5_reads unsorted_100000
      prev_inuse_def cs_masks SIZE_SZ_def)

lemma st5_put:
  "tcache_put (take_exact 0x100000 0x603000 0x20 (unsorted_remove 0x100000 0x603000 st5))
     0x603000 0 = st5_cached"
  by (simp add: tcache_put_def take_exact_def unsorted_remove_def Let_def st5_reads
      unsorted_100000 set_bk_def set_fd_def set_inuse_bit_at_offset_def set_head_def
      chunksize_nomask_def chunk2mem_def SIZE_SZ_def cs_masks st5_cached_def)
    (simp add: st5_def st0_def heap5_def mem_simps)

lemma st5_get: "tcache_get st5_cached 0 = Return 0x603010 st5_returned"
  by (simp add: tcache_get_def Let_def st5_cached_def st5_returned_def st5_def st0_def
      mem_simps fun_upd_idem)


lemma st5_cached_reads:
  "bk (mem st5_cached) 0x100060 = 0x100060"
  "tcache_unsorted_limit (mp st5_cached) = 0"
  by (simp_all add: st5_cached_def st5_def st0_def heap5_def mp0_def bk_def SIZE_SZ_def
      mem_simps)

lemma st5b_reads:
  "bk (mem st5b) 0x100060 = 0x603000"
  "bk (mem st5b) 0x603000 = 0x603040"
  "fd (mem st5b) 0x603040 = 0x603000"
  "fd (mem st5b) 0x603000 = 0x100060"
  "chunksize (mem st5b) 0x603000 = 0x20"
  "chunksize_nomask (mem st5b) 0x603020 = 0x20"
  "prev_size (mem st5b) 0x603020 = 0x20"
  "system_mem (arena st5b 0x100000) = 0x21000"
  "main_arena st5b = 0x100000"
  "tcache st5b = 0x602010"
  "counts (tcache_struct st5b) 0 = 0"
  "entries (tcache_struct st5b) 0 = 0"
  "tcache_count (mp st5b) = 7"
  "bk (mem st5b) 0x100070 = 0x100070"
  "chunksize_nomask (mem st5b) 0x603000 = 0x21"
  by (simp_all add: st5b_def st0_def heap5b_def arena0_def mp0_def TCACHE_FILL_COUNT_def bk_def
      fd_def chunksize_def chunksize_nomask_def prev_size_def cs_masks consts_simps mem_simps)

lemma st5b_checks: "unsorted_checks st5b 0x100000 0x603000 = None"
  by (simp add: unsorted_checks_def Let_def chunk_at_offset_def st5b_reads unsorted_100000
      prev_inuse_def cs_masks SIZE_SZ_def)

lemma st5b_put:
  "tcache_put (take_exact 0x100000 0x603000 0x20 (unsorted_remove 0x100000 0x603000 st5b))
     0x603000 0 = st5b_cached"
  by (simp add: tcache_put_def take_exact_def unsorted_remove_def Let_def st5b_reads
      unsorted_100000 set_bk_def set_fd_def set_inuse_bit_at_offset_def set_head_def
      chunksize_nomask_def chunk2mem_def SIZE_SZ_def cs_masks st5b_cached_def)
    (simp add: st5b_def st0_def heap5b_def mem_simps)

lemma st5b_cached_reads:
  "bk (mem st5b_cached) 0x100060 = 0x603040"
  "fd (mem st5b_cached) 0x100060 = 0x603040"
  "bk (mem st5b_cached) 0x603040 = 0x100060"
  "fd (mem st5b_cached) 0x603040 = 0x100060"
  "chunksize (mem st5b_cached) 0x603040 = 0x40"
  "chunksize_nomask (mem st5b_cached) 0x603080 = 0x20"
  "prev_size (mem st5b_cached) 0x603080 = 0x40"
  "fd (mem st5b_cached) 0x100090 = 0x100090"
  "system_mem (arena st5b_cached 0x100000) = 0x21000"
  "last_remainder (arena st5b_cached 0x100000) = 0"
  "tcache_unsorted_limit (mp st5b_cached) = 0"
  by (simp_all add: st5b_cached_def st5b_def st0_def heap5b_def arena0_def mp0_def bk_def
      fd_def chunksize_def chunksize_nomask_def prev_size_def cs_masks consts_simps mem_simps)

lemma st5b_cached_checks: "unsorted_checks st5b_cached 0x100000 0x603040 = None"
  by (simp add: unsorted_checks_def Let_def chunk_at_offset_def st5b_cached_reads
      unsorted_100000 prev_inuse_def cs_masks SIZE_SZ_def)

lemma st5b_link:
  "bin_link 0x100000 0x603040 0x40 (unsorted_remove 0x100000 0x603040 st5b_cached)
     = Some (Inr st5b_binned)"
proof -
  have r: "unsorted_remove 0x100000 0x603040 st5b_cached
     = st5b_cached\<lparr>mem := store64 (store64 (mem st5b_cached) 0x100078 0x100060)
                               0x100070 0x100060\<rparr>"
    by (simp add: unsorted_remove_def Let_def st5b_cached_reads unsorted_100000 set_bk_def
        set_fd_def SIZE_SZ_def)
  have f: "fd (store64 (store64 (mem st5b_cached) 0x100078 0x100060) 0x100070 0x100060)
             0x100090 = 0x100090"
    using st5b_cached_reads(8) by (simp add: fd_def SIZE_SZ_def mem_simps)
  show ?thesis
    unfolding r
    by (simp add: bin_link_def place_chunk_def in_smallbin_range_def MIN_LARGE_SIZE_val bin4
        Let_def f mark_bin_def upd_arena_def set_bk_def set_fd_def SIZE_SZ_def)
      (simp add: st5b_binned_def st5b_cached_def st5b_def st0_def arena0_def)
qed

lemma st5b_binned_reads:
  "bk (mem st5b_binned) 0x100060 = 0x100060"
  "bk (mem st5b_binned) 0x100090 = 0x603040"
  "tcache_unsorted_limit (mp st5b_binned) = 0"
  "entries (tcache_struct st5b_binned) 0 = 0x603010"
  "counts (tcache_struct st5b_binned) 0 = 1"
  "chunksize_nomask (mem st5b_binned) 0x603000 = 0x21"
  by (simp_all add: st5b_binned_def st5b_cached_def st5b_def st0_def heap5b_def mp0_def bk_def
      chunksize_nomask_def SIZE_SZ_def mem_simps)



lemma st5_fields:
  "fastbinsY (arena st5 0x100000) 0 = 0" "tcache st5 \<noteq> 0" "single_thread st5"
  "get_max_fast st5 = 0x80" "tcache_bins (mp st5) = 64"
  "fastbinsY (arena st5b 0x100000) 0 = 0" "tcache st5b \<noteq> 0" "single_thread st5b"
  "get_max_fast st5b = 0x80" "tcache_bins (mp st5b) = 64"
  by (simp_all add: st5_def st5b_def st0_def arena0_def mp0_def get_max_fast_def
      TCACHE_MAX_BINS_def)

lemma st5_to_loop:
  "int_malloc env0 0x100000 24 st5
     = int_malloc_loop env0 0x100000 0x20 24 0x20 0 2 st5
         \<lparr>iters = 0, return_cached = False, tcache_unsorted_count = 0\<rparr>"
proof -
  have f: "int_malloc_fast 0x100000 0x20 24 st5 = Some None"
    by (simp add: int_malloc_fast_def Let_def st5_fields small_20)
  show ?thesis
    using int_malloc_small_to_loop[OF request_24 _ f small_20(1), of env0]
    by (simp add: small_20 st5_reads st5_fields)
qed

lemma st5b_to_loop:
  "int_malloc env0 0x100000 24 st5b
     = int_malloc_loop env0 0x100000 0x20 24 0x20 0 2 st5b
         \<lparr>iters = 0, return_cached = False, tcache_unsorted_count = 0\<rparr>"
proof -
  have f: "int_malloc_fast 0x100000 0x20 24 st5b = Some None"
    by (simp add: int_malloc_fast_def Let_def st5_fields small_20)
  show ?thesis
    using int_malloc_small_to_loop[OF request_24 _ f small_20(1), of env0]
    by (simp add: small_20 st5b_reads st5_fields)
qed

lemma st5_step:
  "drain_body 0x100000 0x20 24 0x20 0 0x603000 st5
       \<lparr>iters = 0, return_cached = False, tcache_unsorted_count = 0\<rparr>
     = Some (Step_continue st5_cached
         \<lparr>iters = 0, return_cached = True, tcache_unsorted_count = 0\<rparr>)"
  using drain_body_exact[of st5 "0x100000" "0x603000" "0x20" "0x20" 0 24
      "\<lparr>iters = 0, return_cached = False, tcache_unsorted_count = 0\<rparr>"] st5_checks
  by (simp add: st5_reads st5_put)

lemma st5_drain:
  "unsorted_drain 0x100000 0x20 24 0x20 0 st5
       \<lparr>iters = 0, return_cached = False, tcache_unsorted_count = 0\<rparr>
     = Some (Inl (Return 0x603010 st5_returned))"
proof -
  let ?l1 = "\<lparr>iters = 0, return_cached = True, tcache_unsorted_count = 0\<rparr>"
  have e: "unsorted_drain 0x100000 0x20 24 0x20 0 st5_cached ?l1
      = Some (Inl (Return 0x603010 st5_returned))"
    by (subst unsorted_drain.simps)
      (simp add: unsorted_100000 st5_cached_reads drain_exit_def st5_get)
  show ?thesis
    using e by (subst unsorted_drain.simps) (simp add: unsorted_100000 st5_reads st5_step)
qed

lemma st5_returned_reads:
  "chunksize_nomask (mem st5_returned) 0x603000 = 0x21"
  "tcache_struct st5_returned = tcache_struct st5"
  by (simp_all add: st5_returned_def st5_def st0_def heap5_def chunksize_nomask_def SIZE_SZ_def
      mem_simps)

lemma st5_malloc: "libc_malloc env0 24 st5 = Some (Return 0x603010 st5_returned)"
proof -
  have k: "malloc_hook env0 = None"
    by (simp add: env0_def)
  have "int_malloc env0 0x100000 24 st5 = Some (Return 0x603010 st5_returned)"
    unfolding st5_to_loop by (rule int_malloc_loop_drain) (simp add: st5_drain)
  then show ?thesis
    by (intro libc_malloc_main[where tb = "0x20"])
      (simp_all add: k request_24 st5_fields st5_reads small_20 mem2chunk_603010
        chunk_main_arena_def st5_returned_reads cs_masks)
qed

theorem exact_fit_cached_witness:
  "bk (mem st5) (unsorted_chunks 0x100000) = 0x603000
   \<and> unsorted_checks st5 0x100000 0x603000 = None
   \<and> chunksize (mem st5) 0x603000 = 0x20
   \<and> ucast (counts (tcache_struct st5) (unat (0 :: 64 word))) < tcache_count (mp st5)
   \<and> bk (mem st5) 0x603000 = unsorted_chunks 0x100000
   \<and> (0x20 :: 64 word) \<le> unsorted_chunks 0x100000 - 0x603000
   \<and> unsorted_chunks 0x100000 - (0x603000 :: 64 word) \<le> 0xFFFFFFFFFFFFFFD8
   \<and> libc_malloc env0 24 st5 = Some (Return 0x603010 st5_returned)
   \<and> tcache_struct st5_returned = tcache_struct st5
   \<and> prev_inuse (mem st5_returned) 0x603020
   \<and> fd (mem st5_returned) 0x100060 = 0x100060
   \<and> bk (mem st5_returned) 0x100060 = 0x100060
   \<and> bk (mem st5b) (unsorted_chunks 0x100000) = 0x603000
   \<and> unsorted_checks st5b 0x100000 0x603000 = None
   \<and> chunksize (mem st5b) 0x603000 = 0x20
   \<and> ucast (counts (tcache_struct st5b) (unat (0 :: 64 word))) < tcache_count (mp st5b)
   \<and> (0x20 :: 64 word) \<le> bk (mem st5b) 0x603000 - 0x603000
   \<and> bk (mem st5b) 0x603000 - 0x603000 \<le> 0xFFFFFFFFFFFFFFD8
   \<and> bk (mem st5b) 0x603000 - 0x603000 \<le> unsorted_chunks 0x100000 - 0x603000
   \<and> bk (mem st5b_cached) 0x100060 = 0x603040
   \<and> fd (mem st5b_cached) 0x603040 = 0x100060
   \<and> prev_inuse (mem st5b_cached) 0x603020
   \<and> chunksize_nomask (mem st5b_cached) 0x603000 = 0x21
   \<and> load64 (mem st5b_cached) 0x603010 = 0
   \<and> load64 (mem st5b_cached) 0x603018 = 0x602010
   \<and> entries (tcache_struct st5b_cached) 0 = 0x603010
   \<and> counts (tcache_struct st5b_cached) 0 = 1
   \<and> unsorted_checks st5b_cached 0x100000 0x603040 = None
   \<and> bin_link 0x100000 0x603040 (chunksize (mem st5b_cached) 0x603040)
        (unsorted_remove 0x100000 0x603040 st5b_cached) = Some (Inr st5b_binned)
   \<and> (\<exists>t. libc_malloc env0 24 st5b = Some (Return 0x603010 t)
          \<and> tcache_get st5b_binned 0 = Return 0x603010 t)
   \<and> unsorted_drain 0x100000 0x20 24 0x20 0 st5b_cached
        \<lparr>iters = 9999, return_cached = True, tcache_unsorted_count = 9999\<rparr>
      = Some (Inl (tcache_get st5b_binned 0))"
proof -
  let ?l0 = "\<lparr>iters = 0, return_cached = False, tcache_unsorted_count = 0\<rparr>"
  let ?l1 = "\<lparr>iters = 0, return_cached = True, tcache_unsorted_count = 0\<rparr>"
  let ?l2 = "\<lparr>iters = 1, return_cached = True, tcache_unsorted_count = 1\<rparr>"
  let ?l9 = "\<lparr>iters = 9999, return_cached = True, tcache_unsorted_count = 9999\<rparr>"
  let ?p5 = "tcache_put (take_exact 0x100000 0x603000 0x20
             (unsorted_remove 0x100000 0x603000 st5)) 0x603000 0"
  let ?p5b = "tcache_put (take_exact 0x100000 0x603000 0x20
             (unsorted_remove 0x100000 0x603000 st5b)) 0x603000 0"
  have h5: "bk (mem st5) (unsorted_chunks 0x100000) = 0x603000"
    "ucast (counts (tcache_struct st5) (unat (0 :: 64 word))) < tcache_count (mp st5)"
    "bk (mem st5) 0x603000 = unsorted_chunks 0x100000"
    "(0x603000 :: 64 word) \<noteq> unsorted_chunks 0x100000"
    "(0x20 :: 64 word) \<le> unsorted_chunks 0x100000 - 0x603000"
    "unsorted_chunks 0x100000 - (0x603000 :: 64 word) \<le> 0xFFFFFFFFFFFFFFD8"
    by (simp_all add: unsorted_100000 st5_reads)
  have nz: "(0x20 :: 64 word) \<noteq> 0" by simp
  have w0: "\<exists>t. unsorted_drain 0x100000 0x20 24 0x20 0 st5 ?l0
             = Some (Inl (Return (chunk2mem 0x603000) t))
          \<and> tcache_struct t = tcache_struct st5
          \<and> prev_inuse (mem t) (0x603000 + 0x20)
          \<and> fd (mem t) (unsorted_chunks 0x100000) = unsorted_chunks 0x100000
          \<and> bk (mem t) (unsorted_chunks 0x100000) = unsorted_chunks 0x100000"
    using exact_fit_cached[where s = st5 and av = "0x100000" and victim = "0x603000"
        and nb = "0x20" and tcache_nb = "0x20" and tc_idx = 0 and bytes = 24 and l = ?l0,
        unfolded Let_def]
      h5 st5_checks st5_reads(5) nz
    by blast
  have w1: "tcache_struct st5_returned = tcache_struct st5
          \<and> prev_inuse (mem st5_returned) 0x603020
          \<and> fd (mem st5_returned) 0x100060 = 0x100060
          \<and> bk (mem st5_returned) 0x100060 = 0x100060"
    using w0 by (auto simp: st5_drain unsorted_100000)
  have h5b: "bk (mem st5b) (unsorted_chunks 0x100000) = 0x603000"
    "ucast (counts (tcache_struct st5b) (unat (0 :: 64 word))) < tcache_count (mp st5b)"
    "(0x603000 :: 64 word) \<noteq> unsorted_chunks 0x100000"
    by (simp_all add: unsorted_100000 st5b_reads)
  have sep: "(0x20 :: 64 word) \<le> bk (mem st5b) 0x603000 - 0x603000"
    "bk (mem st5b) 0x603000 - 0x603000 \<le> 0xFFFFFFFFFFFFFFD8"
    "bk (mem st5b) 0x603000 - 0x603000 \<le> unsorted_chunks 0x100000 - 0x603000"
    by (simp_all add: unsorted_100000 st5b_reads)
  have "bk (mem ?p5b) (unsorted_chunks 0x100000) = bk (mem st5b) 0x603000
          \<and> fd (mem ?p5b) (bk (mem st5b) 0x603000) = unsorted_chunks 0x100000
          \<and> prev_inuse (mem ?p5b) (0x603000 + 0x20)
          \<and> chunksize_nomask (mem ?p5b) 0x603000
               = (if 0x100000 \<noteq> main_arena st5b
                  then chunksize_nomask (mem st5b) 0x603000 OR NON_MAIN_ARENA
                  else chunksize_nomask (mem st5b) 0x603000)
          \<and> load64 (mem ?p5b) (chunk2mem 0x603000) = entries (tcache_struct st5b) (unat (0 :: 64 word))
          \<and> load64 (mem ?p5b) (chunk2mem 0x603000 + 8) = tcache st5b
          \<and> entries (tcache_struct ?p5b) (unat (0 :: 64 word)) = chunk2mem 0x603000
          \<and> counts (tcache_struct ?p5b) (unat (0 :: 64 word))
               = counts (tcache_struct st5b) (unat (0 :: 64 word)) + 1"
    using exact_fit_cached[where s = st5b and av = "0x100000" and victim = "0x603000"
        and nb = "0x20" and tcache_nb = "0x20" and tc_idx = 0 and bytes = 24 and l = ?l0,
        unfolded Let_def]
      h5b st5b_checks st5b_reads(5) nz h5(5,6) sep
    by blast
  then have w2: "bk (mem st5b_cached) 0x100060 = 0x603040
      \<and> fd (mem st5b_cached) 0x603040 = 0x100060
      \<and> prev_inuse (mem st5b_cached) 0x603020
      \<and> chunksize_nomask (mem st5b_cached) 0x603000 = 0x21
      \<and> load64 (mem st5b_cached) 0x603010 = 0
      \<and> load64 (mem st5b_cached) 0x603018 = 0x602010
      \<and> entries (tcache_struct st5b_cached) 0 = 0x603010
      \<and> counts (tcache_struct st5b_cached) 0 = 1"
    unfolding st5b_put
    by (simp add: unsorted_100000 st5b_reads chunk2mem_def SIZE_SZ_def st5b_reads)
  have h5c: "bk (mem st5b_cached) (unsorted_chunks 0x100000) = 0x603040"
    "(0x603040 :: 64 word) \<noteq> unsorted_chunks 0x100000"
    "\<not> (in_smallbin_range 0x20 \<and> bk (mem st5b_cached) 0x603040 = unsorted_chunks 0x100000
         \<and> 0x603040 = last_remainder (arena st5b_cached 0x100000)
         \<and> 0x20 + MINSIZE < chunksize (mem st5b_cached) 0x603040)"
    "chunksize (mem st5b_cached) 0x603040 \<noteq> 0x20"
    "bin_link 0x100000 0x603040 (chunksize (mem st5b_cached) 0x603040)
        (unsorted_remove 0x100000 0x603040 st5b_cached) = Some (Inr st5b_binned)"
    by (simp_all add: unsorted_100000 st5b_cached_reads st5b_link)
  have h5d: "bk (mem st5b_binned) (unsorted_chunks 0x100000) = unsorted_chunks 0x100000"
    by (simp add: unsorted_100000 st5b_binned_reads)
  have rc: "return_cached ?l1" "return_cached ?l2" "return_cached ?l9"
    by simp_all
  have s3: "unsorted_drain 0x100000 0x20 24 0x20 0 st5b_binned ?l2
      = Some (Inl (tcache_get st5b_binned 0))"
    using exact_fit_cached[where av = "0x100000" and nb = "0x20" and tcache_nb = "0x20"
        and tc_idx = 0 and bytes = 24 and k = ?l2 and t = st5b_binned] h5d rc(2)
    by blast
  have "unsorted_drain 0x100000 0x20 24 0x20 0 st5b_cached ?l1
      = (if 0 < tcache_unsorted_limit (mp st5b_binned)
            \<and> tcache_unsorted_limit (mp st5b_binned) < tcache_unsorted_count ?l1 + 1
         then Some (Inl (tcache_get st5b_binned 0))
         else if MAX_ITERS \<le> iters ?l1 + 1 then Some (Inl (tcache_get st5b_binned 0))
         else unsorted_drain 0x100000 0x20 24 0x20 0 st5b_binned
                (?l1\<lparr>tcache_unsorted_count := tcache_unsorted_count ?l1 + 1,
                     iters := iters ?l1 + 1\<rparr>))"
    using exact_fit_cached[where av = "0x100000" and nb = "0x20" and tcache_nb = "0x20"
        and tc_idx = 0 and bytes = 24 and k = ?l1 and t = st5b_cached and v = "0x603040"
        and t' = st5b_binned] h5c st5b_cached_checks rc(1)
    by blast
  then have s2: "unsorted_drain 0x100000 0x20 24 0x20 0 st5b_cached ?l1
      = Some (Inl (tcache_get st5b_binned 0))"
    using s3 by (simp add: st5b_binned_reads MAX_ITERS_def)
  have "unsorted_drain 0x100000 0x20 24 0x20 0 st5b_cached ?l9
      = (if 0 < tcache_unsorted_limit (mp st5b_binned)
            \<and> tcache_unsorted_limit (mp st5b_binned) < tcache_unsorted_count ?l9 + 1
         then Some (Inl (tcache_get st5b_binned 0))
         else if MAX_ITERS \<le> iters ?l9 + 1 then Some (Inl (tcache_get st5b_binned 0))
         else unsorted_drain 0x100000 0x20 24 0x20 0 st5b_binned
                (?l9\<lparr>tcache_unsorted_count := tcache_unsorted_count ?l9 + 1,
                     iters := iters ?l9 + 1\<rparr>))"
    using exact_fit_cached[where av = "0x100000" and nb = "0x20" and tcache_nb = "0x20"
        and tc_idx = 0 and bytes = 24 and k = ?l9 and t = st5b_cached and v = "0x603040"
        and t' = st5b_binned] h5c st5b_cached_checks rc(3)
    by blast
  then have s9: "unsorted_drain 0x100000 0x20 24 0x20 0 st5b_cached ?l9
      = Some (Inl (tcache_get st5b_binned 0))"
    by (simp add: st5b_binned_reads MAX_ITERS_def)
  have "unsorted_drain 0x100000 0x20 24 0x20 0 st5b ?l0
      = unsorted_drain 0x100000 0x20 24 0x20 0 ?p5b (?l0\<lparr>return_cached := True\<rparr>)"
    using exact_fit_cached[where s = st5b and av = "0x100000" and victim = "0x603000"
        and nb = "0x20" and tcache_nb = "0x20" and tc_idx = 0 and bytes = 24 and l = ?l0,
        unfolded Let_def]
      h5b st5b_checks st5b_reads(5) nz
    by blast
  then have s1: "unsorted_drain 0x100000 0x20 24 0x20 0 st5b ?l0
      = Some (Inl (tcache_get st5b_binned 0))"
    using s2 by (simp add: st5b_put)
  define t where "t = st5b_binned
      \<lparr>tcache_struct := (tcache_struct st5b_binned)
          \<lparr>entries := (entries (tcache_struct st5b_binned))(0 := load64 (mem st5b_binned) 0x603010),
           counts := (counts (tcache_struct st5b_binned))(0 := 0)\<rparr>,
        mem := store64 (mem st5b_binned) 0x603018 0\<rparr>"
  have g: "tcache_get st5b_binned 0 = Return 0x603010 t"
    by (simp add: tcache_get_def Let_def st5b_binned_reads t_def)
  have c: "chunksize_nomask (mem t) 0x603000 = 0x21"
    using st5b_binned_reads(6)
    by (simp add: t_def chunksize_nomask_def SIZE_SZ_def mem_simps)
  have k: "malloc_hook env0 = None"
    by (simp add: env0_def)
  have "int_malloc env0 0x100000 24 st5b = Some (Return 0x603010 t)"
    unfolding st5b_to_loop by (rule int_malloc_loop_drain) (simp add: s1 g)
  then have m: "libc_malloc env0 24 st5b = Some (Return 0x603010 t)"
    by (intro libc_malloc_main[where tb = "0x20"])
      (simp_all add: k request_24 st5_fields st5b_reads small_20 mem2chunk_603010
        chunk_main_arena_def c cs_masks)
  have w3: "\<exists>t. libc_malloc env0 24 st5b = Some (Return 0x603010 t)
          \<and> tcache_get st5b_binned 0 = Return 0x603010 t"
    using m g by blast
  show ?thesis
    using w1 w2 w3 s9 h5 h5b(1,2) sep h5c(5) st5_checks st5b_checks st5b_cached_checks
      st5_reads(5) st5b_reads(5) st5_malloc
    by (intro conjI) blast+
qed

text \<open>
  C5 as stated fails: with the cap of processed chunks at zero, an exact fit that is alone
  in the unsorted bin is cached, the loop then finds the bin empty, and the chunk is
  returned from the cache with no iteration counted and no chunk processed; so ends the
  call \<open>malloc (24)\<close> in that state.
\<close>

theorem cached_return_counterexample:
  "bk (mem st5) (unsorted_chunks 0x100000) = 0x603000
   \<and> unsorted_checks st5 0x100000 0x603000 = None
   \<and> chunksize (mem st5) 0x603000 = 0x20
   \<and> ucast (counts (tcache_struct st5) (unat (0 :: 64 word))) < tcache_count (mp st5)
   \<and> drain_body 0x100000 0x20 24 0x20 0 0x603000 st5
        \<lparr>iters = 0, return_cached = False, tcache_unsorted_count = 0\<rparr>
      = Some (Step_continue st5_cached
          \<lparr>iters = 0, return_cached = True, tcache_unsorted_count = 0\<rparr>)
   \<and> bk (mem st5_cached) (unsorted_chunks 0x100000) = unsorted_chunks 0x100000
   \<and> 0 < MAX_ITERS
   \<and> tcache_unsorted_limit (mp st5_cached) = 0
   \<and> unsorted_drain 0x100000 0x20 24 0x20 0 st5
        \<lparr>iters = 0, return_cached = False, tcache_unsorted_count = 0\<rparr>
      = Some (Inl (Return 0x603010 st5_returned))
   \<and> libc_malloc env0 24 st5 = Some (Return 0x603010 st5_returned)"
  using st5_step st5_drain st5_malloc
  by (simp add: unsorted_100000 st5_reads st5_checks st5_cached_reads MAX_ITERS_def)
end
